theory Spec2Isabelle
  imports Main
begin

section \<open>JavaScript values as the two screens use them\<close>

text \<open>
  The repository is one file, \<^verbatim>\<open>Login.jsx\<close>, holding two React components: the login
  form \<^verbatim>\<open>Login\<close> and the consultation screen \<^verbatim>\<open>VideoMeeting\<close>. Their handlers are
  modelled as functions on a record of the component's state and of the browser around it.
  Every external call (HTTP, storage, the meeting SDK, alerts) appends an event to a trace,
  and takes its answer from a script held in the state, so a theorem quantified over all
  states covers every behaviour of the services.

  A value that \<^verbatim>\<open>JSON.parse\<close> or \<^verbatim>\<open>response.json()\<close> may return. A number carries the
  text that JavaScript's number-to-string conversion gives for it (zero is \<open>''0''\<close>), so
  no floating point is needed. An object is the association list of its own properties,
  each key listed once.
  \<open>undefined\<close> is \<open>None\<close> of \<open>json option\<close>.

  The messages shown to the user, which the source writes in Vietnamese, are written
  without diacritics; a logged message is cut to its fixed first words.

  A string is the list of its characters (one outside ASCII can be written as the bytes
  of its UTF-8 encoding). The handlers themselves only compare strings, concatenate them
  and test them for emptiness, which no encoding changes; the two string built-ins they
  call, \<^verbatim>\<open>trim\<close> and \<^verbatim>\<open>toUpperCase\<close>, are parameters of the browser, see below.
\<close>

datatype json =
    JNull
  | JBool bool
  | JNum string
  | JStr string
  | JArr "json list"
  | JObj "(string \<times> json) list"

text \<open>A thrown value, as the \<open>catch\<close> blocks read it. \<open>Exn\<close> is a value that has
  properties: it carries \<^verbatim>\<open>error.name\<close>, \<^verbatim>\<open>error.message\<close>, and the two fields
  \<^verbatim>\<open>error.response?.data?.message\<close> and \<^verbatim>\<open>error.response?.data?.error\<close> of an HTTP
  client's error (the empty string when absent: the handlers only compare the name with
  two non-empty names and test the others with \<open>||\<close>). \<open>Nullish\<close> is \<open>null\<close> or
  \<open>undefined\<close>, which the promise of an imported service may reject with: reading any
  property of it throws a TypeError.\<close>

datatype exn = Exn string string string string | Nullish

definition mk_Error :: "string \<Rightarrow> exn" where
  "mk_Error msg = Exn ''Error'' msg [] []"

definition mk_TypeError :: "string \<Rightarrow> exn" where
  "mk_TypeError msg = Exn ''TypeError'' msg [] []"

definition mk_SyntaxError :: "string \<Rightarrow> exn" where
  "mk_SyntaxError msg = Exn ''SyntaxError'' msg [] []"

text \<open>Truthiness (\<^verbatim>\<open>!!v\<close>) and its negation (\<^verbatim>\<open>!v\<close>).\<close>

fun truthy :: "json \<Rightarrow> bool" where
  "truthy JNull = False"
| "truthy (JBool b) = b"
| "truthy (JNum n) = (n \<noteq> ''0'')"
| "truthy (JStr s) = (s \<noteq> [])"
| "truthy (JArr xs) = True"
| "truthy (JObj kvs) = True"

fun truthy_opt :: "json option \<Rightarrow> bool" where
  "truthy_opt None = False"
| "truthy_opt (Some v) = truthy v"

definition falsy :: "json \<Rightarrow> bool" where
  "falsy v = (\<not> truthy v)"

definition falsy_opt :: "json option \<Rightarrow> bool" where
  "falsy_opt v = (\<not> truthy_opt v)"

text \<open>\<^verbatim>\<open>v.k\<close> for a value \<open>v\<close> that is not null. Only objects have the properties the
  code reads (\<open>status\<close>, \<open>accessToken\<close>, \<open>id\<close>, \<open>userId\<close>, \<open>email\<close>, \<open>surveyId\<close>,
  \<open>selectedOptionIds\<close>); on any other value the read gives \<open>undefined\<close>.\<close>

fun js_get :: "json \<Rightarrow> string \<Rightarrow> json option" where
  "js_get (JObj kvs) k = map_of kvs k"
| "js_get v k = None"

text \<open>\<^verbatim>\<open>v.k\<close> for any value: reading a property of \<open>null\<close> throws a TypeError.\<close>

definition js_prop :: "json \<Rightarrow> string \<Rightarrow> exn + json option" where
  "js_prop v k = (if v = JNull then Inl (mk_TypeError ''Cannot read properties of null'')
                  else Inr (js_get v k))"

text \<open>\<^verbatim>\<open>a || b\<close> on values that may be undefined.\<close>

definition js_or :: "json option \<Rightarrow> json option \<Rightarrow> json option" where
  "js_or a b = (if truthy_opt a then a else b)"

text \<open>\<^verbatim>\<open>String(v)\<close>, which is also what a template literal and \<^verbatim>\<open>setItem\<close> apply.
  \<open>None\<close> is the TypeError of an object whose own property \<open>toString\<close> hides the
  inherited method (a parsed value is never callable). An array joins its elements with
  commas, \<open>null\<close> elements as the empty string.\<close>

fun js_String :: "json \<Rightarrow> string option"
  and js_join :: "json list \<Rightarrow> string option" where
  "js_String JNull = Some ''null''"
| "js_String (JBool b) = Some (if b then ''true'' else ''false'')"
| "js_String (JNum n) = Some n"
| "js_String (JStr s) = Some s"
| "js_String (JArr xs) = js_join xs"
| "js_String (JObj kvs) =
     (if map_of kvs ''toString'' = None then Some ''[object Object]'' else None)"
| "js_join [] = Some []"
| "js_join (x # xs) =
     (case (if x = JNull then Some [] else js_String x) of
        None \<Rightarrow> None
      | Some s \<Rightarrow>
          (if xs = [] then Some s
           else (case js_join xs of None \<Rightarrow> None | Some r \<Rightarrow> Some (s @ '','' @ r))))"

definition js_String_opt :: "json option \<Rightarrow> string option" where
  "js_String_opt v = (case v of None \<Rightarrow> Some ''undefined'' | Some w \<Rightarrow> js_String w)"

text \<open>\<^verbatim>\<open>s.toUpperCase()\<close> and \<^verbatim>\<open>s.trim()\<close> follow the Unicode tables: white space
  outside ASCII is trimmed too, and letters outside ASCII change case. The handlers
  therefore take the two built-ins from the browser (\<open>String_trim\<close> and
  \<open>String_toUpperCase\<close> below), as they take \<^verbatim>\<open>JSON.parse\<close>, and every theorem about
  an arbitrary state holds for whatever the built-ins do. \<open>ascii_toUpperCase\<close> and
  \<open>ascii_trim\<close> are the two built-ins on ASCII text; the concrete states, which hold
  ASCII text only, run them.\<close>

definition upper_char :: "char \<Rightarrow> char" where
  "upper_char c =
     (case map_of (zip ''abcdefghijklmnopqrstuvwxyz'' ''ABCDEFGHIJKLMNOPQRSTUVWXYZ'') c of
        Some u \<Rightarrow> u
      | None \<Rightarrow> c)"

definition ascii_toUpperCase :: "string \<Rightarrow> string" where
  "ascii_toUpperCase s = map upper_char s"

definition is_space :: "char \<Rightarrow> bool" where
  "is_space c = (c \<in> set [CHR '' '', CHR 0x09, CHR 0x0A, CHR 0x0B, CHR 0x0C, CHR 0x0D])"

definition ascii_trim :: "string \<Rightarrow> string" where
  "ascii_trim s = rev (dropWhile is_space (rev (dropWhile is_space s)))"

section \<open>The browser: storage, built-ins and the trace of external effects\<close>

datatype event =
    LoginCall string string
  | GoogleLoginCall string
  | SubmitSurvey json json
  | LocalSet string string
  | LocalRemove string
  | SessionSet string string
  | SessionRemove string
  | Redirect string
  | GetAppointment string string
  | PostRefresh string
  | PutStart string string
  | PutEnd string string string
  | MeetingLeave
  | StopScreenShare
  | TrackStop nat
  | Navigate string
  | SuccessAlert string
  | ErrorAlert string
  | ConsoleError string
  | UnhandledRejection

text \<open>\<open>UnhandledRejection\<close> is the report of the browser when the promise of an
  \<open>async\<close> handler rejects: an error thrown inside the handler's own \<open>catch\<close> block
  leaves the handler, and nothing awaits it.

  \<open>JSON_parse\<close>, \<open>JSON_stringify\<close>, \<open>String_trim\<close> and \<open>String_toUpperCase\<close> are
  the built-ins, taken as parameters (\<open>None\<close>: \<^verbatim>\<open>JSON.parse\<close> throws a SyntaxError).\<close>

record browser =
  localStorage :: "string \<rightharpoonup> string"
  sessionStorage :: "string \<rightharpoonup> string"
  JSON_parse :: "string \<Rightarrow> json option"
  JSON_stringify :: "json \<Rightarrow> string"
  String_trim :: "string \<Rightarrow> string"
  String_toUpperCase :: "string \<Rightarrow> string"
  trace :: "event list"

definition emit :: "event \<Rightarrow> 'a browser_scheme \<Rightarrow> 'a browser_scheme" where
  "emit e st = st\<lparr>trace := trace st @ [e]\<rparr>"

definition console_error :: "string \<Rightarrow> 'a browser_scheme \<Rightarrow> 'a browser_scheme" where
  "console_error m st = emit (ConsoleError m) st"

definition showErrorAlert :: "string \<Rightarrow> 'a browser_scheme \<Rightarrow> 'a browser_scheme" where
  "showErrorAlert m st = emit (ErrorAlert m) st"

definition showSuccessAlert :: "string \<Rightarrow> 'a browser_scheme \<Rightarrow> 'a browser_scheme" where
  "showSuccessAlert m st = emit (SuccessAlert m) st"

definition local_setItem :: "string \<Rightarrow> string \<Rightarrow> 'a browser_scheme \<Rightarrow> 'a browser_scheme" where
  "local_setItem k v st = emit (LocalSet k v) (st\<lparr>localStorage := (localStorage st)(k \<mapsto> v)\<rparr>)"

definition local_removeItem :: "string \<Rightarrow> 'a browser_scheme \<Rightarrow> 'a browser_scheme" where
  "local_removeItem k st = emit (LocalRemove k) (st\<lparr>localStorage := (localStorage st)(k := None)\<rparr>)"

definition session_setItem :: "string \<Rightarrow> string \<Rightarrow> 'a browser_scheme \<Rightarrow> 'a browser_scheme" where
  "session_setItem k v st =
     emit (SessionSet k v) (st\<lparr>sessionStorage := (sessionStorage st)(k \<mapsto> v)\<rparr>)"

definition session_removeItem :: "string \<Rightarrow> 'a browser_scheme \<Rightarrow> 'a browser_scheme" where
  "session_removeItem k st =
     emit (SessionRemove k) (st\<lparr>sessionStorage := (sessionStorage st)(k := None)\<rparr>)"

text \<open>\<^verbatim>\<open>getItem\<close> gives \<open>null\<close> for a missing key; \<^verbatim>\<open>!s\<close> holds of \<open>null\<close> and of
  the empty string. Reading and writing the two storages always succeeds here: a browser
  that refuses storage (quota, privacy mode) is not modelled.\<close>

definition no_text :: "string option \<Rightarrow> bool" where
  "no_text s = (case s of None \<Rightarrow> True | Some t \<Rightarrow> t = [])"

section \<open>The consultation screen \<^verbatim>\<open>VideoMeeting\<close>\<close>

text \<open>An answer of \<^verbatim>\<open>fetch\<close>: the promise rejects (a network failure), or resolves to a
  response with a status code and a body (\<open>None\<close>: not JSON, \<^verbatim>\<open>response.json()\<close>
  throws).\<close>

datatype http_result = NetworkFailure | Response nat "json option"

text \<open>The object of the meeting SDK held in \<^verbatim>\<open>meetingRef.current\<close>; it always has its
  \<^verbatim>\<open>leave\<close> and \<^verbatim>\<open>stopScreenShare\<close> functions.\<close>

record meeting_session =
  localScreenShareOn :: bool

text \<open>
  The component's state variables, its ref and route parameter, and the services it calls:
  \<open>userData\<close> is what \<^verbatim>\<open>getUserData()\<close> returns (\<open>JNull\<close> for \<open>null\<close>);
  \<open>appointment_responses\<close>, \<open>refresh_responses\<close> and \<open>put_responses\<close> are the answers
  the next requests to \<^verbatim>\<open>GET /appointments/:id\<close>, \<^verbatim>\<open>POST /auth/refresh-token\<close> and
  \<^verbatim>\<open>apiService.put\<close> will get (an exhausted script answers like a network failure);
  \<^verbatim>\<open>crypto.randomUUID()\<close> returns \<open>uuid_source\<close> at \<open>uuid_count\<close>. A media stream is the
  list of its tracks. \<^verbatim>\<open>setTimeout(() => setOpenStartDialog(true), 100)\<close> is modelled as the
  state update it ends in.
\<close>

record video_meeting = browser +
  appointmentId :: string
  participantName :: string
  meetingId :: string
  isMeetingStarted :: bool
  loading :: bool
  error :: string
  isConsultant :: bool
  openStartDialog :: bool
  openEndDialog :: bool
  consultantNote :: string
  customAudioStream :: "nat list option"
  customVideoStream :: "nat list option"
  meetingRef :: "meeting_session option"
  userData :: json
  appointment_responses :: "http_result list"
  refresh_responses :: "http_result list"
  put_responses :: "exn option list"
  uuid_source :: "nat \<Rightarrow> string"
  uuid_count :: nat

definition network_error :: exn where
  "network_error = mk_TypeError ''Failed to fetch''"

definition response_ok :: "nat \<Rightarrow> bool" where
  "response_ok code = (200 \<le> code \<and> code \<le> 299)"

definition unknown_appointment :: json where
  "unknown_appointment = JObj [(''status'', JStr ''UNKNOWN'')]"

definition fetch_appointment ::
  "string \<Rightarrow> video_meeting \<Rightarrow> (exn + nat \<times> json option) \<times> video_meeting" where
  "fetch_appointment accessToken st =
     (let st1 = emit (GetAppointment (appointmentId st) accessToken) st in
      case appointment_responses st of
        [] \<Rightarrow> (Inl network_error, st1)
      | NetworkFailure # rs \<Rightarrow> (Inl network_error, st1\<lparr>appointment_responses := rs\<rparr>)
      | Response code body # rs \<Rightarrow> (Inr (code, body), st1\<lparr>appointment_responses := rs\<rparr>))"

definition fetch_refresh ::
  "string \<Rightarrow> video_meeting \<Rightarrow> (exn + nat \<times> json option) \<times> video_meeting" where
  "fetch_refresh refreshToken st =
     (let st1 = emit (PostRefresh refreshToken) st in
      case refresh_responses st of
        [] \<Rightarrow> (Inl network_error, st1)
      | NetworkFailure # rs \<Rightarrow> (Inl network_error, st1\<lparr>refresh_responses := rs\<rparr>)
      | Response code body # rs \<Rightarrow> (Inr (code, body), st1\<lparr>refresh_responses := rs\<rparr>))"

definition api_put :: "event \<Rightarrow> video_meeting \<Rightarrow> (exn + unit) \<times> video_meeting" where
  "api_put request st =
     (let st1 = emit request st in
      case put_responses st of
        [] \<Rightarrow> (Inl network_error, st1)
      | None # rs \<Rightarrow> (Inr (), st1\<lparr>put_responses := rs\<rparr>)
      | Some e # rs \<Rightarrow> (Inl e, st1\<lparr>put_responses := rs\<rparr>))"

text \<open>\<^verbatim>\<open>refreshAccessToken\<close>: the body of its \<open>try\<close>, then the \<open>catch\<close> that logs and
  throws again.\<close>

definition refreshAccessToken_try :: "video_meeting \<Rightarrow> (exn + json) \<times> video_meeting" where
  "refreshAccessToken_try st =
     (case localStorage st ''refreshToken'' of
        None \<Rightarrow> (Inl (mk_Error ''No refresh token available''), st)
      | Some refreshToken \<Rightarrow>
          if refreshToken = [] then (Inl (mk_Error ''No refresh token available''), st)
          else
            (case fetch_refresh refreshToken st of
               (Inl e, st1) \<Rightarrow> (Inl e, st1)
             | (Inr (code, body), st1) \<Rightarrow>
                 if \<not> response_ok code then (Inl (mk_Error ''Failed to refresh token''), st1)
                 else
                   (case body of
                      None \<Rightarrow> (Inl (mk_SyntaxError ''Unexpected token''), st1)
                    | Some data \<Rightarrow>
                        (case js_get data ''accessToken'' of
                           None \<Rightarrow>
                             (Inl (mk_Error ''Invalid response from refresh token API''), st1)
                         | Some token \<Rightarrow>
                             if truthy data \<and> truthy token then
                               (case js_String token of
                                  None \<Rightarrow> (Inl (mk_TypeError ''Cannot convert object''), st1)
                                | Some t \<Rightarrow> (Inr token, local_setItem ''accessToken'' t st1))
                             else
                               (Inl (mk_Error ''Invalid response from refresh token API''),
                                st1)))))"

definition refreshAccessToken :: "video_meeting \<Rightarrow> (exn + json) \<times> video_meeting" where
  "refreshAccessToken st =
     (case refreshAccessToken_try st of
        (Inl e, st1) \<Rightarrow> (Inl e, console_error ''Error refreshing token'' st1)
      | (Inr v, st1) \<Rightarrow> (Inr v, st1))"

text \<open>\<^verbatim>\<open>fetchAppointmentWithTokenRefresh(isRetry)\<close>. The result is a sum so that each
  \<open>catch\<close> of the source is a branch here.\<close>

function fetchAppointmentWithTokenRefresh ::
  "bool \<Rightarrow> video_meeting \<Rightarrow> (exn + json) \<times> video_meeting" where
  "fetchAppointmentWithTokenRefresh isRetry st =
     (case localStorage st ''accessToken'' of
        None \<Rightarrow> (Inr unknown_appointment, console_error ''No access token available'' st)
      | Some accessToken \<Rightarrow>
          if accessToken = [] then
            (Inr unknown_appointment, console_error ''No access token available'' st)
          else
            (case fetch_appointment accessToken st of
               (Inl e, st1) \<Rightarrow>
                 (Inr unknown_appointment,
                  console_error ''Error in fetchAppointmentWithTokenRefresh'' st1)
             | (Inr (code, body), st1) \<Rightarrow>
                 if code = 401 \<and> \<not> isRetry then
                   (case refreshAccessToken st1 of
                      (Inl e, st2) \<Rightarrow>
                        (Inr unknown_appointment, console_error ''Failed to refresh token'' st2)
                    | (Inr newToken, st2) \<Rightarrow>
                        (case fetchAppointmentWithTokenRefresh True st2 of
                           (Inl e, st3) \<Rightarrow>
                             (Inr unknown_appointment,
                              console_error ''Failed to refresh token'' st3)
                         | (Inr data, st3) \<Rightarrow> (Inr data, st3)))
                 else if \<not> response_ok code then
                   (Inr unknown_appointment, console_error ''API error'' st1)
                 else
                   (case body of
                      None \<Rightarrow>
                        (Inr unknown_appointment,
                         console_error ''Error in fetchAppointmentWithTokenRefresh'' st1)
                    | Some data \<Rightarrow>
                        if falsy data \<or> falsy_opt (js_get data ''status'') then
                          (Inr unknown_appointment, st1)
                        else (Inr data, st1))))"
  by pat_completeness auto
termination
  by (relation "measure (\<lambda>(isRetry, st). if isRetry then 0 else 1)") auto

declare fetchAppointmentWithTokenRefresh.simps [simp del]

text \<open>\<^verbatim>\<open>checkAppointmentStatus\<close>: the body of its \<open>try\<close>, then the \<open>catch\<close> that
  returns the default object.\<close>

definition checkAppointmentStatus_try :: "video_meeting \<Rightarrow> (exn + json) \<times> video_meeting" where
  "checkAppointmentStatus_try st =
     (if falsy (userData st) \<or> falsy_opt (js_get (userData st) ''id'') then
        (Inl (mk_Error ''Khong tim thay thong tin nguoi dung''), st)
      else fetchAppointmentWithTokenRefresh False st)"

definition checkAppointmentStatus :: "video_meeting \<Rightarrow> (exn + json) \<times> video_meeting" where
  "checkAppointmentStatus st =
     (case checkAppointmentStatus_try st of
        (Inl e, st1) \<Rightarrow>
          (Inr unknown_appointment, console_error ''Error checking appointment status'' st1)
      | (Inr data, st1) \<Rightarrow> (Inr data, st1))"

text \<open>What the catch blocks of the two confirm handlers show:
  \<^verbatim>\<open>error.response?.data?.message || error.response?.data?.error || error.message || '...'\<close>
  (\<open>None\<close>: the error is \<open>null\<close> or \<open>undefined\<close>, and reading \<^verbatim>\<open>error.response\<close>
  throws).\<close>

definition error_message :: "exn \<Rightarrow> string option" where
  "error_message e =
     (case e of
        Nullish \<Rightarrow> None
      | Exn name message resp_message resp_error \<Rightarrow>
          Some (if resp_message \<noteq> [] then resp_message
                else if resp_error \<noteq> [] then resp_error
                else if message \<noteq> [] then message
                else ''Loi khong xac dinh''))"

text \<open>\<^verbatim>\<open>stream.getTracks().forEach(track => track.stop())\<close> when the stream is set.\<close>

definition stop_tracks :: "nat list option \<Rightarrow> video_meeting \<Rightarrow> video_meeting" where
  "stop_tracks stream st =
     (case stream of None \<Rightarrow> st | Some tracks \<Rightarrow> st\<lparr>trace := trace st @ map TrackStop tracks\<rparr>)"

text \<open>\<^verbatim>\<open>if (meetingRef.current && ...) meetingRef.current.leave()\<close>.\<close>

definition leave_if_joined :: "video_meeting \<Rightarrow> video_meeting" where
  "leave_if_joined st = (case meetingRef st of None \<Rightarrow> st | Some m \<Rightarrow> emit MeetingLeave st)"

text \<open>\<^verbatim>\<open>handleOnMeetingLeave\<close> is a memoised callback: \<open>audio\<close> and \<open>video\<close> are the
  streams its closure holds. Its dependencies are the two streams, so a handler created
  at the current render passes the current ones.\<close>

definition handleOnMeetingLeave ::
  "nat list option \<Rightarrow> nat list option \<Rightarrow> video_meeting \<Rightarrow> video_meeting" where
  "handleOnMeetingLeave audio video st =
     (let st1 = leave_if_joined st;
          st2 = stop_tracks audio st1;
          st3 = stop_tracks video st2;
          st4 = st3\<lparr>meetingRef := None\<rparr>;
          st5 = st4\<lparr>isMeetingStarted := False\<rparr>
      in emit (Navigate ''/'') st5)"

text \<open>The cleanup of the unmount effect; it leaves \<^verbatim>\<open>meetingRef.current\<close> as it is.\<close>

definition unmount_cleanup :: "video_meeting \<Rightarrow> video_meeting" where
  "unmount_cleanup st =
     (let st1 =
            (case meetingRef st of
               None \<Rightarrow> st
             | Some m \<Rightarrow>
                 emit MeetingLeave (if localScreenShareOn m then emit StopScreenShare st else st));
          st2 = stop_tracks (customAudioStream st) st1
      in stop_tracks (customVideoStream st) st2)"

text \<open>\<^verbatim>\<open>onClickStartMeeting\<close>; \<open>start_status_failed\<close> is its
  \<^verbatim>\<open>catch (statusError)\<close> block.\<close>

definition start_status_failed :: "video_meeting \<Rightarrow> video_meeting" where
  "start_status_failed st =
     (console_error ''Failed to check appointment status'' st)
       \<lparr>loading := False, openStartDialog := True\<rparr>"

definition onClickStartMeeting :: "video_meeting \<Rightarrow> video_meeting" where
  "onClickStartMeeting st =
     (if String_trim st (participantName st) = [] then
        st\<lparr>error := ''Vui long nhap ten cua ban''\<rparr>
      else
        let st1 = st\<lparr>loading := True\<rparr> in
        if isConsultant st then
          (case checkAppointmentStatus st1 of
             (Inl e, st2) \<Rightarrow> start_status_failed st2
           | (Inr appointmentData, st2) \<Rightarrow>
               (case js_prop appointmentData ''status'' of
                  Inl e \<Rightarrow> start_status_failed st2
                | Inr status \<Rightarrow>
                    (case js_String_opt status of
                       None \<Rightarrow> start_status_failed st2
                     | Some appointmentStatus \<Rightarrow>
                         if String_toUpperCase st appointmentStatus = ''CONFIRMED'' then
                           st2\<lparr>loading := False, openStartDialog := True\<rparr>
                         else st2\<lparr>isMeetingStarted := True, error := [], loading := False\<rparr>)))
        else st1\<lparr>isMeetingStarted := True, error := [], loading := False\<rparr>)"

text \<open>The status read of the two confirm handlers, with its own \<open>try\<close>/\<open>catch\<close>.\<close>

definition confirm_status_read :: "video_meeting \<Rightarrow> json \<times> video_meeting" where
  "confirm_status_read st =
     (case checkAppointmentStatus st of
        (Inl e, st1) \<Rightarrow>
          (unknown_appointment, console_error ''Failed to check appointment status'' st1)
      | (Inr data, st1) \<Rightarrow> (data, st1))"

text \<open>\<^verbatim>\<open>apiService.put(`/appointments/${appointmentId}/start?consultantId=${userData.id}`, {})\<close>
  and the success alert after it.\<close>

definition start_appointment :: "video_meeting \<Rightarrow> (exn + unit) \<times> video_meeting" where
  "start_appointment st =
     (case js_String_opt (js_get (userData st) ''id'') of
        None \<Rightarrow> (Inl (mk_TypeError ''Cannot convert object''), st)
      | Some consultantId \<Rightarrow>
          (case api_put (PutStart (appointmentId st) consultantId) st of
             (Inl e, st1) \<Rightarrow> (Inl e, st1)
           | (Inr u, st1) \<Rightarrow> (Inr (), showSuccessAlert ''Bat dau buoi tu van thanh cong!'' st1)))"

text \<open>The last \<open>else\<close> of \<^verbatim>\<open>handleConfirmStartMeeting\<close>: it only warns, but the warning
  is the template literal \<^verbatim>\<open>`Appointment has status ${appointmentData.status}, ...`\<close>,
  whose conversion of the status to a string can throw.\<close>

definition other_status_warning ::
  "json option \<Rightarrow> video_meeting \<Rightarrow> (exn + unit) \<times> video_meeting" where
  "other_status_warning status st =
     (case js_String_opt status of
        None \<Rightarrow> (Inl (mk_TypeError ''Cannot convert object''), st)
      | Some s \<Rightarrow> (Inr (), st))"

definition handleConfirmStartMeeting_try :: "video_meeting \<Rightarrow> (exn + unit) \<times> video_meeting" where
  "handleConfirmStartMeeting_try st =
     (if falsy (userData st) \<or> falsy_opt (js_get (userData st) ''id'') then
        (Inl (mk_Error ''Khong tim thay thong tin nguoi dung''), st)
      else
        (case confirm_status_read st of
           (appointmentData, st1) \<Rightarrow>
             (case js_prop appointmentData ''status'' of
                Inl e \<Rightarrow> (Inl e, st1)
              | Inr status \<Rightarrow>
                  (case (if status = Some (JStr ''CONFIRMED'') then start_appointment st1
                         else if status = Some (JStr ''ON_GOING'') \<or>
                                 status = Some (JStr ''COMPLETED'') then (Inr (), st1)
                         else other_status_warning status st1) of
                     (Inl e, st2) \<Rightarrow> (Inl e, st2)
                   | (Inr u, st2) \<Rightarrow> (Inr (), st2\<lparr>isMeetingStarted := True, error := []\<rparr>)))))"

definition handleConfirmStartMeeting :: "video_meeting \<Rightarrow> video_meeting" where
  "handleConfirmStartMeeting st =
     (case handleConfirmStartMeeting_try (st\<lparr>loading := True, openStartDialog := False\<rparr>) of
        (Inl e, st1) \<Rightarrow>
          (let st2 = console_error ''Error starting appointment'' st1 in
           case error_message e of
             None \<Rightarrow> emit UnhandledRejection st2
           | Some errorMessage \<Rightarrow>
               (showErrorAlert (''Khong the bat dau buoi tu van: '' @ errorMessage) st2)
                 \<lparr>loading := False\<rparr>)
      | (Inr u, st1) \<Rightarrow> st1)"

text \<open>\<^verbatim>\<open>handleEndMeeting\<close>: \<^verbatim>\<open>checkAppointmentStatus().then(...).catch(...)\<close>.\<close>

definition end_status_failed :: "video_meeting \<Rightarrow> video_meeting" where
  "end_status_failed st =
     (console_error ''Error checking status before ending'' st)\<lparr>openEndDialog := True\<rparr>"

definition handleEndMeeting :: "video_meeting \<Rightarrow> video_meeting" where
  "handleEndMeeting st =
     (if isConsultant st then
        (case checkAppointmentStatus st of
           (Inl e, st1) \<Rightarrow> end_status_failed st1
         | (Inr appointmentData, st1) \<Rightarrow>
             (case js_prop appointmentData ''status'' of
                Inl e \<Rightarrow> end_status_failed st1
              | Inr status \<Rightarrow>
                  if status = Some (JStr ''ON_GOING'') then st1\<lparr>openEndDialog := True\<rparr>
                  else handleOnMeetingLeave (customAudioStream st) (customVideoStream st) st1))
      else handleOnMeetingLeave (customAudioStream st) (customVideoStream st) st)"

text \<open>\<^verbatim>\<open>apiService.put(`/appointments/${appointmentId}/end?consultantId=${userData.id}`,
  { consultantNote })\<close> and the success alert after it; \<open>note\<close> is the note state of the
  render that created the handler.\<close>

definition end_appointment :: "string \<Rightarrow> video_meeting \<Rightarrow> (exn + unit) \<times> video_meeting" where
  "end_appointment note st =
     (case js_String_opt (js_get (userData st) ''id'') of
        None \<Rightarrow> (Inl (mk_TypeError ''Cannot convert object''), st)
      | Some consultantId \<Rightarrow>
          (case api_put (PutEnd (appointmentId st) consultantId note) st of
             (Inl e, st1) \<Rightarrow> (Inl e, st1)
           | (Inr u, st1) \<Rightarrow>
               (Inr (), showSuccessAlert ''Hoan thanh buoi tu van thanh cong!'' st1)))"

definition handleConfirmEndMeeting_try :: "video_meeting \<Rightarrow> (exn + unit) \<times> video_meeting" where
  "handleConfirmEndMeeting_try st =
     (if falsy (userData st) \<or> falsy_opt (js_get (userData st) ''id'') then
        (Inl (mk_Error ''Khong tim thay thong tin nguoi dung''), st)
      else
        (case confirm_status_read st of
           (appointmentData, st1) \<Rightarrow>
             (case js_prop appointmentData ''status'' of
                Inl e \<Rightarrow> (Inl e, st1)
              | Inr status \<Rightarrow>
                  (case (if status = Some (JStr ''ON_GOING'')
                         then end_appointment (consultantNote st) st1
                         else (Inr (), st1)) of
                     (Inl e, st2) \<Rightarrow> (Inl e, st2)
                   | (Inr u, st2) \<Rightarrow>
                       (Inr (),
                        handleOnMeetingLeave (customAudioStream st) (customVideoStream st)
                          (leave_if_joined st2))))))"

definition handleConfirmEndMeeting :: "video_meeting \<Rightarrow> video_meeting" where
  "handleConfirmEndMeeting st =
     (case handleConfirmEndMeeting_try (st\<lparr>openEndDialog := False\<rparr>) of
        (Inl e, st1) \<Rightarrow>
          (let st2 = console_error ''Error ending appointment'' st1 in
           case error_message e of
             None \<Rightarrow> emit UnhandledRejection st2
           | Some errorMessage \<Rightarrow>
               showErrorAlert (''Khong the ket thuc buoi tu van: '' @ errorMessage) st2)
      | (Inr u, st1) \<Rightarrow> st1)"

text \<open>\<^verbatim>\<open>handleShowEndDialog\<close>, the handler the meeting container calls on leave. It is
  memoised on \<^verbatim>\<open>isConsultant\<close> alone, so the \<^verbatim>\<open>handleOnMeetingLeave\<close> it calls is the
  one of the render that created it: \<open>audio\<close> and \<open>video\<close> are the streams of that
  render.\<close>

definition show_end_status_failed :: "exn \<Rightarrow> video_meeting \<Rightarrow> video_meeting" where
  "show_end_status_failed e st =
     (let st1 = console_error ''Error checking status before ending'' st in
      case e of
        Nullish \<Rightarrow> emit UnhandledRejection st1
      | Exn name message resp_message resp_error \<Rightarrow>
          showErrorAlert
            (''Khong the kiem tra trang thai cuoc hen: '' @
               (if message \<noteq> [] then message else ''Loi khong xac dinh''))
            st1)"

definition handleShowEndDialog ::
  "nat list option \<Rightarrow> nat list option \<Rightarrow> video_meeting \<Rightarrow> video_meeting" where
  "handleShowEndDialog audio video st =
     (if isConsultant st then
        (case checkAppointmentStatus (st\<lparr>consultantNote := [], openEndDialog := True\<rparr>) of
           (Inl e, st1) \<Rightarrow> show_end_status_failed e st1
         | (Inr appointmentData, st1) \<Rightarrow>
             (case js_prop appointmentData ''status'' of
                Inl e \<Rightarrow> show_end_status_failed e st1
              | Inr status \<Rightarrow>
                  if status \<noteq> Some (JStr ''ON_GOING'') then
                    handleOnMeetingLeave audio video (st1\<lparr>openEndDialog := False\<rparr>)
                  else st1))
      else handleOnMeetingLeave audio video st)"


definition cancelEndDialog :: "video_meeting \<Rightarrow> video_meeting" where
  "cancelEndDialog st = st\<lparr>openEndDialog := False\<rparr>"

definition setConsultantNote :: "string \<Rightarrow> video_meeting \<Rightarrow> video_meeting" where
  "setConsultantNote note st = st\<lparr>consultantNote := note\<rparr>"

text \<open>\<^verbatim>\<open>getParticipantId\<close>: \<open>profile_userId\<close> is the \<open>try\<close> block that reads
  \<^verbatim>\<open>profile.id || profile.userId || profile.email\<close>, with \<open>None\<close> for \<open>undefined\<close>; the
  second component says whether its \<open>catch\<close> ran.\<close>

definition profile_userId :: "video_meeting \<Rightarrow> json option \<times> bool" where
  "profile_userId st =
     (case localStorage st ''userProfile'' of
        None \<Rightarrow> (None, False)
      | Some userProfile \<Rightarrow>
          if userProfile = [] then (None, False)
          else
            (case JSON_parse st userProfile of
               None \<Rightarrow> (None, True)
             | Some profile \<Rightarrow>
                 (case js_prop profile ''id'' of
                    Inl e \<Rightarrow> (None, True)
                  | Inr profile_id \<Rightarrow>
                      (js_or (js_or profile_id (js_get profile ''userId''))
                         (js_get profile ''email''), False))))"

definition randomUUID :: "video_meeting \<Rightarrow> string \<times> video_meeting" where
  "randomUUID st = (uuid_source st (uuid_count st), st\<lparr>uuid_count := Suc (uuid_count st)\<rparr>)"

definition getParticipantId :: "video_meeting \<Rightarrow> (exn + string option) \<times> video_meeting" where
  "getParticipantId st =
     (case profile_userId st of
        (userId, caught) \<Rightarrow>
          let st1 = (if caught then console_error ''Error parsing user profile'' st else st) in
          if truthy_opt userId then
            (case js_String_opt userId of
               None \<Rightarrow> (Inl (mk_TypeError ''Cannot convert object''), st1)
             | Some u \<Rightarrow> (Inr (Some (''user-'' @ u @ ''-meeting-'' @ meetingId st1)), st1))
          else
            let st2 =
                  (if no_text (sessionStorage st1 ''tempParticipantId'') then
                     (case randomUUID st1 of
                        (uuid, st') \<Rightarrow> session_setItem ''tempParticipantId'' uuid st')
                   else st1)
            in (Inr (sessionStorage st2 ''tempParticipantId''), st2))"

section \<open>The login form \<^verbatim>\<open>Login\<close>\<close>

record tokens =
  accessToken :: string
  refreshToken :: string

text \<open>
  The form's state, the \<^verbatim>\<open>returnUrl\<close> of the route's state (\<open>None\<close> when absent), and
  the services: \<open>login_response\<close> is the outcome of the authentication service's login
  operation, \<open>google_response\<close> the rejection or the \<^verbatim>\<open>data\<close> of the answer to
  \<^verbatim>\<open>POST /auth/google-login\<close>, \<open>submit_responses\<close> the outcomes of the next calls of
  \<^verbatim>\<open>submitSurveyResult\<close> (\<open>None\<close>: it resolves; an exhausted script rejects like a network
  failure). \<open>errors\<close> lists the keys and messages of the \<^verbatim>\<open>errors\<close> object.
\<close>

record login_page = browser +
  username :: string
  password :: string
  isLoading :: bool
  errors :: "(string \<times> string) list"
  returnUrl :: "string option"
  login_response :: "exn + tokens"
  google_response :: "exn + json"
  submit_responses :: "exn option list"

text \<open>Modelled from the spec: \<^verbatim>\<open>login\<close> of \<^verbatim>\<open>services/authService\<close> is imported by
  \<^verbatim>\<open>Login.jsx\<close> but is not among the repository's files here. The spec gives it as
  \<open>login(username, password) \<rightarrow> {accessToken, refreshToken} | failure\<close> and has the two
  tokens persisted on success; \<^verbatim>\<open>handleSubmit\<close> itself stores no token, so the helper
  does.\<close>

definition login :: "string \<Rightarrow> string \<Rightarrow> login_page \<Rightarrow> (exn + tokens) \<times> login_page" where
  "login u p st =
     (let st1 = emit (LoginCall u p) st in
      case login_response st of
        Inl e \<Rightarrow> (Inl e, st1)
      | Inr t \<Rightarrow>
          (Inr t,
           local_setItem ''refreshToken'' (refreshToken t)
             (local_setItem ''accessToken'' (accessToken t) st1)))"

text \<open>\<^verbatim>\<open>submitSurveyResult\<close> of \<^verbatim>\<open>services/surveyService\<close>: an external call whose
  outcome is a parameter.\<close>

definition submitSurveyResult ::
  "json \<Rightarrow> json \<Rightarrow> login_page \<Rightarrow> (exn + unit) \<times> login_page" where
  "submitSurveyResult surveyId selectedOptionIds st =
     (let st1 = emit (SubmitSurvey surveyId selectedOptionIds) st in
      case submit_responses st of
        [] \<Rightarrow> (Inl (mk_TypeError ''Failed to fetch''), st1)
      | None # rs \<Rightarrow> (Inr (), st1\<lparr>submit_responses := rs\<rparr>)
      | Some e # rs \<Rightarrow> (Inl e, st1\<lparr>submit_responses := rs\<rparr>))"

definition survey_result :: "bool \<Rightarrow> string \<Rightarrow> json" where
  "survey_result ok msg = JObj [(''success'', JBool ok), (''message'', JStr msg)]"

text \<open>\<^verbatim>\<open>handlePendingSurveySubmission\<close>: the body of its \<open>try\<close> (\<open>Inr\<close> of the value
  returned), then the whole function with its \<open>catch\<close>.\<close>

definition handlePendingSurveySubmission_try ::
  "login_page \<Rightarrow> (exn + bool) \<times> login_page" where
  "handlePendingSurveySubmission_try st =
     (case localStorage st ''pendingSurveySubmission'' of
        None \<Rightarrow> (Inr False, st)
      | Some storedData \<Rightarrow>
          if storedData = [] then (Inr False, st)
          else
            (case JSON_parse st storedData of
               None \<Rightarrow> (Inl (mk_SyntaxError ''Unexpected token''), st)
             | Some surveyData \<Rightarrow>
                 (case js_prop surveyData ''surveyId'' of
                    Inl e \<Rightarrow> (Inl e, st)
                  | Inr surveyId \<Rightarrow>
                      (case (surveyId, js_get surveyData ''selectedOptionIds'') of
                         (Some sid, Some opts) \<Rightarrow>
                           if falsy sid \<or> falsy opts then
                             (Inl (mk_Error ''Du lieu khao sat khong day du''), st)
                           else
                             (case submitSurveyResult sid opts st of
                                (Inl e, st1) \<Rightarrow> (Inl e, st1)
                              | (Inr u, st1) \<Rightarrow>
                                  (Inr True,
                                   local_setItem ''surveySubmissionResult''
                                     (JSON_stringify st1
                                        (survey_result True ''Luu khao sat thanh cong''))
                                     (local_removeItem ''pendingSurveySubmission'' st1)))
                       | _ \<Rightarrow> (Inl (mk_Error ''Du lieu khao sat khong day du''), st)))))"

definition handlePendingSurveySubmission :: "login_page \<Rightarrow> bool \<times> login_page" where
  "handlePendingSurveySubmission st =
     (case handlePendingSurveySubmission_try st of
        (Inl e, st1) \<Rightarrow>
          (False,
           local_removeItem ''pendingSurveySubmission''
             (local_setItem ''surveySubmissionResult''
                (JSON_stringify st1 (survey_result False ''Co loi xay ra khi luu khao sat''))
                (console_error ''Loi khi gui du lieu khao sat'' st1)))
      | (Inr b, st1) \<Rightarrow> (b, st1))"

text \<open>\<^verbatim>\<open>validateForm\<close>.\<close>

definition validateForm :: "login_page \<Rightarrow> bool \<times> login_page" where
  "validateForm st =
     (let e1 = (if String_trim st (username st) = []
                then [(''username'', ''Username la bat buoc'')]
                else []);
          e2 = (if password st = [] then [(''password'', ''Mat khau la bat buoc'')] else []);
          newErrors = e1 @ e2
      in (newErrors = [], st\<lparr>errors := newErrors\<rparr>))"

text \<open>The redirect that ends both success paths.\<close>

definition redirect_after_login :: "login_page \<Rightarrow> login_page" where
  "redirect_after_login st =
     (case sessionStorage st ''redirectAfterLogin'' of
        Some redirectAfterLogin \<Rightarrow>
          if redirectAfterLogin \<noteq> [] then
            emit (Redirect redirectAfterLogin) (session_removeItem ''redirectAfterLogin'' st)
          else if \<not> no_text (returnUrl st) then
            (case returnUrl st of Some url \<Rightarrow> emit (Redirect url) st | None \<Rightarrow> st)
          else emit (Redirect ''/'') st
      | None \<Rightarrow>
          if \<not> no_text (returnUrl st) then
            (case returnUrl st of Some url \<Rightarrow> emit (Redirect url) st | None \<Rightarrow> st)
          else emit (Redirect ''/'') st)"

text \<open>\<^verbatim>\<open>handleSubmit\<close>: its \<open>try\<close> block, then the handler with validation, \<open>catch\<close>
  and \<open>finally\<close>.\<close>

definition handleSubmit_try :: "login_page \<Rightarrow> (exn + unit) \<times> login_page" where
  "handleSubmit_try st =
     (case login (username st) (password st) st of
        (Inl e, st1) \<Rightarrow> (Inl e, st1)
      | (Inr user, st1) \<Rightarrow>
          (case handlePendingSurveySubmission (local_setItem ''loginSuccess'' ''true'' st1) of
             (flushed, st2) \<Rightarrow> (Inr (), redirect_after_login st2)))"

text \<open>The notice the \<open>catch\<close> of \<^verbatim>\<open>handleSubmit\<close> chooses by \<^verbatim>\<open>error.name\<close>
  (\<open>None\<close>: the error is \<open>null\<close> or \<open>undefined\<close>, and reading its name throws).\<close>

definition login_failure_notice :: "exn \<Rightarrow> string option" where
  "login_failure_notice e =
     (case e of
        Nullish \<Rightarrow> None
      | Exn name message resp_message resp_error \<Rightarrow>
          Some (if name = ''TypeError'' \<or> name = ''NetworkError''
                then ''Da xay ra loi khi dang nhap. Vui long thu lai sau.''
                else ''Username hoac Mat khau sai!''))"

definition handleSubmit :: "login_page \<Rightarrow> login_page" where
  "handleSubmit st =
     (case validateForm st of
        (valid, st0) \<Rightarrow>
          if \<not> valid then st0
          else
            (case handleSubmit_try (st0\<lparr>isLoading := True\<rparr>) of
               (Inl e, st1) \<Rightarrow>
                 (let st2 = console_error ''Login error'' st1 in
                  case login_failure_notice e of
                    None \<Rightarrow> emit UnhandledRejection (st2\<lparr>isLoading := False\<rparr>)
                  | Some notice \<Rightarrow> (showErrorAlert notice st2)\<lparr>isLoading := False\<rparr>)
             | (Inr u, st1) \<Rightarrow> st1\<lparr>isLoading := False\<rparr>))"

text \<open>\<^verbatim>\<open>handleGoogleLoginResponse\<close>: \<open>credential\<close> is \<^verbatim>\<open>response.credential\<close>.\<close>

definition google_login :: "string \<Rightarrow> login_page \<Rightarrow> (exn + json) \<times> login_page" where
  "google_login credential st = (google_response st, emit (GoogleLoginCall credential) st)"

definition handleGoogleLoginResponse_try ::
  "string \<Rightarrow> login_page \<Rightarrow> (exn + unit) \<times> login_page" where
  "handleGoogleLoginResponse_try credential st =
     (case google_login credential st of
        (Inl e, st1) \<Rightarrow> (Inl e, st1)
      | (Inr data, st1) \<Rightarrow>
          (case js_prop data ''accessToken'' of
             Inl e \<Rightarrow> (Inl e, st1)
           | Inr access \<Rightarrow>
               (case js_String_opt access of
                  None \<Rightarrow> (Inl (mk_TypeError ''Cannot convert object''), st1)
                | Some a \<Rightarrow>
                    (case js_String_opt (js_get data ''refreshToken'') of
                       None \<Rightarrow>
                         (Inl (mk_TypeError ''Cannot convert object''),
                          local_setItem ''accessToken'' a st1)
                     | Some r \<Rightarrow>
                         (case handlePendingSurveySubmission
                                 (local_setItem ''loginSuccess'' ''true''
                                    (local_setItem ''refreshToken'' r
                                       (local_setItem ''accessToken'' a st1))) of
                            (flushed, st2) \<Rightarrow> (Inr (), redirect_after_login st2))))))"

definition handleGoogleLoginResponse :: "string \<Rightarrow> login_page \<Rightarrow> login_page" where
  "handleGoogleLoginResponse credential st =
     (case handleGoogleLoginResponse_try credential (st\<lparr>isLoading := True\<rparr>) of
        (Inl e, st1) \<Rightarrow>
          (showErrorAlert ''Dang nhap bang Google that bai. Vui long thu lai sau.''
             (console_error ''Google login error'' st1))\<lparr>isLoading := False\<rparr>
      | (Inr u, st1) \<Rightarrow> st1\<lparr>isLoading := False\<rparr>)"

section \<open>Reading the trace\<close>

text \<open>The events a run from \<open>st\<close> to \<open>st'\<close> added, and the counts of the requests among
  them.\<close>

definition events_since :: "'a browser_scheme \<Rightarrow> 'a browser_scheme \<Rightarrow> event list" where
  "events_since st st' = drop (length (trace st)) (trace st')"

fun is_request :: "event \<Rightarrow> bool" where
  "is_request (GetAppointment a t) = True"
| "is_request (PostRefresh r) = True"
| "is_request (PutStart a c) = True"
| "is_request (PutEnd a c n) = True"
| "is_request e = False"

fun is_refresh :: "event \<Rightarrow> bool" where
  "is_refresh (PostRefresh r) = True"
| "is_refresh e = False"

fun is_appointment_get :: "event \<Rightarrow> bool" where
  "is_appointment_get (GetAppointment a t) = True"
| "is_appointment_get e = False"

fun is_start_mutation :: "event \<Rightarrow> bool" where
  "is_start_mutation (PutStart a c) = True"
| "is_start_mutation e = False"

fun is_end_mutation :: "event \<Rightarrow> bool" where
  "is_end_mutation (PutEnd a c n) = True"
| "is_end_mutation e = False"

fun is_error_alert :: "event \<Rightarrow> bool" where
  "is_error_alert (ErrorAlert m) = True"
| "is_error_alert e = False"

fun is_login_call :: "event \<Rightarrow> bool" where
  "is_login_call (LoginCall u p) = True"
| "is_login_call e = False"

fun is_submit :: "event \<Rightarrow> bool" where
  "is_submit (SubmitSurvey i os) = True"
| "is_submit e = False"

text \<open>The events the flush of a queued survey submission may add.\<close>

fun flush_event :: "event \<Rightarrow> bool" where
  "flush_event (SubmitSurvey i os) = True"
| "flush_event (LocalRemove k) = (k = ''pendingSurveySubmission'')"
| "flush_event (LocalSet k v) = (k = ''surveySubmissionResult'')"
| "flush_event (ConsoleError m) = (m = ''Loi khi gui du lieu khao sat'')"
| "flush_event e = False"

definition refresh_requests :: "event list \<Rightarrow> nat" where
  "refresh_requests es = length (filter is_refresh es)"

definition appointment_requests :: "event list \<Rightarrow> nat" where
  "appointment_requests es = length (filter is_appointment_get es)"

text \<open>The events a status read may add, and the state with the four parts a status read
  may change blanked: two states agree outside the read when their blanked forms are
  equal.\<close>

fun status_read_event :: "event \<Rightarrow> bool" where
  "status_read_event (GetAppointment a t) = True"
| "status_read_event (PostRefresh r) = True"
| "status_read_event (LocalSet k v) = (k = ''accessToken'')"
| "status_read_event (ConsoleError m) =
     (m \<in> set [''No access token available'', ''Error in fetchAppointmentWithTokenRefresh'',
                ''Failed to refresh token'', ''API error'', ''Error refreshing token'',
                ''Error checking appointment status''])"
| "status_read_event e = False"

definition outside_read :: "video_meeting \<Rightarrow> video_meeting" where
  "outside_read st =
     st\<lparr>localStorage := Map.empty, trace := [], appointment_responses := [],
        refresh_responses := []\<rparr>"

text \<open>Whether one of the \<open>catch\<close> blocks that the callers put around the status read
  ran: each logs one of these two messages first.\<close>

definition catch_entered :: "event list \<Rightarrow> bool" where
  "catch_entered es =
     (ConsoleError ''Failed to check appointment status'' \<in> set es \<or>
      ConsoleError ''Error checking status before ending'' \<in> set es)"

text \<open>The tracks of a stream that may be unset, and the status field of what a status
  read returned.\<close>

definition tracks_of :: "nat list option \<Rightarrow> nat list" where
  "tracks_of stream = (case stream of None \<Rightarrow> [] | Some tracks \<Rightarrow> tracks)"

definition status_of :: "exn + json \<Rightarrow> json option" where
  "status_of r = (case r of Inl e \<Rightarrow> None | Inr data \<Rightarrow> js_get data ''status'')"

section \<open>Concrete states\<close>

text \<open>The consultation screen as it mounts in a browser with empty storage: the initial
  values of its state variables, no answers scripted.\<close>

definition mounted :: video_meeting where
  "mounted =
     \<lparr>localStorage = Map.empty, sessionStorage = Map.empty, JSON_parse = (\<lambda>s. None),
      JSON_stringify = (\<lambda>v. []), String_trim = ascii_trim,
      String_toUpperCase = ascii_toUpperCase, trace = [],
      appointmentId = ''42'', participantName = [], meetingId = [],
      isMeetingStarted = False, loading = False, error = [], isConsultant = False,
      openStartDialog = False, openEndDialog = False, consultantNote = [],
      customAudioStream = None, customVideoStream = None, meetingRef = None,
      userData = JNull, appointment_responses = [], refresh_responses = [],
      put_responses = [], uuid_source = (\<lambda>n. replicate (Suc n) CHR ''u''), uuid_count = 0\<rparr>"

text \<open>A consultant with user id 7 and both tokens stored, on the joining screen of
  meeting M1 with a name typed in.\<close>

definition consultant_lobby :: video_meeting where
  "consultant_lobby =
     mounted\<lparr>localStorage := [''accessToken'' \<mapsto> ''at1'', ''refreshToken'' \<mapsto> ''rt1''],
             participantName := ''Dr An'', meetingId := ''M1'', isConsultant := True,
             userData := JObj [(''id'', JNum ''7'')]\<rparr>"

text \<open>The same consultant inside the started meeting, with one audio and one video track
  captured.\<close>

definition consultant_in_meeting :: video_meeting where
  "consultant_in_meeting =
     consultant_lobby\<lparr>isMeetingStarted := True,
                      customAudioStream := Some [1], customVideoStream := Some [2],
                      meetingRef := Some \<lparr>localScreenShareOn = False\<rparr>\<rparr>"

text \<open>A stored user profile with id \<open>U1\<close>, a parser that agrees with \<^verbatim>\<open>JSON.parse\<close> on
  that text, and a browser tab of that signed-in user on meeting M1.\<close>

definition profile_text :: string where
  \<open>profile_text = ''{"id":"U1"}''\<close>

definition parse_profile :: "string \<Rightarrow> json option" where
  "parse_profile s = (if s = profile_text then Some (JObj [(''id'', JStr ''U1'')]) else None)"

definition signed_in_tab :: video_meeting where
  "signed_in_tab =
     mounted\<lparr>localStorage := [''userProfile'' \<mapsto> profile_text],
             JSON_parse := parse_profile, meetingId := ''M1''\<rparr>"

text \<open>A successful answer of the appointment service carrying the status \<open>s\<close>.\<close>

definition appointment_reply :: "json \<Rightarrow> http_result" where
  "appointment_reply s = Response 200 (Some (JObj [(''status'', s)]))"

text \<open>The login form as it mounts in a browser with empty storage, where the login
  service refuses the credentials.\<close>

definition login_form :: login_page where
  "login_form =
     \<lparr>localStorage = Map.empty, sessionStorage = Map.empty, JSON_parse = (\<lambda>s. None),
      JSON_stringify = (\<lambda>v. []), String_trim = ascii_trim,
      String_toUpperCase = ascii_toUpperCase, trace = [],
      username = [], password = [], isLoading = False, errors = [], returnUrl = None,
      login_response = Inl (Exn ''AxiosError'' ''Request failed with status code 401'' [] []),
      google_response = Inl (Exn ''AxiosError'' ''Request failed with status code 401'' [] []),
      submit_responses = []\<rparr>"

text \<open>A queued survey submission, a parser that agrees with \<^verbatim>\<open>JSON.parse\<close> on that text,
  a printer that agrees with \<^verbatim>\<open>JSON.stringify\<close> on the two result records, and the form
  filled in, in a browser that holds the queued submission.\<close>

definition survey_text :: string where
  \<open>survey_text = ''{"surveyId":5,"selectedOptionIds":[1,2]}''\<close>

definition parse_survey :: "string \<Rightarrow> json option" where
  "parse_survey s =
     (if s = survey_text
      then Some (JObj [(''surveyId'', JNum ''5''),
                       (''selectedOptionIds'', JArr [JNum ''1'', JNum ''2''])])
      else None)"

definition stringify_result :: "json \<Rightarrow> string" where
  \<open>stringify_result v =
     (if js_get v ''success'' = Some (JBool True)
      then ''{"success":true,"message":"Luu khao sat thanh cong"}''
      else ''{"success":false,"message":"Co loi xay ra khi luu khao sat"}'')\<close>

definition filled_form :: login_page where
  "filled_form =
     login_form\<lparr>localStorage := [''pendingSurveySubmission'' \<mapsto> survey_text],
                JSON_parse := parse_survey, JSON_stringify := stringify_result,
                username := ''an'', password := ''secret''\<rparr>"

section \<open>What a status read does\<close>

lemma fetch_appointment_effect:
  "fetch_appointment tok st = (r, st') \<Longrightarrow>
     trace st' = trace st @ [GetAppointment (appointmentId st) tok] \<and>
     localStorage st' = localStorage st \<and> refresh_responses st' = refresh_responses st \<and>
     outside_read st' = outside_read st"
  by (auto simp: fetch_appointment_def emit_def Let_def outside_read_def
      split: list.splits http_result.splits)

lemma fetch_refresh_effect:
  "fetch_refresh rt st = (r, st') \<Longrightarrow>
     trace st' = trace st @ [PostRefresh rt] \<and> localStorage st' = localStorage st \<and>
     appointment_responses st' = appointment_responses st \<and>
     outside_read st' = outside_read st"
  by (auto simp: fetch_refresh_def emit_def Let_def outside_read_def
      split: list.splits http_result.splits)

lemma refreshAccessToken_try_effect:
  "refreshAccessToken_try st = (r, st') \<Longrightarrow>
     (\<exists>es. trace st' = trace st @ es \<and> list_all status_read_event es \<and>
        refresh_requests es \<le> 1 \<and> appointment_requests es = 0) \<and>
     appointment_responses st' = appointment_responses st \<and>
     outside_read st' = outside_read st"
  unfolding refreshAccessToken_try_def
  by (auto simp: emit_def local_setItem_def refresh_requests_def appointment_requests_def
        outside_read_def
      dest!: fetch_refresh_effect split: option.splits prod.splits sum.splits if_splits)

lemma refreshAccessToken_effect:
  "refreshAccessToken st = (r, st') \<Longrightarrow>
     (\<exists>es. trace st' = trace st @ es \<and> list_all status_read_event es \<and>
        refresh_requests es \<le> 1 \<and> appointment_requests es = 0) \<and>
     appointment_responses st' = appointment_responses st \<and>
     outside_read st' = outside_read st"
  unfolding refreshAccessToken_def
  by (auto simp: console_error_def emit_def refresh_requests_def appointment_requests_def
        outside_read_def
      dest!: refreshAccessToken_try_effect split: prod.splits sum.splits)

lemma fetch_appointment_reply:
  "fetch_appointment tok st = (r, st') \<Longrightarrow>
     set (appointment_responses st') \<subseteq> set (appointment_responses st) \<and>
     (\<forall>code body. r = Inr (code, body) \<longrightarrow> Response code body \<in> set (appointment_responses st))"
  by (auto simp: fetch_appointment_def emit_def Let_def
      split: list.splits http_result.splits)

lemma truthy_status_unknown: "truthy_opt (js_get unknown_appointment ''status'')"
  by (simp add: unknown_appointment_def)

lemma fetch_retry_effect:
  "\<exists>d st' es. fetchAppointmentWithTokenRefresh True st = (Inr d, st') \<and>
      trace st' = trace st @ es \<and> list_all status_read_event es \<and>
      refresh_requests es = 0 \<and> appointment_requests es \<le> 1 \<and>
      outside_read st' = outside_read st \<and> truthy_opt (js_get d ''status'') \<and>
      (d = unknown_appointment \<or>
       (\<exists>code. response_ok code \<and> Response code (Some d) \<in> set (appointment_responses st)))"
proof (cases "no_text (localStorage st ''accessToken'')")
  case True
  then show ?thesis
    by (subst fetchAppointmentWithTokenRefresh.simps)
      (auto simp: no_text_def console_error_def emit_def refresh_requests_def
        appointment_requests_def outside_read_def truthy_status_unknown split: option.splits)
next
  case False
  then obtain tok where tok: "localStorage st ''accessToken'' = Some tok" "tok \<noteq> []"
    by (auto simp: no_text_def split: option.splits)
  obtain r st1 where f: "fetch_appointment tok st = (r, st1)"
    by (cases "fetch_appointment tok st") auto
  note t1 = fetch_appointment_effect[OF f] fetch_appointment_reply[OF f]
  show ?thesis
  proof (cases r)
    case (Inl e)
    with tok f t1 show ?thesis
      by (subst fetchAppointmentWithTokenRefresh.simps)
        (auto simp: console_error_def emit_def refresh_requests_def appointment_requests_def
          outside_read_def truthy_status_unknown)
  next
    case (Inr cb)
    obtain code body where cb: "cb = (code, body)" by (cases cb) auto
    from t1 Inr cb have mem: "Response code body \<in> set (appointment_responses st)" by blast
    from tok f t1(1) Inr cb mem show ?thesis
      by (subst fetchAppointmentWithTokenRefresh.simps)
        (auto simp: console_error_def emit_def refresh_requests_def appointment_requests_def
          outside_read_def truthy_status_unknown falsy_def falsy_opt_def split: option.splits)
  qed
qed

lemma fetch_first_effect:
  "\<exists>d st' es. fetchAppointmentWithTokenRefresh False st = (Inr d, st') \<and>
      trace st' = trace st @ es \<and> list_all status_read_event es \<and>
      refresh_requests es \<le> 1 \<and> appointment_requests es \<le> 2 \<and>
      outside_read st' = outside_read st \<and> truthy_opt (js_get d ''status'') \<and>
      (d = unknown_appointment \<or>
       (\<exists>code. response_ok code \<and> Response code (Some d) \<in> set (appointment_responses st)))"
proof (cases "no_text (localStorage st ''accessToken'')")
  case True
  then show ?thesis
    by (subst fetchAppointmentWithTokenRefresh.simps)
      (auto simp: no_text_def console_error_def emit_def refresh_requests_def
        appointment_requests_def outside_read_def truthy_status_unknown split: option.splits)
next
  case False
  then obtain tok where tok: "localStorage st ''accessToken'' = Some tok" "tok \<noteq> []"
    by (auto simp: no_text_def split: option.splits)
  obtain r st1 where f: "fetch_appointment tok st = (r, st1)"
    by (cases "fetch_appointment tok st") auto
  note t1 = fetch_appointment_effect[OF f] fetch_appointment_reply[OF f]
  show ?thesis
  proof (cases r)
    case (Inl e)
    with tok f t1 show ?thesis
      by (subst fetchAppointmentWithTokenRefresh.simps)
        (auto simp: console_error_def emit_def refresh_requests_def appointment_requests_def
          outside_read_def truthy_status_unknown)
  next
    case (Inr cb)
    obtain code body where cb: "cb = (code, body)" by (cases cb) auto
    from t1 Inr cb have mem: "Response code body \<in> set (appointment_responses st)" by blast
    show ?thesis
    proof (cases "code = 401")
      case False
      with tok f t1(1) Inr cb mem show ?thesis
        by (subst fetchAppointmentWithTokenRefresh.simps)
          (auto simp: console_error_def emit_def refresh_requests_def appointment_requests_def
            outside_read_def truthy_status_unknown falsy_def falsy_opt_def
            split: option.splits)
    next
      case True
      obtain r2 st2 where g: "refreshAccessToken st1 = (r2, st2)"
        by (cases "refreshAccessToken st1") auto
      from refreshAccessToken_effect[OF g] obtain es2 where
        es2: "trace st2 = trace st1 @ es2" "list_all status_read_event es2"
          "refresh_requests es2 \<le> 1" "appointment_requests es2 = 0"
          "appointment_responses st2 = appointment_responses st1"
          "outside_read st2 = outside_read st1"
        by auto
      show ?thesis
      proof (cases r2)
        case (Inl e)
        with tok f t1(1) Inr cb True g es2 show ?thesis
          by (subst fetchAppointmentWithTokenRefresh.simps)
            (auto simp: console_error_def emit_def refresh_requests_def
              appointment_requests_def outside_read_def truthy_status_unknown)
      next
        case (Inr v)
        from fetch_retry_effect[of st2] obtain d st3 es3 where
          h: "fetchAppointmentWithTokenRefresh True st2 = (Inr d, st3)"
             "trace st3 = trace st2 @ es3" "list_all status_read_event es3"
             "refresh_requests es3 = 0" "appointment_requests es3 \<le> 1"
             "outside_read st3 = outside_read st2" "truthy_opt (js_get d ''status'')"
             "d = unknown_appointment \<or>
               (\<exists>code. response_ok code \<and> Response code (Some d) \<in> set (appointment_responses st2))"
          by blast
        from h(8) es2(5) t1(2) have src:
          "d = unknown_appointment \<or>
             (\<exists>code. response_ok code \<and> Response code (Some d) \<in> set (appointment_responses st))"
          by auto
        from tok f t1(1) \<open>r = Inr cb\<close> cb True g es2 Inr h(1-7) src show ?thesis
          by (subst fetchAppointmentWithTokenRefresh.simps)
            (auto simp: refresh_requests_def appointment_requests_def)
      qed
    qed
  qed
qed

lemma checkAppointmentStatus_effect:
  "\<exists>d st' es. checkAppointmentStatus st = (Inr d, st') \<and>
      trace st' = trace st @ es \<and> list_all status_read_event es \<and>
      refresh_requests es \<le> 1 \<and> appointment_requests es \<le> 2 \<and>
      outside_read st' = outside_read st \<and> truthy_opt (js_get d ''status'') \<and>
      (d = unknown_appointment \<or>
       (\<exists>code. response_ok code \<and> Response code (Some d) \<in> set (appointment_responses st)))"
proof (cases "falsy (userData st) \<or> falsy_opt (js_get (userData st) ''id'')")
  case True
  then show ?thesis
    by (auto simp: checkAppointmentStatus_def checkAppointmentStatus_try_def console_error_def
        emit_def refresh_requests_def appointment_requests_def truthy_status_unknown
        outside_read_def)
next
  case False
  from fetch_first_effect[of st] obtain d st' es where
    h: "fetchAppointmentWithTokenRefresh False st = (Inr d, st')"
       "trace st' = trace st @ es" "list_all status_read_event es"
       "refresh_requests es \<le> 1" "appointment_requests es \<le> 2"
       "outside_read st' = outside_read st" "truthy_opt (js_get d ''status'')"
       "d = unknown_appointment \<or>
          (\<exists>code. response_ok code \<and> Response code (Some d) \<in> set (appointment_responses st))"
    by blast
  with False show ?thesis
    by (auto simp: checkAppointmentStatus_def checkAppointmentStatus_try_def)
qed

lemma outside_read_fields:
  assumes "outside_read st' = outside_read st"
  shows "sessionStorage st' = sessionStorage st \<and> JSON_parse st' = JSON_parse st \<and>
    JSON_stringify st' = JSON_stringify st \<and> appointmentId st' = appointmentId st \<and>
    participantName st' = participantName st \<and> meetingId st' = meetingId st \<and>
    isMeetingStarted st' = isMeetingStarted st \<and> loading st' = loading st \<and>
    error st' = error st \<and> isConsultant st' = isConsultant st \<and>
    openStartDialog st' = openStartDialog st \<and> openEndDialog st' = openEndDialog st \<and>
    consultantNote st' = consultantNote st \<and> customAudioStream st' = customAudioStream st \<and>
    customVideoStream st' = customVideoStream st \<and> meetingRef st' = meetingRef st \<and>
    userData st' = userData st \<and> put_responses st' = put_responses st \<and>
    uuid_source st' = uuid_source st \<and> uuid_count st' = uuid_count st"
proof -
  have "\<And>f. f (outside_read st') = f (outside_read st)"
    using assms by simp
  note eq = this
  show ?thesis
    using eq[of sessionStorage] eq[of JSON_parse] eq[of JSON_stringify] eq[of appointmentId]
      eq[of participantName] eq[of meetingId] eq[of isMeetingStarted] eq[of loading]
      eq[of error] eq[of isConsultant] eq[of openStartDialog] eq[of openEndDialog]
      eq[of consultantNote] eq[of customAudioStream] eq[of customVideoStream]
      eq[of meetingRef] eq[of userData] eq[of put_responses] eq[of uuid_source]
      eq[of uuid_count]
    by (simp add: outside_read_def)
qed

section \<open>The handlers after a status read\<close>

lemma status_read_no_catch: "list_all status_read_event es \<Longrightarrow> \<not> catch_entered es"
  by (auto simp: catch_entered_def list_all_iff)

lemma js_prop_truthy: "truthy_opt (js_get d k) \<Longrightarrow> js_prop d k = Inr (js_get d k)"
  by (cases d) (auto simp: js_prop_def)

lemma stop_tracks_trace: "stop_tracks s st = st\<lparr>trace := trace st @ map TrackStop (tracks_of s)\<rparr>"
  by (simp add: stop_tracks_def tracks_of_def split: option.splits)

lemma handleOnMeetingLeave_eq:
  "handleOnMeetingLeave a v st =
     st\<lparr>trace := trace st @ (if meetingRef st = None then [] else [MeetingLeave]) @
             map TrackStop (tracks_of a) @ map TrackStop (tracks_of v) @ [Navigate ''/''],
        isMeetingStarted := False, meetingRef := None\<rparr>"
  by (simp add: handleOnMeetingLeave_def leave_if_joined_def stop_tracks_trace emit_def Let_def
      split: option.splits)

lemma handleEndMeeting_cases:
  assumes "checkAppointmentStatus st = (Inr d, st1)" "truthy_opt (js_get d ''status'')"
    "isConsultant st"
  shows "handleEndMeeting st =
    (if js_get d ''status'' = Some (JStr ''ON_GOING'') then st1\<lparr>openEndDialog := True\<rparr>
     else handleOnMeetingLeave (customAudioStream st) (customVideoStream st) st1)"
  using assms by (simp add: handleEndMeeting_def js_prop_truthy)

lemma handleShowEndDialog_cases:
  assumes "checkAppointmentStatus (st\<lparr>consultantNote := [], openEndDialog := True\<rparr>) = (Inr d, st1)"
    "truthy_opt (js_get d ''status'')" "isConsultant st"
  shows "handleShowEndDialog a v st =
    (if js_get d ''status'' = Some (JStr ''ON_GOING'') then st1
     else handleOnMeetingLeave a v (st1\<lparr>openEndDialog := False\<rparr>))"
  using assms by (simp add: handleShowEndDialog_def js_prop_truthy)

lemma onClickStartMeeting_cases:
  assumes "checkAppointmentStatus (st\<lparr>loading := True\<rparr>) = (Inr d, st1)"
    "truthy_opt (js_get d ''status'')" "isConsultant st"
    "String_trim st (participantName st) \<noteq> []"
  shows "onClickStartMeeting st =
    (case js_String_opt (js_get d ''status'') of
       None \<Rightarrow> start_status_failed st1
     | Some s \<Rightarrow>
         if String_toUpperCase st s = ''CONFIRMED''
         then st1\<lparr>loading := False, openStartDialog := True\<rparr>
         else st1\<lparr>isMeetingStarted := True, error := [], loading := False\<rparr>)"
  using assms by (simp add: onClickStartMeeting_def js_prop_truthy Let_def)

lemma confirm_status_read_eq:
  assumes "checkAppointmentStatus st = (Inr d, st1)"
  shows "confirm_status_read st = (d, st1)"
  using assms by (simp add: confirm_status_read_def)

lemma leave_no_catch:
  "\<not> catch_entered ((if c then [] else [MeetingLeave]) @ map TrackStop xs @ map TrackStop ys @ [Navigate u])"
  by (auto simp: catch_entered_def)

lemma api_put_effect:
  "api_put req st = (r, st') \<Longrightarrow> trace st' = trace st @ [req]"
  by (auto simp: api_put_def emit_def Let_def split: list.splits option.splits)

lemma handleEndMeeting_no_catch: "\<not> catch_entered (events_since st (handleEndMeeting st))"
proof (cases "isConsultant st")
  case False
  then show ?thesis
    by (simp add: handleEndMeeting_def handleOnMeetingLeave_eq events_since_def leave_no_catch)
next
  case True
  from checkAppointmentStatus_effect[of st] obtain d st1 es where
    h: "checkAppointmentStatus st = (Inr d, st1)" "trace st1 = trace st @ es"
      "list_all status_read_event es" "truthy_opt (js_get d ''status'')"
    by blast
  from h(3) have "\<not> catch_entered es" by (rule status_read_no_catch)
  with h True show ?thesis
    by (auto simp: handleEndMeeting_cases[OF h(1) h(4) True] handleOnMeetingLeave_eq
        events_since_def catch_entered_def)
qed

lemma handleShowEndDialog_no_catch:
  "\<not> catch_entered (events_since st (handleShowEndDialog a v st))"
proof (cases "isConsultant st")
  case False
  then show ?thesis
    by (simp add: handleShowEndDialog_def handleOnMeetingLeave_eq events_since_def leave_no_catch)
next
  case True
  let ?s = "st\<lparr>consultantNote := [], openEndDialog := True\<rparr>"
  from checkAppointmentStatus_effect[of ?s] obtain d st1 es where
    h: "checkAppointmentStatus ?s = (Inr d, st1)" "trace st1 = trace ?s @ es"
      "list_all status_read_event es" "truthy_opt (js_get d ''status'')"
    by blast
  from h(3) have "\<not> catch_entered es" by (rule status_read_no_catch)
  with h True show ?thesis
    by (auto simp: handleShowEndDialog_cases[OF h(1) h(4) True] handleOnMeetingLeave_eq
        events_since_def catch_entered_def)
qed

lemma confirm_catch_events:
  "\<not> catch_entered es \<Longrightarrow>
   \<not> catch_entered (es @ [ConsoleError ''Error starting appointment'', UnhandledRejection]) \<and>
   \<not> catch_entered (es @ [ConsoleError ''Error starting appointment'', ErrorAlert m]) \<and>
   \<not> catch_entered (es @ [ConsoleError ''Error ending appointment'', UnhandledRejection]) \<and>
   \<not> catch_entered (es @ [ConsoleError ''Error ending appointment'', ErrorAlert m])"
  by (auto simp: catch_entered_def)

lemma handleConfirmStartMeeting_try_events:
  assumes "handleConfirmStartMeeting_try st = (r, st')"
  shows "\<exists>es. trace st' = trace st @ es \<and> \<not> catch_entered es"
proof -
  from checkAppointmentStatus_effect[of st] obtain d st1 es where
    h: "checkAppointmentStatus st = (Inr d, st1)" "trace st1 = trace st @ es"
      "list_all status_read_event es" "truthy_opt (js_get d ''status'')"
    by blast
  from h(3) have nc: "\<not> catch_entered es" by (rule status_read_no_catch)
  have c: "confirm_status_read st = (d, st1)" by (rule confirm_status_read_eq[OF h(1)])
  show ?thesis
    using assms h(2) nc
    by (auto simp: handleConfirmStartMeeting_try_def c
        js_prop_truthy[OF h(4)] start_appointment_def showSuccessAlert_def
        emit_def catch_entered_def other_status_warning_def
        dest!: api_put_effect split: option.splits prod.splits sum.splits if_splits)
qed

lemma handleConfirmStartMeeting_no_catch:
  "\<not> catch_entered (events_since st (handleConfirmStartMeeting st))"
proof -
  let ?s = "st\<lparr>loading := True, openStartDialog := False\<rparr>"
  obtain r st' where t: "handleConfirmStartMeeting_try ?s = (r, st')"
    by (cases "handleConfirmStartMeeting_try ?s") auto
  from handleConfirmStartMeeting_try_events[OF t] obtain es where
    es: "trace st' = trace st @ es" "\<not> catch_entered es"
    by auto
  show ?thesis
    using t es confirm_catch_events[OF es(2)]
    by (auto simp: handleConfirmStartMeeting_def showErrorAlert_def console_error_def emit_def
        events_since_def Let_def split: sum.splits option.splits)
qed

lemma handleConfirmEndMeeting_try_events:
  assumes "handleConfirmEndMeeting_try st = (r, st')"
  shows "\<exists>es. trace st' = trace st @ es \<and> \<not> catch_entered es"
proof -
  from checkAppointmentStatus_effect[of st] obtain d st1 es where
    h: "checkAppointmentStatus st = (Inr d, st1)" "trace st1 = trace st @ es"
      "list_all status_read_event es" "truthy_opt (js_get d ''status'')"
    by blast
  from h(3) have nc: "\<not> catch_entered es" by (rule status_read_no_catch)
  have c: "confirm_status_read st = (d, st1)" by (rule confirm_status_read_eq[OF h(1)])
  show ?thesis
    using assms h(2) nc
    by (auto simp: handleConfirmEndMeeting_try_def c
        js_prop_truthy[OF h(4)] end_appointment_def showSuccessAlert_def
        emit_def catch_entered_def handleOnMeetingLeave_eq leave_if_joined_def
        dest!: api_put_effect split: option.splits prod.splits sum.splits if_splits)
qed

lemma handleConfirmEndMeeting_no_catch:
  "\<not> catch_entered (events_since st (handleConfirmEndMeeting st))"
proof -
  let ?s = "st\<lparr>openEndDialog := False\<rparr>"
  obtain r st' where t: "handleConfirmEndMeeting_try ?s = (r, st')"
    by (cases "handleConfirmEndMeeting_try ?s") auto
  from handleConfirmEndMeeting_try_events[OF t] obtain es where
    es: "trace st' = trace st @ es" "\<not> catch_entered es"
    by auto
  show ?thesis
    using t es confirm_catch_events[OF es(2)]
    by (auto simp: handleConfirmEndMeeting_def showErrorAlert_def console_error_def emit_def
        events_since_def Let_def split: sum.splits option.splits)
qed

lemma onClickStartMeeting_catch:
  assumes "catch_entered (events_since st (onClickStartMeeting st))"
  shows "js_String_opt (status_of (fst (checkAppointmentStatus (st\<lparr>loading := True\<rparr>)))) = None"
proof -
  let ?s = "st\<lparr>loading := True\<rparr>"
  from checkAppointmentStatus_effect[of ?s] obtain d st1 es where
    h: "checkAppointmentStatus ?s = (Inr d, st1)" "trace st1 = trace ?s @ es"
      "list_all status_read_event es" "truthy_opt (js_get d ''status'')"
    by blast
  from h(3) have nc: "\<not> catch_entered es" by (rule status_read_no_catch)
  show ?thesis
  proof (cases "isConsultant st \<and> String_trim st (participantName st) \<noteq> []")
    case True
    then have c: "isConsultant st" "String_trim st (participantName st) \<noteq> []" by auto
    show ?thesis
      using assms h(2) nc
      by (auto simp: onClickStartMeeting_cases[OF h(1) h(4) c] h(1) status_of_def
          events_since_def catch_entered_def split: option.splits if_splits)
  next
    case False
    with assms show ?thesis
      by (auto simp: onClickStartMeeting_def events_since_def catch_entered_def Let_def
          split: if_splits)
  qed
qed

section \<open>The status read is total\<close>

lemmas vm_states = mounted_def consultant_lobby_def consultant_in_meeting_def
  appointment_reply_def

lemmas read_unfold = checkAppointmentStatus_def checkAppointmentStatus_try_def
  fetchAppointmentWithTokenRefresh.simps fetch_appointment_def fetch_refresh_def
  refreshAccessToken_def refreshAccessToken_try_def console_error_def emit_def
  local_setItem_def falsy_def falsy_opt_def response_ok_def unknown_appointment_def Let_def

lemma check_user_missing:
  "falsy (userData st) \<or> falsy_opt (js_get (userData st) ''id'') \<Longrightarrow>
   fst (checkAppointmentStatus st) = Inr unknown_appointment"
  by (auto simp: checkAppointmentStatus_def checkAppointmentStatus_try_def)

lemma fetch_no_token:
  "no_text (localStorage st ''accessToken'') \<Longrightarrow>
   fst (fetchAppointmentWithTokenRefresh r st) = Inr unknown_appointment"
  by (subst fetchAppointmentWithTokenRefresh.simps)
    (auto simp: no_text_def split: option.splits)

lemma fetch_no_answer:
  "appointment_responses st = [] \<or> (\<exists>rest. appointment_responses st = NetworkFailure # rest) \<Longrightarrow>
   fst (fetchAppointmentWithTokenRefresh r st) = Inr unknown_appointment"
  by (subst fetchAppointmentWithTokenRefresh.simps)
    (auto simp: fetch_appointment_def Let_def split: option.splits)

lemma fetch_not_ok:
  "appointment_responses st = Response code body # rest \<Longrightarrow> code \<noteq> 401 \<Longrightarrow>
   \<not> response_ok code \<Longrightarrow>
   fst (fetchAppointmentWithTokenRefresh r st) = Inr unknown_appointment"
  by (subst fetchAppointmentWithTokenRefresh.simps)
    (auto simp: fetch_appointment_def Let_def split: option.splits)

lemma fetch_malformed:
  "appointment_responses st = Response code body # rest \<Longrightarrow> code \<noteq> 401 \<Longrightarrow>
   body = None \<or> (\<exists>data. body = Some data \<and> falsy_opt (js_get data ''status'')) \<Longrightarrow>
   fst (fetchAppointmentWithTokenRefresh r st) = Inr unknown_appointment"
  by (subst fetchAppointmentWithTokenRefresh.simps)
    (auto simp: fetch_appointment_def Let_def split: option.splits)

lemma fetch_refresh_failed:
  "localStorage st ''accessToken'' = Some tok \<Longrightarrow>
   appointment_responses st = Response 401 body # rest \<Longrightarrow>
   fst (refreshAccessToken (snd (fetch_appointment tok st))) = Inl e \<Longrightarrow>
   fst (fetchAppointmentWithTokenRefresh False st) = Inr unknown_appointment"
  by (subst fetchAppointmentWithTokenRefresh.simps)
    (auto simp: fetch_appointment_def Let_def split: option.splits prod.splits sum.splits)

lemma check_of_fetch:
  "fst (fetchAppointmentWithTokenRefresh False st) = Inr unknown_appointment \<Longrightarrow>
   fst (checkAppointmentStatus st) = Inr unknown_appointment"
  by (auto simp: checkAppointmentStatus_def checkAppointmentStatus_try_def
      split: prod.splits sum.splits)

lemma truthy_of_get: "truthy_opt (js_get d k) \<Longrightarrow> truthy d"
  by (cases d) auto

lemma fetch_refresh_then_retry:
  assumes tok: "localStorage st ''accessToken'' = Some tok" "tok \<noteq> []"
    and first: "appointment_responses st = Response 401 b # rest"
    and rt: "localStorage st ''refreshToken'' = Some rt" "rt \<noteq> []"
    and refresh: "refresh_responses st = Response rc (Some rdata) # rrest" "response_ok rc"
    and new: "js_get rdata ''accessToken'' = Some v" "truthy v" "js_String v = Some newtok"
      "newtok \<noteq> []"
  shows "\<exists>st'. fetchAppointmentWithTokenRefresh False st =
           (Inr (case rest of
                   Response code (Some data) # others \<Rightarrow>
                     if response_ok code \<and> truthy_opt (js_get data ''status'') then data
                     else unknown_appointment
                 | _ \<Rightarrow> unknown_appointment), st') \<and>
         filter is_request (events_since st st') =
           [GetAppointment (appointmentId st) tok, PostRefresh rt,
            GetAppointment (appointmentId st) newtok]"
proof -
  have data: "truthy rdata"
    using new(1) by (cases rdata) auto
  show ?thesis
    using assms data
    by (auto simp: fetchAppointmentWithTokenRefresh.simps[of True]
        fetchAppointmentWithTokenRefresh.simps[of False]
        fetch_appointment_def fetch_refresh_def refreshAccessToken_def
        refreshAccessToken_try_def console_error_def emit_def local_setItem_def
        events_since_def falsy_def falsy_opt_def Let_def
        dest: truthy_of_get split: list.splits http_result.splits option.splits)
qed

lemma fetch_refresh_empty_token:
  assumes tok: "localStorage st ''accessToken'' = Some tok" "tok \<noteq> []"
    and first: "appointment_responses st = Response 401 b # rest"
    and rt: "localStorage st ''refreshToken'' = Some rt" "rt \<noteq> []"
    and refresh: "refresh_responses st = Response rc (Some rdata) # rrest" "response_ok rc"
    and new: "js_get rdata ''accessToken'' = Some v" "truthy v" "js_String v = Some []"
  shows "fst (fetchAppointmentWithTokenRefresh False st) = Inr unknown_appointment"
proof -
  have data: "truthy rdata"
    using new(1) by (cases rdata) auto
  show ?thesis
    using assms data
    by (auto simp: fetchAppointmentWithTokenRefresh.simps[of True]
        fetchAppointmentWithTokenRefresh.simps[of False]
        fetch_appointment_def fetch_refresh_def refreshAccessToken_def
        refreshAccessToken_try_def console_error_def emit_def local_setItem_def
        falsy_def falsy_opt_def Let_def
        split: list.splits http_result.splits option.splits)
qed

lemma fetch_success:
  assumes "localStorage st ''accessToken'' = Some tok" "tok \<noteq> []"
    "appointment_responses st = Response code (Some d) # rest" "response_ok code"
    "truthy_opt (js_get d ''status'')"
  shows "fst (fetchAppointmentWithTokenRefresh r st) = Inr d"
  using assms
  by (subst fetchAppointmentWithTokenRefresh.simps)
    (auto simp: fetch_appointment_def Let_def response_ok_def falsy_def falsy_opt_def
      dest: truthy_of_get)

lemma check_is_fetch:
  assumes "truthy_opt (js_get (userData st) ''id'')"
  shows "fst (checkAppointmentStatus st) = fst (fetchAppointmentWithTokenRefresh False st)"
proof -
  from assms have "truthy (userData st)" by (rule truthy_of_get)
  with assms fetch_first_effect[of st] show ?thesis
    by (auto simp: checkAppointmentStatus_def checkAppointmentStatus_try_def falsy_def
        falsy_opt_def)
qed

text \<open>
  Claim C9, as amended. \<^verbatim>\<open>checkAppointmentStatus\<close> never throws: from every state it
  returns an object whose \<open>status\<close> field is truthy, and that object is either the
  default \<open>{status: "UNKNOWN"}\<close> or the body of a 2xx answer of the appointment service.
  Every failure yields the default: missing user data or user id, no stored access token,
  no answer or a network failure, a status code that is neither 2xx nor 401, a body that
  is not JSON or has no truthy status, a 401 whose token refresh fails or stores an empty
  token, and a retry that fails in one of these ways. Outside the failure paths the body
  is returned as sent: the body of the first answer when that is 2xx with a truthy status,
  and the body of the retry's answer, on the same condition, after a 401 and a refresh.
  So no caller's \<open>catch\<close> around the read is entered because of the read: the blocks
  of \<^verbatim>\<open>handleConfirmStartMeeting\<close>, \<^verbatim>\<open>handleEndMeeting\<close>, \<^verbatim>\<open>handleConfirmEndMeeting\<close>
  and \<^verbatim>\<open>handleShowEndDialog\<close> never run, and the one of \<^verbatim>\<open>onClickStartMeeting\<close> runs
  only when \<^verbatim>\<open>String(status)\<close> itself throws.
\<close>

theorem checkAppointmentStatus_never_throws:
  "(\<exists>d st'. checkAppointmentStatus st = (Inr d, st') \<and>
       truthy_opt (js_get d ''status'') \<and>
       (d = unknown_appointment \<or>
        (\<exists>code. response_ok code \<and> Response code (Some d) \<in> set (appointment_responses st)))) \<and>
   (falsy (userData st) \<or> falsy_opt (js_get (userData st) ''id'') \<longrightarrow>
      fst (checkAppointmentStatus st) = Inr unknown_appointment) \<and>
   (no_text (localStorage st ''accessToken'') \<longrightarrow>
      fst (checkAppointmentStatus st) = Inr unknown_appointment) \<and>
   (appointment_responses st = [] \<or> (\<exists>rest. appointment_responses st = NetworkFailure # rest) \<longrightarrow>
      fst (checkAppointmentStatus st) = Inr unknown_appointment) \<and>
   (\<forall>code body rest.
      appointment_responses st = Response code body # rest \<and> code \<noteq> 401 \<and>
      (\<not> response_ok code \<or> body = None \<or>
       (\<exists>data. body = Some data \<and> falsy_opt (js_get data ''status''))) \<longrightarrow>
      fst (checkAppointmentStatus st) = Inr unknown_appointment) \<and>
   (\<forall>tok body rest e.
      localStorage st ''accessToken'' = Some tok \<and>
      appointment_responses st = Response 401 body # rest \<and>
      fst (refreshAccessToken (snd (fetch_appointment tok st))) = Inl e \<longrightarrow>
      fst (checkAppointmentStatus st) = Inr unknown_appointment) \<and>
   (\<forall>tok code d rest.
      truthy_opt (js_get (userData st) ''id'') \<and>
      localStorage st ''accessToken'' = Some tok \<and> tok \<noteq> [] \<and>
      appointment_responses st = Response code (Some d) # rest \<and> response_ok code \<and>
      truthy_opt (js_get d ''status'') \<longrightarrow>
      fst (checkAppointmentStatus st) = Inr d) \<and>
   (\<forall>tok b rest rt rc rdata rrest v newtok.
      truthy_opt (js_get (userData st) ''id'') \<and>
      localStorage st ''accessToken'' = Some tok \<and> tok \<noteq> [] \<and>
      appointment_responses st = Response 401 b # rest \<and>
      localStorage st ''refreshToken'' = Some rt \<and> rt \<noteq> [] \<and>
      refresh_responses st = Response rc (Some rdata) # rrest \<and> response_ok rc \<and>
      js_get rdata ''accessToken'' = Some v \<and> truthy v \<and> js_String v = Some newtok \<longrightarrow>
      fst (checkAppointmentStatus st) =
        Inr (if newtok = [] then unknown_appointment
             else (case rest of
                     Response code (Some data) # others \<Rightarrow>
                       if response_ok code \<and> truthy_opt (js_get data ''status'') then data
                       else unknown_appointment
                   | _ \<Rightarrow> unknown_appointment))) \<and>
   \<not> catch_entered (events_since st (handleConfirmStartMeeting st)) \<and>
   \<not> catch_entered (events_since st (handleEndMeeting st)) \<and>
   \<not> catch_entered (events_since st (handleConfirmEndMeeting st)) \<and>
   \<not> catch_entered (events_since st (handleShowEndDialog audio video st)) \<and>
   (catch_entered (events_since st (onClickStartMeeting st)) \<longrightarrow>
      js_String_opt (status_of (fst (checkAppointmentStatus (st\<lparr>loading := True\<rparr>)))) = None)"
proof -
  have total: "\<exists>d st'. checkAppointmentStatus st = (Inr d, st') \<and>
       truthy_opt (js_get d ''status'') \<and>
       (d = unknown_appointment \<or>
        (\<exists>code. response_ok code \<and> Response code (Some d) \<in> set (appointment_responses st)))"
    using checkAppointmentStatus_effect[of st] by blast
  have user: "falsy (userData st) \<or> falsy_opt (js_get (userData st) ''id'') \<longrightarrow>
      fst (checkAppointmentStatus st) = Inr unknown_appointment"
    using check_user_missing by blast
  have token: "no_text (localStorage st ''accessToken'') \<longrightarrow>
      fst (checkAppointmentStatus st) = Inr unknown_appointment"
    using fetch_no_token check_of_fetch by blast
  have silent: "appointment_responses st = [] \<or>
      (\<exists>rest. appointment_responses st = NetworkFailure # rest) \<longrightarrow>
      fst (checkAppointmentStatus st) = Inr unknown_appointment"
    using fetch_no_answer check_of_fetch by blast
  have bad: "\<forall>code body rest.
      appointment_responses st = Response code body # rest \<and> code \<noteq> 401 \<and>
      (\<not> response_ok code \<or> body = None \<or>
       (\<exists>data. body = Some data \<and> falsy_opt (js_get data ''status''))) \<longrightarrow>
      fst (checkAppointmentStatus st) = Inr unknown_appointment"
    using fetch_not_ok fetch_malformed check_of_fetch by blast
  have refresh: "\<forall>tok body rest e.
      localStorage st ''accessToken'' = Some tok \<and>
      appointment_responses st = Response 401 body # rest \<and>
      fst (refreshAccessToken (snd (fetch_appointment tok st))) = Inl e \<longrightarrow>
      fst (checkAppointmentStatus st) = Inr unknown_appointment"
    using fetch_refresh_failed check_of_fetch by blast
  have good: "\<forall>tok code d rest.
      truthy_opt (js_get (userData st) ''id'') \<and>
      localStorage st ''accessToken'' = Some tok \<and> tok \<noteq> [] \<and>
      appointment_responses st = Response code (Some d) # rest \<and> response_ok code \<and>
      truthy_opt (js_get d ''status'') \<longrightarrow>
      fst (checkAppointmentStatus st) = Inr d"
    using fetch_success[of st] check_is_fetch[of st] by auto
  have retried: "\<forall>tok b rest rt rc rdata rrest v newtok.
      truthy_opt (js_get (userData st) ''id'') \<and>
      localStorage st ''accessToken'' = Some tok \<and> tok \<noteq> [] \<and>
      appointment_responses st = Response 401 b # rest \<and>
      localStorage st ''refreshToken'' = Some rt \<and> rt \<noteq> [] \<and>
      refresh_responses st = Response rc (Some rdata) # rrest \<and> response_ok rc \<and>
      js_get rdata ''accessToken'' = Some v \<and> truthy v \<and> js_String v = Some newtok \<longrightarrow>
      fst (checkAppointmentStatus st) =
        Inr (if newtok = [] then unknown_appointment
             else (case rest of
                     Response code (Some data) # others \<Rightarrow>
                       if response_ok code \<and> truthy_opt (js_get data ''status'') then data
                       else unknown_appointment
                   | _ \<Rightarrow> unknown_appointment))"
  proof (intro allI impI, elim conjE)
    fix tok b rest rt rc rdata rrest v newtok
    assume h: "truthy_opt (js_get (userData st) ''id'')"
      "localStorage st ''accessToken'' = Some tok" "tok \<noteq> []"
      "appointment_responses st = Response 401 b # rest"
      "localStorage st ''refreshToken'' = Some rt" "rt \<noteq> []"
      "refresh_responses st = Response rc (Some rdata) # rrest" "response_ok rc"
      "js_get rdata ''accessToken'' = Some v" "truthy v" "js_String v = Some newtok"
    show "fst (checkAppointmentStatus st) =
        Inr (if newtok = [] then unknown_appointment
             else (case rest of
                     Response code (Some data) # others \<Rightarrow>
                       if response_ok code \<and> truthy_opt (js_get data ''status'') then data
                       else unknown_appointment
                   | _ \<Rightarrow> unknown_appointment))"
    proof (cases "newtok = []")
      case True
      with fetch_refresh_empty_token[OF h(2-10)] h(11) check_is_fetch[OF h(1)]
      show ?thesis by simp
    next
      case False
      from fetch_refresh_then_retry[OF h(2-11) False] check_is_fetch[OF h(1)] False
      show ?thesis by auto
    qed
  qed
  have start: "catch_entered (events_since st (onClickStartMeeting st)) \<longrightarrow>
      js_String_opt (status_of (fst (checkAppointmentStatus (st\<lparr>loading := True\<rparr>)))) = None"
    using onClickStartMeeting_catch by blast
  show ?thesis
    using total user token silent bad refresh good retried start
      handleConfirmStartMeeting_no_catch[of st] handleEndMeeting_no_catch[of st]
      handleConfirmEndMeeting_no_catch[of st] handleShowEndDialog_no_catch[of st audio video]
    by (intro conjI) assumption+
qed

text \<open>
  Claim C9 as stated fails: the status field of the returned object need not be a string.
  For the answer \<open>{"status": 42}\<close> the guard \<^verbatim>\<open>!data || !data.status\<close> lets the body
  through, and the read returns it with the number 42 as its status.
\<close>

theorem checkAppointmentStatus_numeric_status:
  "status_of (fst (checkAppointmentStatus
      (consultant_lobby\<lparr>appointment_responses := [appointment_reply (JNum ''42'')]\<rparr>))) =
   Some (JNum ''42'')"
  by (simp add: vm_states read_unfold status_of_def)

lemmas start_unfold = onClickStartMeeting_def start_status_failed_def js_prop_def
  js_String_opt_def ascii_trim_def is_space_def ascii_toUpperCase_def upper_char_def
  mk_TypeError_def

text \<open>
  The amended claim C9 at concrete states: no user data; no stored token; no answer;
  a 500; a 401 with a refused refresh; an answer with status \<open>ON_GOING\<close>, returned as
  sent; a 401, a refresh and a retry answered with status \<open>ON_GOING\<close>, returned as sent;
  and a status object with an own \<open>toString\<close> property, where the \<open>catch\<close> of
  \<^verbatim>\<open>onClickStartMeeting\<close> runs.
\<close>

theorem checkAppointmentStatus_never_throws_witness:
  "fst (checkAppointmentStatus mounted) = Inr unknown_appointment \<and>
   fst (checkAppointmentStatus (consultant_lobby\<lparr>localStorage := Map.empty\<rparr>)) =
     Inr unknown_appointment \<and>
   fst (checkAppointmentStatus consultant_lobby) = Inr unknown_appointment \<and>
   fst (checkAppointmentStatus
          (consultant_lobby\<lparr>appointment_responses := [Response 500 None]\<rparr>)) =
     Inr unknown_appointment \<and>
   fst (checkAppointmentStatus
          (consultant_lobby\<lparr>appointment_responses := [Response 401 None],
                            refresh_responses := [Response 403 None]\<rparr>)) =
     Inr unknown_appointment \<and>
   fst (checkAppointmentStatus
          (consultant_lobby\<lparr>appointment_responses := [appointment_reply (JStr ''ON_GOING'')]\<rparr>)) =
     Inr (JObj [(''status'', JStr ''ON_GOING'')]) \<and>
   fst (checkAppointmentStatus
          (consultant_lobby
             \<lparr>appointment_responses := [Response 401 None, appointment_reply (JStr ''ON_GOING'')],
              refresh_responses :=
                [Response 200 (Some (JObj [(''accessToken'', JStr ''at2'')]))]\<rparr>)) =
     Inr (JObj [(''status'', JStr ''ON_GOING'')]) \<and>
   catch_entered
     (events_since
        (consultant_lobby
           \<lparr>appointment_responses := [appointment_reply (JObj [(''toString'', JNull)])]\<rparr>)
        (onClickStartMeeting
           (consultant_lobby
              \<lparr>appointment_responses := [appointment_reply (JObj [(''toString'', JNull)])]\<rparr>))) \<and>
   js_String_opt
     (status_of (fst (checkAppointmentStatus
        (consultant_lobby
           \<lparr>appointment_responses := [appointment_reply (JObj [(''toString'', JNull)])],
            loading := True\<rparr>)))) = None"
proof -
  let ?t = "consultant_lobby\<lparr>appointment_responses := [Response 401 None],
                            refresh_responses := [Response 403 None]\<rparr>"
  let ?o = "consultant_lobby
           \<lparr>appointment_responses := [appointment_reply (JObj [(''toString'', JNull)])]\<rparr>"
  let ?g = "consultant_lobby\<lparr>appointment_responses := [appointment_reply (JStr ''ON_GOING'')]\<rparr>"
  let ?ok = "Response 200 (Some (JObj [(''accessToken'', JStr ''at2'')]))"
  let ?r = "consultant_lobby
             \<lparr>appointment_responses := [Response 401 None, appointment_reply (JStr ''ON_GOING'')],
              refresh_responses := [?ok]\<rparr>"
  have a: "fst (checkAppointmentStatus mounted) = Inr unknown_appointment"
    using checkAppointmentStatus_never_throws[of mounted, THEN conjunct2, THEN conjunct1]
    by (simp add: mounted_def falsy_def)
  have b: "fst (checkAppointmentStatus (consultant_lobby\<lparr>localStorage := Map.empty\<rparr>)) =
     Inr unknown_appointment"
    using checkAppointmentStatus_never_throws[of "consultant_lobby\<lparr>localStorage := Map.empty\<rparr>",
        THEN conjunct2, THEN conjunct2, THEN conjunct1]
    by (simp add: no_text_def)
  have c: "fst (checkAppointmentStatus consultant_lobby) = Inr unknown_appointment"
    using checkAppointmentStatus_never_throws[of consultant_lobby,
        THEN conjunct2, THEN conjunct2, THEN conjunct2, THEN conjunct1]
    by (simp add: vm_states)
  have d: "fst (checkAppointmentStatus
          (consultant_lobby\<lparr>appointment_responses := [Response 500 None]\<rparr>)) =
     Inr unknown_appointment"
    using checkAppointmentStatus_never_throws[
        of "consultant_lobby\<lparr>appointment_responses := [Response 500 None]\<rparr>",
        THEN conjunct2, THEN conjunct2, THEN conjunct2, THEN conjunct2, THEN conjunct1]
    by (simp add: response_ok_def)
  have "fst (refreshAccessToken (snd (fetch_appointment ''at1'' ?t))) =
      Inl (mk_Error ''Failed to refresh token'')"
    by (simp add: vm_states read_unfold)
  then have e: "fst (checkAppointmentStatus ?t) = Inr unknown_appointment"
    using checkAppointmentStatus_never_throws[of ?t,
        THEN conjunct2, THEN conjunct2, THEN conjunct2, THEN conjunct2, THEN conjunct2,
        THEN conjunct1]
    by (simp add: vm_states)
  have hg: "truthy_opt (js_get (userData ?g) ''id'')"
    "localStorage ?g ''accessToken'' = Some ''at1''"
    "appointment_responses ?g = Response 200 (Some (JObj [(''status'', JStr ''ON_GOING'')])) # []"
    "response_ok 200" "truthy_opt (js_get (JObj [(''status'', JStr ''ON_GOING'')]) ''status'')"
    by (simp_all add: vm_states response_ok_def)
  have s: "fst (checkAppointmentStatus ?g) = Inr (JObj [(''status'', JStr ''ON_GOING'')])"
    using checkAppointmentStatus_never_throws[of ?g,
        THEN conjunct2, THEN conjunct2, THEN conjunct2, THEN conjunct2, THEN conjunct2,
        THEN conjunct2, THEN conjunct1, rule_format,
        of "''at1''" 200 "JObj [(''status'', JStr ''ON_GOING'')]" "[]"] hg
    by simp
  have hr: "truthy_opt (js_get (userData ?r) ''id'')"
    "localStorage ?r ''accessToken'' = Some ''at1''"
    "localStorage ?r ''refreshToken'' = Some ''rt1''"
    "appointment_responses ?r = Response 401 None # [appointment_reply (JStr ''ON_GOING'')]"
    "refresh_responses ?r = ?ok # []"
    "js_get (JObj [(''accessToken'', JStr ''at2'')]) ''accessToken'' = Some (JStr ''at2'')"
    "truthy (JStr ''at2'')" "js_String (JStr ''at2'') = Some ''at2''"
    by (simp_all add: vm_states)
  have r: "fst (checkAppointmentStatus ?r) = Inr (JObj [(''status'', JStr ''ON_GOING'')])"
    using checkAppointmentStatus_never_throws[of ?r,
        THEN conjunct2, THEN conjunct2, THEN conjunct2, THEN conjunct2, THEN conjunct2,
        THEN conjunct2, THEN conjunct2, THEN conjunct1, rule_format,
        of "''at1''" None "[appointment_reply (JStr ''ON_GOING'')]" "''rt1''" 200
          "JObj [(''accessToken'', JStr ''at2'')]" "[]" "JStr ''at2''" "''at2''"] hr hg(4)
    by (simp add: appointment_reply_def response_ok_def)
  have f: "catch_entered (events_since ?o (onClickStartMeeting ?o))"
    by (simp add: vm_states read_unfold start_unfold catch_entered_def events_since_def)
  then have g: "js_String_opt (status_of (fst (checkAppointmentStatus (?o\<lparr>loading := True\<rparr>)))) =
      None"
    using checkAppointmentStatus_never_throws[of ?o]
    by blast
  from a b c d e s r f g show ?thesis
    by simp
qed

section \<open>One refresh and one retry\<close>

lemma fetch_refresh_fails:
  assumes tok: "localStorage st ''accessToken'' = Some tok" "tok \<noteq> []"
    and first: "appointment_responses st = Response 401 b # rest"
    and fails: "fst (refreshAccessToken (snd (fetch_appointment tok st))) = Inl e"
  shows "\<exists>st'. fetchAppointmentWithTokenRefresh False st = (Inr unknown_appointment, st') \<and>
         appointment_requests (events_since st st') = 1 \<and>
         refresh_requests (events_since st st') \<le> 1"
proof -
  obtain r st1 where f: "fetch_appointment tok st = (r, st1)"
    by (cases "fetch_appointment tok st") auto
  from f first have r: "r = Inr (401, b)"
    by (auto simp: fetch_appointment_def Let_def)
  note t1 = fetch_appointment_effect[OF f]
  obtain r2 st2 where g: "refreshAccessToken st1 = (r2, st2)"
    by (cases "refreshAccessToken st1") auto
  from refreshAccessToken_effect[OF g] obtain es2 where
    es2: "trace st2 = trace st1 @ es2" "refresh_requests es2 \<le> 1"
      "appointment_requests es2 = 0"
    by auto
  from fails f g have r2: "r2 = Inl e" by simp
  from tok f r g r2 t1 es2 show ?thesis
    by (subst fetchAppointmentWithTokenRefresh.simps)
      (auto simp: console_error_def emit_def events_since_def refresh_requests_def
        appointment_requests_def)
qed

lemma fetch_bounds:
  "\<exists>d st'. fetchAppointmentWithTokenRefresh False st = (Inr d, st') \<and>
      refresh_requests (events_since st st') \<le> 1 \<and>
      appointment_requests (events_since st st') \<le> 2"
  using fetch_first_effect[of st] by (auto simp: events_since_def)

lemma retry_bounds:
  "\<exists>d st'. fetchAppointmentWithTokenRefresh True st = (Inr d, st') \<and>
      refresh_requests (events_since st st') = 0 \<and>
      appointment_requests (events_since st st') \<le> 1"
  using fetch_retry_effect[of st] by (auto simp: events_since_def)

text \<open>
  Claim C3. A status read never propagates an error, sends at most one refresh request and
  at most two appointment requests, and a read that is already the retry sends no refresh
  request at all, so a 401 on the retry never triggers a second refresh. When the first
  answer is a 401 and the refresh succeeds, the requests are exactly the first read, one
  refresh, and one retry with the refreshed token, in this order; the read then returns
  the retried answer's body when that answer is 2xx with a truthy status, and the default
  \<open>UNKNOWN\<close> for every other answer to the retry (a second 401 included). When the
  refresh fails after a 401, no retry is sent and the read returns \<open>UNKNOWN\<close>.
\<close>

theorem status_read_refreshes_once:
  "(\<exists>d st'. fetchAppointmentWithTokenRefresh False st = (Inr d, st') \<and>
      refresh_requests (events_since st st') \<le> 1 \<and>
      appointment_requests (events_since st st') \<le> 2) \<and>
   (\<exists>d st'. fetchAppointmentWithTokenRefresh True st = (Inr d, st') \<and>
      refresh_requests (events_since st st') = 0 \<and>
      appointment_requests (events_since st st') \<le> 1) \<and>
   (\<forall>tok b rest rt rc rdata rrest v newtok.
      localStorage st ''accessToken'' = Some tok \<and> tok \<noteq> [] \<and>
      appointment_responses st = Response 401 b # rest \<and>
      localStorage st ''refreshToken'' = Some rt \<and> rt \<noteq> [] \<and>
      refresh_responses st = Response rc (Some rdata) # rrest \<and> response_ok rc \<and>
      js_get rdata ''accessToken'' = Some v \<and> truthy v \<and>
      js_String v = Some newtok \<and> newtok \<noteq> [] \<longrightarrow>
      (\<exists>st'. fetchAppointmentWithTokenRefresh False st =
           (Inr (case rest of
                   Response code (Some data) # others \<Rightarrow>
                     if response_ok code \<and> truthy_opt (js_get data ''status'') then data
                     else unknown_appointment
                 | _ \<Rightarrow> unknown_appointment), st') \<and>
         filter is_request (events_since st st') =
           [GetAppointment (appointmentId st) tok, PostRefresh rt,
            GetAppointment (appointmentId st) newtok])) \<and>
   (\<forall>tok b rest e.
      localStorage st ''accessToken'' = Some tok \<and> tok \<noteq> [] \<and>
      appointment_responses st = Response 401 b # rest \<and>
      fst (refreshAccessToken (snd (fetch_appointment tok st))) = Inl e \<longrightarrow>
      (\<exists>st'. fetchAppointmentWithTokenRefresh False st = (Inr unknown_appointment, st') \<and>
         appointment_requests (events_since st st') = 1 \<and>
         refresh_requests (events_since st st') \<le> 1))"
proof (intro conjI allI impI)
  show "\<exists>d st'. fetchAppointmentWithTokenRefresh False st = (Inr d, st') \<and>
      refresh_requests (events_since st st') \<le> 1 \<and>
      appointment_requests (events_since st st') \<le> 2"
    by (rule fetch_bounds)
next
  show "\<exists>d st'. fetchAppointmentWithTokenRefresh True st = (Inr d, st') \<and>
      refresh_requests (events_since st st') = 0 \<and>
      appointment_requests (events_since st st') \<le> 1"
    by (rule retry_bounds)
next
  fix tok b rest rt rc rdata rrest v newtok
  assume "localStorage st ''accessToken'' = Some tok \<and> tok \<noteq> [] \<and>
      appointment_responses st = Response 401 b # rest \<and>
      localStorage st ''refreshToken'' = Some rt \<and> rt \<noteq> [] \<and>
      refresh_responses st = Response rc (Some rdata) # rrest \<and> response_ok rc \<and>
      js_get rdata ''accessToken'' = Some v \<and> truthy v \<and>
      js_String v = Some newtok \<and> newtok \<noteq> []"
  then show "\<exists>st'. fetchAppointmentWithTokenRefresh False st =
           (Inr (case rest of
                   Response code (Some data) # others \<Rightarrow>
                     if response_ok code \<and> truthy_opt (js_get data ''status'') then data
                     else unknown_appointment
                 | _ \<Rightarrow> unknown_appointment), st') \<and>
         filter is_request (events_since st st') =
           [GetAppointment (appointmentId st) tok, PostRefresh rt,
            GetAppointment (appointmentId st) newtok]"
    using fetch_refresh_then_retry[of st tok b rest rt rc rdata rrest v newtok] by blast
next
  fix tok b rest e
  assume "localStorage st ''accessToken'' = Some tok \<and> tok \<noteq> [] \<and>
      appointment_responses st = Response 401 b # rest \<and>
      fst (refreshAccessToken (snd (fetch_appointment tok st))) = Inl e"
  then show "\<exists>st'. fetchAppointmentWithTokenRefresh False st = (Inr unknown_appointment, st') \<and>
         appointment_requests (events_since st st') = 1 \<and>
         refresh_requests (events_since st st') \<le> 1"
    using fetch_refresh_fails[of st tok b rest e] by blast
qed

text \<open>
  Claim C3 at concrete states of the consultant with tokens \<open>at1\<close> and \<open>rt1\<close> stored: a
  401, a refresh that stores \<open>at2\<close>, and a retry answered with status \<open>ON_GOING\<close>; the same
  with a second 401 on the retry; and a 401 whose refresh is refused with a 403.
\<close>

theorem status_read_refreshes_once_witness:
  "fst (fetchAppointmentWithTokenRefresh False
     (consultant_lobby
        \<lparr>appointment_responses := [Response 401 None, appointment_reply (JStr ''ON_GOING'')],
         refresh_responses := [Response 200 (Some (JObj [(''accessToken'', JStr ''at2'')]))]\<rparr>)) =
     Inr (JObj [(''status'', JStr ''ON_GOING'')]) \<and>
   filter is_request (trace (snd (fetchAppointmentWithTokenRefresh False
     (consultant_lobby
        \<lparr>appointment_responses := [Response 401 None, appointment_reply (JStr ''ON_GOING'')],
         refresh_responses := [Response 200 (Some (JObj [(''accessToken'', JStr ''at2'')]))]\<rparr>)))) =
     [GetAppointment ''42'' ''at1'', PostRefresh ''rt1'', GetAppointment ''42'' ''at2''] \<and>
   fst (fetchAppointmentWithTokenRefresh False
     (consultant_lobby
        \<lparr>appointment_responses := [Response 401 None, Response 401 None],
         refresh_responses := [Response 200 (Some (JObj [(''accessToken'', JStr ''at2'')]))]\<rparr>)) =
     Inr unknown_appointment \<and>
   filter is_request (trace (snd (fetchAppointmentWithTokenRefresh False
     (consultant_lobby
        \<lparr>appointment_responses := [Response 401 None, Response 401 None],
         refresh_responses := [Response 200 (Some (JObj [(''accessToken'', JStr ''at2'')]))]\<rparr>)))) =
     [GetAppointment ''42'' ''at1'', PostRefresh ''rt1'', GetAppointment ''42'' ''at2''] \<and>
   fst (fetchAppointmentWithTokenRefresh False
     (consultant_lobby
        \<lparr>appointment_responses := [Response 401 None, appointment_reply (JStr ''ON_GOING'')],
         refresh_responses := [Response 403 None]\<rparr>)) =
     Inr unknown_appointment"
proof -
  let ?ok = "Response 200 (Some (JObj [(''accessToken'', JStr ''at2'')]))"
  let ?a = "consultant_lobby
        \<lparr>appointment_responses := [Response 401 None, appointment_reply (JStr ''ON_GOING'')],
         refresh_responses := [?ok]\<rparr>"
  let ?b = "consultant_lobby
        \<lparr>appointment_responses := [Response 401 None, Response 401 None],
         refresh_responses := [?ok]\<rparr>"
  let ?c = "consultant_lobby
        \<lparr>appointment_responses := [Response 401 None, appointment_reply (JStr ''ON_GOING'')],
         refresh_responses := [Response 403 None]\<rparr>"
  note third = status_read_refreshes_once[THEN conjunct2, THEN conjunct2, THEN conjunct1,
      rule_format]
  note fourth = status_read_refreshes_once[THEN conjunct2, THEN conjunct2, THEN conjunct2,
      rule_format]
  have ha: "localStorage ?a ''accessToken'' = Some ''at1''"
    "localStorage ?a ''refreshToken'' = Some ''rt1''"
    "appointment_responses ?a = Response 401 None # [appointment_reply (JStr ''ON_GOING'')]"
    "refresh_responses ?a = ?ok # []" "appointmentId ?a = ''42''"
    by (simp_all add: vm_states)
  have hb: "localStorage ?b ''accessToken'' = Some ''at1''"
    "localStorage ?b ''refreshToken'' = Some ''rt1''"
    "appointment_responses ?b = Response 401 None # [Response 401 None]"
    "refresh_responses ?b = ?ok # []" "appointmentId ?b = ''42''"
    by (simp_all add: vm_states)
  have hc: "localStorage ?c ''accessToken'' = Some ''at1''"
    "appointment_responses ?c = Response 401 None # [appointment_reply (JStr ''ON_GOING'')]"
    "fst (refreshAccessToken (snd (fetch_appointment ''at1'' ?c))) =
      Inl (mk_Error ''Failed to refresh token'')"
    by (simp_all add: vm_states read_unfold)
  have tk: "js_get (JObj [(''accessToken'', JStr ''at2'')]) ''accessToken'' = Some (JStr ''at2'')"
    "truthy (JStr ''at2'')" "js_String (JStr ''at2'') = Some ''at2''" "response_ok 200"
    "''at1'' \<noteq> []" "''rt1'' \<noteq> []" "''at2'' \<noteq> []"
    by (simp_all add: response_ok_def)
  have a: "\<exists>st'. fetchAppointmentWithTokenRefresh False ?a =
      (Inr (JObj [(''status'', JStr ''ON_GOING'')]), st') \<and>
      filter is_request (events_since ?a st') =
        [GetAppointment ''42'' ''at1'', PostRefresh ''rt1'', GetAppointment ''42'' ''at2'']"
    using third[of ?a "''at1''" None "[appointment_reply (JStr ''ON_GOING'')]" "''rt1''" 200
        "JObj [(''accessToken'', JStr ''at2'')]" "[]" "JStr ''at2''" "''at2''"] ha tk
    by (simp add: appointment_reply_def response_ok_def)
  have b: "\<exists>st'. fetchAppointmentWithTokenRefresh False ?b = (Inr unknown_appointment, st') \<and>
      filter is_request (events_since ?b st') =
        [GetAppointment ''42'' ''at1'', PostRefresh ''rt1'', GetAppointment ''42'' ''at2'']"
    using third[of ?b "''at1''" None "[Response 401 None]" "''rt1''" 200
        "JObj [(''accessToken'', JStr ''at2'')]" "[]" "JStr ''at2''" "''at2''"] hb tk
    by (simp add: response_ok_def)
  have c: "\<exists>st'. fetchAppointmentWithTokenRefresh False ?c = (Inr unknown_appointment, st')"
    using fourth[of ?c "''at1''" None "[appointment_reply (JStr ''ON_GOING'')]"
        "mk_Error ''Failed to refresh token''"] hc tk
    by blast
  have e: "trace ?a = []" "trace ?b = []"
    by (simp_all add: vm_states)
  from a b c e show ?thesis
    by (auto simp: events_since_def)
qed

section \<open>The end intent\<close>

lemma check_result:
  assumes "checkAppointmentStatus st = (r, st1)"
  obtains d es where "r = Inr d" "truthy_opt (js_get d ''status'')"
    "trace st1 = trace st @ es" "list_all status_read_event es"
    "outside_read st1 = outside_read st"
  using checkAppointmentStatus_effect[of st] assms by auto

lemma status_read_no_mutation:
  "list_all status_read_event es \<Longrightarrow>
   filter is_end_mutation es = [] \<and> filter is_start_mutation es = [] \<and>
   filter is_error_alert es = [] \<and> MeetingLeave \<notin> set es \<and> Navigate u \<notin> set es"
  by (induction es) (auto elim: status_read_event.elims)

lemma end_not_ongoing:
  assumes c: "isConsultant st"
    and r: "checkAppointmentStatus st = (Inr d, st1)"
    and s: "js_get d ''status'' \<noteq> Some (JStr ''ON_GOING'')"
  shows "handleEndMeeting st =
           handleOnMeetingLeave (customAudioStream st) (customVideoStream st) st1 \<and>
         \<not> isMeetingStarted (handleEndMeeting st) \<and>
         meetingRef (handleEndMeeting st) = None \<and>
         openEndDialog (handleEndMeeting st) = openEndDialog st \<and>
         filter is_end_mutation (events_since st (handleEndMeeting st)) = [] \<and>
         (\<exists>es. list_all status_read_event es \<and>
            events_since st (handleEndMeeting st) =
              es @ (if meetingRef st = None then [] else [MeetingLeave]) @
              map TrackStop (tracks_of (customAudioStream st)) @
              map TrackStop (tracks_of (customVideoStream st)) @ [Navigate ''/''])"
proof -
  from r obtain es where h: "truthy_opt (js_get d ''status'')"
    "trace st1 = trace st @ es" "list_all status_read_event es"
    "outside_read st1 = outside_read st"
    by (auto elim: check_result)
  note f = outside_read_fields[OF h(4)]
  note n = status_read_no_mutation[OF h(3)]
  have e: "handleEndMeeting st =
      handleOnMeetingLeave (customAudioStream st) (customVideoStream st) st1"
    using s by (simp add: handleEndMeeting_cases[OF r h(1) c])
  show ?thesis
    unfolding e using h(2,3) f n
    by (auto simp: handleOnMeetingLeave_eq events_since_def)
qed

lemma end_ongoing:
  assumes c: "isConsultant st"
    and r: "checkAppointmentStatus st = (Inr d, st1)"
    and s: "js_get d ''status'' = Some (JStr ''ON_GOING'')"
  shows "handleEndMeeting st = st1\<lparr>openEndDialog := True\<rparr> \<and>
         openEndDialog (handleEndMeeting st) \<and>
         isMeetingStarted (handleEndMeeting st) = isMeetingStarted st \<and>
         meetingRef (handleEndMeeting st) = meetingRef st \<and>
         list_all status_read_event (events_since st (handleEndMeeting st))"
proof -
  from r obtain es where h: "truthy_opt (js_get d ''status'')"
    "trace st1 = trace st @ es" "list_all status_read_event es"
    "outside_read st1 = outside_read st"
    by (auto elim: check_result)
  note f = outside_read_fields[OF h(4)]
  have e: "handleEndMeeting st = st1\<lparr>openEndDialog := True\<rparr>"
    using s by (simp add: handleEndMeeting_cases[OF r h(1) c])
  show ?thesis
    unfolding e using h(2,3) f
    by (auto simp: events_since_def)
qed

lemma end_confirmed:
  assumes u: "js_get (userData st) ''id'' = Some uid" "truthy uid" "js_String uid = Some cid"
    and r: "checkAppointmentStatus (st\<lparr>openEndDialog := False\<rparr>) = (Inr d, st1)"
    and s: "js_get d ''status'' = Some (JStr ''ON_GOING'')"
    and p: "put_responses st = None # rest"
  shows "\<not> isMeetingStarted (handleConfirmEndMeeting st) \<and>
         \<not> openEndDialog (handleConfirmEndMeeting st) \<and>
         meetingRef (handleConfirmEndMeeting st) = None \<and>
         (\<exists>es. list_all status_read_event es \<and>
            events_since st (handleConfirmEndMeeting st) =
              es @ [PutEnd (appointmentId st) cid (consultantNote st),
                    SuccessAlert ''Hoan thanh buoi tu van thanh cong!''] @
              (if meetingRef st = None then [] else [MeetingLeave, MeetingLeave]) @
              map TrackStop (tracks_of (customAudioStream st)) @
              map TrackStop (tracks_of (customVideoStream st)) @ [Navigate ''/''])"
proof -
  let ?s = "st\<lparr>openEndDialog := False\<rparr>"
  from r obtain es where h: "truthy_opt (js_get d ''status'')"
    "trace st1 = trace ?s @ es" "list_all status_read_event es"
    "outside_read st1 = outside_read ?s"
    by (auto elim: check_result)
  note f = outside_read_fields[OF h(4)]
  have c: "confirm_status_read ?s = (d, st1)" by (rule confirm_status_read_eq[OF r])
  have t: "truthy (userData st)" using u(1) by (cases "userData st") auto
  show ?thesis
    using u t s p h(2,3) f
    by (auto simp: handleConfirmEndMeeting_def handleConfirmEndMeeting_try_def c
        js_prop_truthy[OF h(1)] end_appointment_def api_put_def showSuccessAlert_def
        emit_def events_since_def handleOnMeetingLeave_eq leave_if_joined_def
        falsy_def falsy_opt_def js_String_opt_def Let_def split: option.splits)
qed

lemma end_confirm_issued:
  assumes u: "js_get (userData st) ''id'' = Some uid" "truthy uid" "js_String uid = Some cid"
    and r: "checkAppointmentStatus (st\<lparr>openEndDialog := False\<rparr>) = (Inr d, st1)"
    and s: "js_get d ''status'' = Some (JStr ''ON_GOING'')"
  shows "filter is_end_mutation (events_since st (handleConfirmEndMeeting st)) =
           [PutEnd (appointmentId st) cid (consultantNote st)]"
proof -
  let ?s = "st\<lparr>openEndDialog := False\<rparr>"
  from r obtain es where h: "truthy_opt (js_get d ''status'')"
    "trace st1 = trace ?s @ es" "list_all status_read_event es"
    "outside_read st1 = outside_read ?s"
    by (auto elim: check_result)
  note f = outside_read_fields[OF h(4)]
  note n = status_read_no_mutation[OF h(3)]
  have c: "confirm_status_read ?s = (d, st1)" by (rule confirm_status_read_eq[OF r])
  have t: "truthy (userData st)" using u(1) by (cases "userData st") auto
  show ?thesis
    using u t s h(2) f n
    by (auto simp: handleConfirmEndMeeting_def handleConfirmEndMeeting_try_def c
        js_prop_truthy[OF h(1)] end_appointment_def api_put_def showSuccessAlert_def
        showErrorAlert_def console_error_def
        emit_def events_since_def handleOnMeetingLeave_eq leave_if_joined_def
        falsy_def falsy_opt_def js_String_opt_def Let_def
        split: option.splits list.splits)
qed

lemma end_confirm_failed:
  assumes u: "js_get (userData st) ''id'' = Some uid" "truthy uid" "js_String uid = Some cid"
    and r: "checkAppointmentStatus (st\<lparr>openEndDialog := False\<rparr>) = (Inr d, st1)"
    and s: "js_get d ''status'' = Some (JStr ''ON_GOING'')"
    and p: "\<forall>rest. put_responses st \<noteq> None # rest"
  shows "isMeetingStarted (handleConfirmEndMeeting st) = isMeetingStarted st \<and>
         meetingRef (handleConfirmEndMeeting st) = meetingRef st \<and>
         MeetingLeave \<notin> set (events_since st (handleConfirmEndMeeting st)) \<and>
         Navigate ''/'' \<notin> set (events_since st (handleConfirmEndMeeting st)) \<and>
         (\<forall>name message resp_message resp_error rest.
            put_responses st = Some (Exn name message resp_message resp_error) # rest \<longrightarrow>
            filter is_error_alert (events_since st (handleConfirmEndMeeting st)) =
              [ErrorAlert (''Khong the ket thuc buoi tu van: '' @
                 (if resp_message \<noteq> [] then resp_message
                  else if resp_error \<noteq> [] then resp_error
                  else if message \<noteq> [] then message
                  else ''Loi khong xac dinh''))])"
proof -
  let ?s = "st\<lparr>openEndDialog := False\<rparr>"
  from r obtain es where h: "truthy_opt (js_get d ''status'')"
    "trace st1 = trace ?s @ es" "list_all status_read_event es"
    "outside_read st1 = outside_read ?s"
    by (auto elim: check_result)
  note f = outside_read_fields[OF h(4)]
  note n = status_read_no_mutation[OF h(3), of "''/''"]
  have c: "confirm_status_read ?s = (d, st1)" by (rule confirm_status_read_eq[OF r])
  have t: "truthy (userData st)" using u(1) by (cases "userData st") auto
  show ?thesis
    using u t s p h(2) f n
    by (auto simp: handleConfirmEndMeeting_def handleConfirmEndMeeting_try_def c
        js_prop_truthy[OF h(1)] end_appointment_def api_put_def
        showErrorAlert_def console_error_def error_message_def network_error_def
        mk_TypeError_def
        emit_def events_since_def
        falsy_def falsy_opt_def js_String_opt_def Let_def
        split: option.splits list.splits exn.splits)
qed

lemma end_confirm_skipped:
  assumes u: "truthy_opt (js_get (userData st) ''id'')"
    and r: "checkAppointmentStatus (st\<lparr>openEndDialog := False\<rparr>) = (Inr d, st1)"
    and s: "js_get d ''status'' \<noteq> Some (JStr ''ON_GOING'')"
  shows "\<not> isMeetingStarted (handleConfirmEndMeeting st) \<and>
         \<not> openEndDialog (handleConfirmEndMeeting st) \<and>
         meetingRef (handleConfirmEndMeeting st) = None \<and>
         filter is_end_mutation (events_since st (handleConfirmEndMeeting st)) = [] \<and>
         (\<exists>es. list_all status_read_event es \<and>
            events_since st (handleConfirmEndMeeting st) =
              es @ (if meetingRef st = None then [] else [MeetingLeave, MeetingLeave]) @
              map TrackStop (tracks_of (customAudioStream st)) @
              map TrackStop (tracks_of (customVideoStream st)) @ [Navigate ''/''])"
proof -
  let ?s = "st\<lparr>openEndDialog := False\<rparr>"
  from r obtain es where h: "truthy_opt (js_get d ''status'')"
    "trace st1 = trace ?s @ es" "list_all status_read_event es"
    "outside_read st1 = outside_read ?s"
    by (auto elim: check_result)
  note f = outside_read_fields[OF h(4)]
  note n = status_read_no_mutation[OF h(3)]
  have c: "confirm_status_read ?s = (d, st1)" by (rule confirm_status_read_eq[OF r])
  have t: "truthy (userData st)" using u by (rule truthy_of_get)
  show ?thesis
    using u t s h(2,3) f n
    by (auto simp: handleConfirmEndMeeting_def handleConfirmEndMeeting_try_def c
        js_prop_truthy[OF h(1)]
        emit_def events_since_def handleOnMeetingLeave_eq leave_if_joined_def
        falsy_def falsy_opt_def Let_def split: option.splits)
qed

lemma show_end_not_ongoing:
  assumes c: "isConsultant st"
    and r: "checkAppointmentStatus (st\<lparr>consultantNote := [], openEndDialog := True\<rparr>) =
              (Inr d, st1)"
    and s: "js_get d ''status'' \<noteq> Some (JStr ''ON_GOING'')"
  shows "\<not> isMeetingStarted (handleShowEndDialog audio video st) \<and>
         \<not> openEndDialog (handleShowEndDialog audio video st) \<and>
         meetingRef (handleShowEndDialog audio video st) = None \<and>
         filter is_end_mutation (events_since st (handleShowEndDialog audio video st)) = [] \<and>
         (\<exists>es. list_all status_read_event es \<and>
            events_since st (handleShowEndDialog audio video st) =
              es @ (if meetingRef st = None then [] else [MeetingLeave]) @
              map TrackStop (tracks_of audio) @ map TrackStop (tracks_of video) @
              [Navigate ''/''])"
proof -
  let ?s = "st\<lparr>consultantNote := [], openEndDialog := True\<rparr>"
  from r obtain es where h: "truthy_opt (js_get d ''status'')"
    "trace st1 = trace ?s @ es" "list_all status_read_event es"
    "outside_read st1 = outside_read ?s"
    by (auto elim: check_result)
  note f = outside_read_fields[OF h(4)]
  note n = status_read_no_mutation[OF h(3)]
  show ?thesis
    using s h(2,3) n f
    by (auto simp: handleShowEndDialog_cases[OF r h(1) c] handleOnMeetingLeave_eq
        events_since_def)
qed

lemma show_end_ongoing:
  assumes c: "isConsultant st"
    and r: "checkAppointmentStatus (st\<lparr>consultantNote := [], openEndDialog := True\<rparr>) =
              (Inr d, st1)"
    and s: "js_get d ''status'' = Some (JStr ''ON_GOING'')"
  shows "openEndDialog (handleShowEndDialog audio video st) \<and>
         consultantNote (handleShowEndDialog audio video st) = [] \<and>
         isMeetingStarted (handleShowEndDialog audio video st) = isMeetingStarted st \<and>
         meetingRef (handleShowEndDialog audio video st) = meetingRef st \<and>
         list_all status_read_event (events_since st (handleShowEndDialog audio video st))"
proof -
  let ?s = "st\<lparr>consultantNote := [], openEndDialog := True\<rparr>"
  from r obtain es where h: "truthy_opt (js_get d ''status'')"
    "trace st1 = trace ?s @ es" "list_all status_read_event es"
    "outside_read st1 = outside_read ?s"
    by (auto elim: check_result)
  note f = outside_read_fields[OF h(4)]
  show ?thesis
    using s h(2,3) f
    by (auto simp: handleShowEndDialog_cases[OF r h(1) c] events_since_def)
qed

text \<open>
  Claim C2, as amended. For a consultant, \<^verbatim>\<open>handleEndMeeting\<close> reads the status. For every
  status other than the string \<open>ON_GOING\<close> it leaves at once: the session is told to
  leave, the tracks are stopped, the screen navigates away, the end prompt stays as it was
  and no end mutation is requested. For \<open>ON_GOING\<close> it opens the end prompt (which
  holds the note field) and does nothing else: the meeting stays started and joined, and
  only the status read's own events were added. Cancelling only closes the prompt: the
  meeting stays started and joined and nothing is requested. Confirming the prompt, with a
  user id present, reads the status again. When this second read yields \<open>ON_GOING\<close>,
  exactly one end mutation is requested, with the consultant's id and the note of the
  state; when it succeeds the meeting is left, and when it fails the meeting is not left
  (and a rejection that is an error object is shown in an error alert). When the second
  read yields anything else, no end mutation is requested and the meeting is left. The
  handler wired to the meeting container, \<^verbatim>\<open>handleShowEndDialog\<close>, gates like
  \<^verbatim>\<open>handleEndMeeting\<close> (it shows the prompt first and closes it again when the status
  is not \<open>ON_GOING\<close>).
\<close>

theorem end_intent_gate:
  assumes "isConsultant st"
  shows
  "(\<forall>d st1. checkAppointmentStatus st = (Inr d, st1) \<and>
      js_get d ''status'' \<noteq> Some (JStr ''ON_GOING'') \<longrightarrow>
      handleEndMeeting st =
        handleOnMeetingLeave (customAudioStream st) (customVideoStream st) st1 \<and>
      \<not> isMeetingStarted (handleEndMeeting st) \<and>
      meetingRef (handleEndMeeting st) = None \<and>
      openEndDialog (handleEndMeeting st) = openEndDialog st \<and>
      filter is_end_mutation (events_since st (handleEndMeeting st)) = [] \<and>
      (\<exists>es. list_all status_read_event es \<and>
         events_since st (handleEndMeeting st) =
           es @ (if meetingRef st = None then [] else [MeetingLeave]) @
           map TrackStop (tracks_of (customAudioStream st)) @
           map TrackStop (tracks_of (customVideoStream st)) @ [Navigate ''/''])) \<and>
   (\<forall>d st1. checkAppointmentStatus st = (Inr d, st1) \<and>
      js_get d ''status'' = Some (JStr ''ON_GOING'') \<longrightarrow>
      handleEndMeeting st = st1\<lparr>openEndDialog := True\<rparr> \<and>
      openEndDialog (handleEndMeeting st) \<and>
      isMeetingStarted (handleEndMeeting st) = isMeetingStarted st \<and>
      meetingRef (handleEndMeeting st) = meetingRef st \<and>
      list_all status_read_event (events_since st (handleEndMeeting st))) \<and>
   (isMeetingStarted (cancelEndDialog st) = isMeetingStarted st \<and>
    meetingRef (cancelEndDialog st) = meetingRef st \<and>
    trace (cancelEndDialog st) = trace st \<and>
    \<not> openEndDialog (cancelEndDialog st)) \<and>
   (\<forall>uid cid d st1.
      js_get (userData st) ''id'' = Some uid \<and> truthy uid \<and> js_String uid = Some cid \<and>
      checkAppointmentStatus (st\<lparr>openEndDialog := False\<rparr>) = (Inr d, st1) \<and>
      js_get d ''status'' = Some (JStr ''ON_GOING'') \<longrightarrow>
      filter is_end_mutation (events_since st (handleConfirmEndMeeting st)) =
        [PutEnd (appointmentId st) cid (consultantNote st)]) \<and>
   (\<forall>uid cid d st1 rest.
      js_get (userData st) ''id'' = Some uid \<and> truthy uid \<and> js_String uid = Some cid \<and>
      checkAppointmentStatus (st\<lparr>openEndDialog := False\<rparr>) = (Inr d, st1) \<and>
      js_get d ''status'' = Some (JStr ''ON_GOING'') \<and>
      put_responses st = None # rest \<longrightarrow>
      \<not> isMeetingStarted (handleConfirmEndMeeting st) \<and>
      \<not> openEndDialog (handleConfirmEndMeeting st) \<and>
      meetingRef (handleConfirmEndMeeting st) = None \<and>
      (\<exists>es. list_all status_read_event es \<and>
         events_since st (handleConfirmEndMeeting st) =
           es @ [PutEnd (appointmentId st) cid (consultantNote st),
                 SuccessAlert ''Hoan thanh buoi tu van thanh cong!''] @
           (if meetingRef st = None then [] else [MeetingLeave, MeetingLeave]) @
           map TrackStop (tracks_of (customAudioStream st)) @
           map TrackStop (tracks_of (customVideoStream st)) @ [Navigate ''/''])) \<and>
   (\<forall>uid cid d st1.
      js_get (userData st) ''id'' = Some uid \<and> truthy uid \<and> js_String uid = Some cid \<and>
      checkAppointmentStatus (st\<lparr>openEndDialog := False\<rparr>) = (Inr d, st1) \<and>
      js_get d ''status'' = Some (JStr ''ON_GOING'') \<and>
      (\<forall>rest. put_responses st \<noteq> None # rest) \<longrightarrow>
      isMeetingStarted (handleConfirmEndMeeting st) = isMeetingStarted st \<and>
      meetingRef (handleConfirmEndMeeting st) = meetingRef st \<and>
      MeetingLeave \<notin> set (events_since st (handleConfirmEndMeeting st)) \<and>
      Navigate ''/'' \<notin> set (events_since st (handleConfirmEndMeeting st)) \<and>
      (\<forall>name message resp_message resp_error rest.
         put_responses st = Some (Exn name message resp_message resp_error) # rest \<longrightarrow>
         filter is_error_alert (events_since st (handleConfirmEndMeeting st)) =
           [ErrorAlert (''Khong the ket thuc buoi tu van: '' @
              (if resp_message \<noteq> [] then resp_message
               else if resp_error \<noteq> [] then resp_error
               else if message \<noteq> [] then message
               else ''Loi khong xac dinh''))])) \<and>
   (\<forall>d st1.
      truthy_opt (js_get (userData st) ''id'') \<and>
      checkAppointmentStatus (st\<lparr>openEndDialog := False\<rparr>) = (Inr d, st1) \<and>
      js_get d ''status'' \<noteq> Some (JStr ''ON_GOING'') \<longrightarrow>
      \<not> isMeetingStarted (handleConfirmEndMeeting st) \<and>
      \<not> openEndDialog (handleConfirmEndMeeting st) \<and>
      meetingRef (handleConfirmEndMeeting st) = None \<and>
      filter is_end_mutation (events_since st (handleConfirmEndMeeting st)) = [] \<and>
      (\<exists>es. list_all status_read_event es \<and>
         events_since st (handleConfirmEndMeeting st) =
           es @ (if meetingRef st = None then [] else [MeetingLeave, MeetingLeave]) @
           map TrackStop (tracks_of (customAudioStream st)) @
           map TrackStop (tracks_of (customVideoStream st)) @ [Navigate ''/''])) \<and>
   (\<forall>d st1.
      checkAppointmentStatus (st\<lparr>consultantNote := [], openEndDialog := True\<rparr>) =
        (Inr d, st1) \<and>
      js_get d ''status'' \<noteq> Some (JStr ''ON_GOING'') \<longrightarrow>
      \<not> isMeetingStarted (handleShowEndDialog audio video st) \<and>
      \<not> openEndDialog (handleShowEndDialog audio video st) \<and>
      meetingRef (handleShowEndDialog audio video st) = None \<and>
      filter is_end_mutation (events_since st (handleShowEndDialog audio video st)) = [] \<and>
      (\<exists>es. list_all status_read_event es \<and>
         events_since st (handleShowEndDialog audio video st) =
           es @ (if meetingRef st = None then [] else [MeetingLeave]) @
           map TrackStop (tracks_of audio) @ map TrackStop (tracks_of video) @
           [Navigate ''/''])) \<and>
   (\<forall>d st1.
      checkAppointmentStatus (st\<lparr>consultantNote := [], openEndDialog := True\<rparr>) =
        (Inr d, st1) \<and>
      js_get d ''status'' = Some (JStr ''ON_GOING'') \<longrightarrow>
      openEndDialog (handleShowEndDialog audio video st) \<and>
      consultantNote (handleShowEndDialog audio video st) = [] \<and>
      isMeetingStarted (handleShowEndDialog audio video st) = isMeetingStarted st \<and>
      meetingRef (handleShowEndDialog audio video st) = meetingRef st \<and>
      list_all status_read_event (events_since st (handleShowEndDialog audio video st)))"
proof -
  have a: "\<forall>d st1. checkAppointmentStatus st = (Inr d, st1) \<and>
      js_get d ''status'' \<noteq> Some (JStr ''ON_GOING'') \<longrightarrow>
      handleEndMeeting st =
        handleOnMeetingLeave (customAudioStream st) (customVideoStream st) st1 \<and>
      \<not> isMeetingStarted (handleEndMeeting st) \<and>
      meetingRef (handleEndMeeting st) = None \<and>
      openEndDialog (handleEndMeeting st) = openEndDialog st \<and>
      filter is_end_mutation (events_since st (handleEndMeeting st)) = [] \<and>
      (\<exists>es. list_all status_read_event es \<and>
         events_since st (handleEndMeeting st) =
           es @ (if meetingRef st = None then [] else [MeetingLeave]) @
           map TrackStop (tracks_of (customAudioStream st)) @
           map TrackStop (tracks_of (customVideoStream st)) @ [Navigate ''/''])"
    using end_not_ongoing[OF assms] by blast
  have b: "\<forall>d st1. checkAppointmentStatus st = (Inr d, st1) \<and>
      js_get d ''status'' = Some (JStr ''ON_GOING'') \<longrightarrow>
      handleEndMeeting st = st1\<lparr>openEndDialog := True\<rparr> \<and>
      openEndDialog (handleEndMeeting st) \<and>
      isMeetingStarted (handleEndMeeting st) = isMeetingStarted st \<and>
      meetingRef (handleEndMeeting st) = meetingRef st \<and>
      list_all status_read_event (events_since st (handleEndMeeting st))"
    using end_ongoing[OF assms] by blast
  have c: "isMeetingStarted (cancelEndDialog st) = isMeetingStarted st \<and>
    meetingRef (cancelEndDialog st) = meetingRef st \<and>
    trace (cancelEndDialog st) = trace st \<and>
    \<not> openEndDialog (cancelEndDialog st)"
    by (simp add: cancelEndDialog_def)
  have d: "\<forall>uid cid d st1.
      js_get (userData st) ''id'' = Some uid \<and> truthy uid \<and> js_String uid = Some cid \<and>
      checkAppointmentStatus (st\<lparr>openEndDialog := False\<rparr>) = (Inr d, st1) \<and>
      js_get d ''status'' = Some (JStr ''ON_GOING'') \<longrightarrow>
      filter is_end_mutation (events_since st (handleConfirmEndMeeting st)) =
        [PutEnd (appointmentId st) cid (consultantNote st)]"
    using end_confirm_issued[of st] by blast
  have e: "\<forall>uid cid d st1 rest.
      js_get (userData st) ''id'' = Some uid \<and> truthy uid \<and> js_String uid = Some cid \<and>
      checkAppointmentStatus (st\<lparr>openEndDialog := False\<rparr>) = (Inr d, st1) \<and>
      js_get d ''status'' = Some (JStr ''ON_GOING'') \<and>
      put_responses st = None # rest \<longrightarrow>
      \<not> isMeetingStarted (handleConfirmEndMeeting st) \<and>
      \<not> openEndDialog (handleConfirmEndMeeting st) \<and>
      meetingRef (handleConfirmEndMeeting st) = None \<and>
      (\<exists>es. list_all status_read_event es \<and>
         events_since st (handleConfirmEndMeeting st) =
           es @ [PutEnd (appointmentId st) cid (consultantNote st),
                 SuccessAlert ''Hoan thanh buoi tu van thanh cong!''] @
           (if meetingRef st = None then [] else [MeetingLeave, MeetingLeave]) @
           map TrackStop (tracks_of (customAudioStream st)) @
           map TrackStop (tracks_of (customVideoStream st)) @ [Navigate ''/''])"
    using end_confirmed[of st] by blast
  have f: "\<forall>uid cid d st1.
      js_get (userData st) ''id'' = Some uid \<and> truthy uid \<and> js_String uid = Some cid \<and>
      checkAppointmentStatus (st\<lparr>openEndDialog := False\<rparr>) = (Inr d, st1) \<and>
      js_get d ''status'' = Some (JStr ''ON_GOING'') \<and>
      (\<forall>rest. put_responses st \<noteq> None # rest) \<longrightarrow>
      isMeetingStarted (handleConfirmEndMeeting st) = isMeetingStarted st \<and>
      meetingRef (handleConfirmEndMeeting st) = meetingRef st \<and>
      MeetingLeave \<notin> set (events_since st (handleConfirmEndMeeting st)) \<and>
      Navigate ''/'' \<notin> set (events_since st (handleConfirmEndMeeting st)) \<and>
      (\<forall>name message resp_message resp_error rest.
         put_responses st = Some (Exn name message resp_message resp_error) # rest \<longrightarrow>
         filter is_error_alert (events_since st (handleConfirmEndMeeting st)) =
           [ErrorAlert (''Khong the ket thuc buoi tu van: '' @
              (if resp_message \<noteq> [] then resp_message
               else if resp_error \<noteq> [] then resp_error
               else if message \<noteq> [] then message
               else ''Loi khong xac dinh''))])"
  proof (intro allI impI, elim conjE)
    fix uid cid d st1
    assume h: "js_get (userData st) ''id'' = Some uid" "truthy uid" "js_String uid = Some cid"
      "checkAppointmentStatus (st\<lparr>openEndDialog := False\<rparr>) = (Inr d, st1)"
      "js_get d ''status'' = Some (JStr ''ON_GOING'')"
      "\<forall>rest. put_responses st \<noteq> None # rest"
    from end_confirm_failed[OF h]
    show "isMeetingStarted (handleConfirmEndMeeting st) = isMeetingStarted st \<and>
      meetingRef (handleConfirmEndMeeting st) = meetingRef st \<and>
      MeetingLeave \<notin> set (events_since st (handleConfirmEndMeeting st)) \<and>
      Navigate ''/'' \<notin> set (events_since st (handleConfirmEndMeeting st)) \<and>
      (\<forall>name message resp_message resp_error rest.
         put_responses st = Some (Exn name message resp_message resp_error) # rest \<longrightarrow>
         filter is_error_alert (events_since st (handleConfirmEndMeeting st)) =
           [ErrorAlert (''Khong the ket thuc buoi tu van: '' @
              (if resp_message \<noteq> [] then resp_message
               else if resp_error \<noteq> [] then resp_error
               else if message \<noteq> [] then message
               else ''Loi khong xac dinh''))])" .
  qed
  have g: "\<forall>d st1.
      truthy_opt (js_get (userData st) ''id'') \<and>
      checkAppointmentStatus (st\<lparr>openEndDialog := False\<rparr>) = (Inr d, st1) \<and>
      js_get d ''status'' \<noteq> Some (JStr ''ON_GOING'') \<longrightarrow>
      \<not> isMeetingStarted (handleConfirmEndMeeting st) \<and>
      \<not> openEndDialog (handleConfirmEndMeeting st) \<and>
      meetingRef (handleConfirmEndMeeting st) = None \<and>
      filter is_end_mutation (events_since st (handleConfirmEndMeeting st)) = [] \<and>
      (\<exists>es. list_all status_read_event es \<and>
         events_since st (handleConfirmEndMeeting st) =
           es @ (if meetingRef st = None then [] else [MeetingLeave, MeetingLeave]) @
           map TrackStop (tracks_of (customAudioStream st)) @
           map TrackStop (tracks_of (customVideoStream st)) @ [Navigate ''/''])"
    using end_confirm_skipped[of st] by blast
  have h: "\<forall>d st1.
      checkAppointmentStatus (st\<lparr>consultantNote := [], openEndDialog := True\<rparr>) =
        (Inr d, st1) \<and>
      js_get d ''status'' \<noteq> Some (JStr ''ON_GOING'') \<longrightarrow>
      \<not> isMeetingStarted (handleShowEndDialog audio video st) \<and>
      \<not> openEndDialog (handleShowEndDialog audio video st) \<and>
      meetingRef (handleShowEndDialog audio video st) = None \<and>
      filter is_end_mutation (events_since st (handleShowEndDialog audio video st)) = [] \<and>
      (\<exists>es. list_all status_read_event es \<and>
         events_since st (handleShowEndDialog audio video st) =
           es @ (if meetingRef st = None then [] else [MeetingLeave]) @
           map TrackStop (tracks_of audio) @ map TrackStop (tracks_of video) @
           [Navigate ''/''])"
    using show_end_not_ongoing[OF assms] by blast
  have i: "\<forall>d st1.
      checkAppointmentStatus (st\<lparr>consultantNote := [], openEndDialog := True\<rparr>) =
        (Inr d, st1) \<and>
      js_get d ''status'' = Some (JStr ''ON_GOING'') \<longrightarrow>
      openEndDialog (handleShowEndDialog audio video st) \<and>
      consultantNote (handleShowEndDialog audio video st) = [] \<and>
      isMeetingStarted (handleShowEndDialog audio video st) = isMeetingStarted st \<and>
      meetingRef (handleShowEndDialog audio video st) = meetingRef st \<and>
      list_all status_read_event (events_since st (handleShowEndDialog audio video st))"
    using show_end_ongoing[OF assms] by blast
  show ?thesis
    by (rule conjI[OF a conjI[OF b conjI[OF c conjI[OF d conjI[OF e conjI[OF f
          conjI[OF g conjI[OF h i]]]]]]]])
qed

lemmas end_unfold = handleConfirmEndMeeting_def handleConfirmEndMeeting_try_def
  confirm_status_read_def end_appointment_def api_put_def showSuccessAlert_def
  showErrorAlert_def error_message_def handleOnMeetingLeave_def leave_if_joined_def
  stop_tracks_def handleShowEndDialog_def show_end_status_failed_def handleEndMeeting_def
  end_status_failed_def unmount_cleanup_def js_prop_def js_String_opt_def mk_TypeError_def

text \<open>
  Claim C2 as stated fails when the status read of the confirmation does not yield
  \<open>ON_GOING\<close>. The consultant inside the meeting asks to end it; the status read yields
  exactly \<open>ON_GOING\<close> and the prompt is shown. The consultant types a note and
  confirms, but by then the appointment has become \<open>COMPLETED\<close>, the case the guard of
  the confirm handler is written for: the meeting is left and no end mutation is
  requested. The same happens when the status read of the confirmation gets no answer and
  yields \<open>UNKNOWN\<close>: the meeting is left, no end mutation is requested and no error is
  shown.
\<close>

theorem end_gate_second_read_fails:
  "status_of (fst (checkAppointmentStatus
      (consultant_in_meeting
         \<lparr>appointment_responses :=
            [appointment_reply (JStr ''ON_GOING''), appointment_reply (JStr ''COMPLETED'')],
          put_responses := [None]\<rparr>))) = Some (JStr ''ON_GOING'') \<and>
   openEndDialog (handleEndMeeting
      (consultant_in_meeting
         \<lparr>appointment_responses :=
            [appointment_reply (JStr ''ON_GOING''), appointment_reply (JStr ''COMPLETED'')],
          put_responses := [None]\<rparr>)) \<and>
   filter is_end_mutation (trace (handleConfirmEndMeeting (setConsultantNote ''all well''
      (handleEndMeeting
         (consultant_in_meeting
            \<lparr>appointment_responses :=
               [appointment_reply (JStr ''ON_GOING''), appointment_reply (JStr ''COMPLETED'')],
             put_responses := [None]\<rparr>))))) = [] \<and>
   \<not> isMeetingStarted (handleConfirmEndMeeting (setConsultantNote ''all well''
      (handleEndMeeting
         (consultant_in_meeting
            \<lparr>appointment_responses :=
               [appointment_reply (JStr ''ON_GOING''), appointment_reply (JStr ''COMPLETED'')],
             put_responses := [None]\<rparr>)))) \<and>
   openEndDialog (handleEndMeeting
      (consultant_in_meeting
         \<lparr>appointment_responses := [appointment_reply (JStr ''ON_GOING'')],
          put_responses := [None]\<rparr>)) \<and>
   filter is_end_mutation (trace (handleConfirmEndMeeting (setConsultantNote ''all well''
      (handleEndMeeting
         (consultant_in_meeting
            \<lparr>appointment_responses := [appointment_reply (JStr ''ON_GOING'')],
             put_responses := [None]\<rparr>))))) = [] \<and>
   \<not> isMeetingStarted (handleConfirmEndMeeting (setConsultantNote ''all well''
      (handleEndMeeting
         (consultant_in_meeting
            \<lparr>appointment_responses := [appointment_reply (JStr ''ON_GOING'')],
             put_responses := [None]\<rparr>)))) \<and>
   filter is_error_alert (trace (handleConfirmEndMeeting (setConsultantNote ''all well''
      (handleEndMeeting
         (consultant_in_meeting
            \<lparr>appointment_responses := [appointment_reply (JStr ''ON_GOING'')],
             put_responses := [None]\<rparr>))))) = []"
  by (simp add: vm_states read_unfold end_unfold status_of_def setConsultantNote_def)

text \<open>
  The amended claim C2 at concrete states of the consultant inside the meeting: the status
  \<open>COMPLETED\<close> leaves at once without an end mutation; \<open>ON_GOING\<close> opens the prompt and
  stays in the meeting; confirming with the note \<open>all well\<close> while the status is still
  \<open>ON_GOING\<close> sends the end mutation for appointment 42, consultant 7, with that note,
  and leaves; when the service rejects that mutation, it was sent and the meeting is not
  left; confirming when the status has become \<open>COMPLETED\<close> sends nothing and leaves;
  cancelling stays.
\<close>

theorem end_intent_gate_witness:
  "\<not> isMeetingStarted (handleEndMeeting
      (consultant_in_meeting\<lparr>appointment_responses := [appointment_reply (JStr ''COMPLETED'')]\<rparr>)) \<and>
   filter is_end_mutation (trace (handleEndMeeting
      (consultant_in_meeting\<lparr>appointment_responses := [appointment_reply (JStr ''COMPLETED'')]\<rparr>))) = [] \<and>
   openEndDialog (handleEndMeeting
      (consultant_in_meeting\<lparr>appointment_responses := [appointment_reply (JStr ''ON_GOING'')]\<rparr>)) \<and>
   isMeetingStarted (handleEndMeeting
      (consultant_in_meeting\<lparr>appointment_responses := [appointment_reply (JStr ''ON_GOING'')]\<rparr>)) \<and>
   filter is_end_mutation (trace (handleConfirmEndMeeting
      (consultant_in_meeting
         \<lparr>openEndDialog := True, consultantNote := ''all well'',
          appointment_responses := [appointment_reply (JStr ''ON_GOING'')],
          put_responses := [None]\<rparr>))) = [PutEnd ''42'' ''7'' ''all well''] \<and>
   \<not> isMeetingStarted (handleConfirmEndMeeting
      (consultant_in_meeting
         \<lparr>openEndDialog := True, consultantNote := ''all well'',
          appointment_responses := [appointment_reply (JStr ''ON_GOING'')],
          put_responses := [None]\<rparr>)) \<and>
   filter is_end_mutation (trace (handleConfirmEndMeeting
      (consultant_in_meeting
         \<lparr>openEndDialog := True, consultantNote := ''all well'',
          appointment_responses := [appointment_reply (JStr ''ON_GOING'')],
          put_responses := [Some (mk_Error ''500'')]\<rparr>))) = [PutEnd ''42'' ''7'' ''all well''] \<and>
   isMeetingStarted (handleConfirmEndMeeting
      (consultant_in_meeting
         \<lparr>openEndDialog := True, consultantNote := ''all well'',
          appointment_responses := [appointment_reply (JStr ''ON_GOING'')],
          put_responses := [Some (mk_Error ''500'')]\<rparr>)) \<and>
   filter is_end_mutation (trace (handleConfirmEndMeeting
      (consultant_in_meeting
         \<lparr>openEndDialog := True, consultantNote := ''all well'',
          appointment_responses := [appointment_reply (JStr ''COMPLETED'')],
          put_responses := [None]\<rparr>))) = [] \<and>
   \<not> isMeetingStarted (handleConfirmEndMeeting
      (consultant_in_meeting
         \<lparr>openEndDialog := True, consultantNote := ''all well'',
          appointment_responses := [appointment_reply (JStr ''COMPLETED'')],
          put_responses := [None]\<rparr>)) \<and>
   isMeetingStarted (cancelEndDialog (consultant_in_meeting\<lparr>openEndDialog := True\<rparr>))"
proof -
  let ?a = "consultant_in_meeting\<lparr>appointment_responses := [appointment_reply (JStr ''COMPLETED'')]\<rparr>"
  let ?b = "consultant_in_meeting\<lparr>appointment_responses := [appointment_reply (JStr ''ON_GOING'')]\<rparr>"
  let ?c = "consultant_in_meeting
         \<lparr>openEndDialog := True, consultantNote := ''all well'',
          appointment_responses := [appointment_reply (JStr ''ON_GOING'')],
          put_responses := [None]\<rparr>"
  let ?f = "consultant_in_meeting
         \<lparr>openEndDialog := True, consultantNote := ''all well'',
          appointment_responses := [appointment_reply (JStr ''ON_GOING'')],
          put_responses := [Some (mk_Error ''500'')]\<rparr>"
  let ?k = "consultant_in_meeting
         \<lparr>openEndDialog := True, consultantNote := ''all well'',
          appointment_responses := [appointment_reply (JStr ''COMPLETED'')],
          put_responses := [None]\<rparr>"
  let ?d = "consultant_in_meeting\<lparr>openEndDialog := True\<rparr>"
  let ?on = "JObj [(''status'', JStr ''ON_GOING'')]"
  let ?co = "JObj [(''status'', JStr ''COMPLETED'')]"
  have ca: "isConsultant ?a" and cb: "isConsultant ?b" and cc: "isConsultant ?c"
    and cd: "isConsultant ?d" and cf: "isConsultant ?f" and ck: "isConsultant ?k"
    by (simp_all add: vm_states)
  have ra: "checkAppointmentStatus ?a = (Inr ?co, snd (checkAppointmentStatus ?a))"
    by (rule prod_eqI) (simp_all add: vm_states read_unfold)
  have rb: "checkAppointmentStatus ?b = (Inr ?on, snd (checkAppointmentStatus ?b))"
    by (rule prod_eqI) (simp_all add: vm_states read_unfold)
  have rc: "checkAppointmentStatus (?c\<lparr>openEndDialog := False\<rparr>) =
      (Inr ?on, snd (checkAppointmentStatus (?c\<lparr>openEndDialog := False\<rparr>)))"
    by (rule prod_eqI) (simp_all add: vm_states read_unfold)
  have rf: "checkAppointmentStatus (?f\<lparr>openEndDialog := False\<rparr>) =
      (Inr ?on, snd (checkAppointmentStatus (?f\<lparr>openEndDialog := False\<rparr>)))"
    by (rule prod_eqI) (simp_all add: vm_states read_unfold)
  have rk: "checkAppointmentStatus (?k\<lparr>openEndDialog := False\<rparr>) =
      (Inr ?co, snd (checkAppointmentStatus (?k\<lparr>openEndDialog := False\<rparr>)))"
    by (rule prod_eqI) (simp_all add: vm_states read_unfold)
  have fc: "js_get (userData ?c) ''id'' = Some (JNum ''7'')" "truthy (JNum ''7'')"
    "js_String (JNum ''7'') = Some ''7''" "put_responses ?c = None # []"
    "appointmentId ?c = ''42''" "consultantNote ?c = ''all well''" "trace ?c = []"
    "trace ?a = []"
    by (simp_all add: vm_states)
  have ff: "js_get (userData ?f) ''id'' = Some (JNum ''7'')"
    "\<forall>rest. put_responses ?f \<noteq> None # rest"
    "appointmentId ?f = ''42''" "consultantNote ?f = ''all well''" "trace ?f = []"
    "isMeetingStarted ?f"
    by (simp_all add: vm_states)
  have fk: "truthy_opt (js_get (userData ?k) ''id'')" "trace ?k = []"
    by (simp_all add: vm_states)
  have sa: "js_get ?co ''status'' \<noteq> Some (JStr ''ON_GOING'')"
    and sb: "js_get ?on ''status'' = Some (JStr ''ON_GOING'')"
    by simp_all
  have a: "\<not> isMeetingStarted (handleEndMeeting ?a) \<and>
      filter is_end_mutation (events_since ?a (handleEndMeeting ?a)) = []"
    using end_intent_gate[OF ca, THEN conjunct1, rule_format,
        of ?co "snd (checkAppointmentStatus ?a)"]
      ra sa
    by blast
  have b: "openEndDialog (handleEndMeeting ?b) \<and>
      isMeetingStarted (handleEndMeeting ?b) = isMeetingStarted ?b"
    using end_intent_gate[OF cb, THEN conjunct2, THEN conjunct1, rule_format,
        of ?on "snd (checkAppointmentStatus ?b)"]
      rb sb
    by blast
  have d: "isMeetingStarted (cancelEndDialog ?d) = isMeetingStarted ?d"
    using end_intent_gate[OF cd, THEN conjunct2, THEN conjunct2, THEN conjunct1] by simp
  have c1: "filter is_end_mutation (events_since ?c (handleConfirmEndMeeting ?c)) =
      [PutEnd (appointmentId ?c) ''7'' (consultantNote ?c)]"
    using end_intent_gate[OF cc, THEN conjunct2, THEN conjunct2, THEN conjunct2,
        THEN conjunct1, rule_format,
        of "JNum ''7''" "''7''" ?on "snd (checkAppointmentStatus (?c\<lparr>openEndDialog := False\<rparr>))"]
      fc(1-3) rc sb
    by blast
  have c2: "\<not> isMeetingStarted (handleConfirmEndMeeting ?c)"
    using end_intent_gate[OF cc, THEN conjunct2, THEN conjunct2, THEN conjunct2,
        THEN conjunct2, THEN conjunct1, rule_format,
        of "JNum ''7''" "''7''" ?on
           "snd (checkAppointmentStatus (?c\<lparr>openEndDialog := False\<rparr>))" "[]"]
      fc(1-4) rc sb
    by blast
  have f1: "filter is_end_mutation (events_since ?f (handleConfirmEndMeeting ?f)) =
      [PutEnd (appointmentId ?f) ''7'' (consultantNote ?f)]"
    using end_intent_gate[OF cf, THEN conjunct2, THEN conjunct2, THEN conjunct2,
        THEN conjunct1, rule_format,
        of "JNum ''7''" "''7''" ?on "snd (checkAppointmentStatus (?f\<lparr>openEndDialog := False\<rparr>))"]
      ff(1) fc(2,3) rf sb
    by blast
  have f2: "isMeetingStarted (handleConfirmEndMeeting ?f) = isMeetingStarted ?f"
    using end_intent_gate[OF cf, THEN conjunct2, THEN conjunct2, THEN conjunct2,
        THEN conjunct2, THEN conjunct2, THEN conjunct1, rule_format,
        of "JNum ''7''" "''7''" ?on "snd (checkAppointmentStatus (?f\<lparr>openEndDialog := False\<rparr>))"]
      ff(1,2) fc(2,3) rf sb
    by blast
  have k: "\<not> isMeetingStarted (handleConfirmEndMeeting ?k) \<and>
      filter is_end_mutation (events_since ?k (handleConfirmEndMeeting ?k)) = []"
    using end_intent_gate[OF ck, THEN conjunct2, THEN conjunct2, THEN conjunct2,
        THEN conjunct2, THEN conjunct2, THEN conjunct2, THEN conjunct1, rule_format,
        of ?co "snd (checkAppointmentStatus (?k\<lparr>openEndDialog := False\<rparr>))"]
      fk(1) rk sa
    by blast
  have m: "isMeetingStarted ?b" "isMeetingStarted ?d"
    by (simp_all add: vm_states)
  from a b c1 c2 d f1 f2 k m fc(5-8) ff(3-6) fk(2) show ?thesis
    by (simp add: events_since_def)
qed

section \<open>The start intent\<close>

lemmas confirm_unfold = handleConfirmStartMeeting_def handleConfirmStartMeeting_try_def
  confirm_status_read_def start_appointment_def api_put_def showSuccessAlert_def
  showErrorAlert_def error_message_def other_status_warning_def










text \<open>
  The two handlers of the start gate disagree on a status in another letter case. For the
  consultant on the joining screen of an appointment whose status reads \<open>confirmed\<close> at
  both reads, \<^verbatim>\<open>onClickStartMeeting\<close>, which compares the upper-cased status, shows the
  start prompt, and when the consultant confirms it, \<^verbatim>\<open>handleConfirmStartMeeting\<close>,
  which compares the status as it is, joins the meeting without requesting the start
  mutation.
\<close>

theorem start_confirm_case_mismatch:
  "openStartDialog (onClickStartMeeting
      (consultant_lobby
         \<lparr>appointment_responses :=
            [appointment_reply (JStr ''confirmed''), appointment_reply (JStr ''confirmed'')],
          put_responses := [None]\<rparr>)) \<and>
   isMeetingStarted (handleConfirmStartMeeting (onClickStartMeeting
      (consultant_lobby
         \<lparr>appointment_responses :=
            [appointment_reply (JStr ''confirmed''), appointment_reply (JStr ''confirmed'')],
          put_responses := [None]\<rparr>))) \<and>
   filter is_start_mutation (trace (handleConfirmStartMeeting (onClickStartMeeting
      (consultant_lobby
         \<lparr>appointment_responses :=
            [appointment_reply (JStr ''confirmed''), appointment_reply (JStr ''confirmed'')],
          put_responses := [None]\<rparr>)))) = []"
  by (simp add: vm_states read_unfold start_unfold confirm_unfold status_of_def)

section \<open>A failed status check, and the teardown\<close>

text \<open>
  Claim C4 does not hold of the code. A consultant with no stored access token: the status
  check fails and returns the default \<open>UNKNOWN\<close> instead of throwing, so on the start
  path \<^verbatim>\<open>onClickStartMeeting\<close> joins the meeting and never shows the prompt, and on the
  end path \<^verbatim>\<open>handleShowEndDialog\<close> closes the prompt it had opened, leaves the meeting,
  and shows no error alert. The two \<open>catch\<close> blocks whose comments promise the prompt
  and the alert are never reached.
\<close>

theorem status_check_failure_skips_prompt:
  "fst (checkAppointmentStatus
      (consultant_lobby\<lparr>localStorage := Map.empty, loading := True\<rparr>)) =
     Inr unknown_appointment \<and>
   isMeetingStarted (onClickStartMeeting (consultant_lobby\<lparr>localStorage := Map.empty\<rparr>)) \<and>
   \<not> openStartDialog (onClickStartMeeting (consultant_lobby\<lparr>localStorage := Map.empty\<rparr>)) \<and>
   \<not> openEndDialog (handleShowEndDialog (Some [1]) (Some [2])
      (consultant_in_meeting\<lparr>localStorage := Map.empty\<rparr>)) \<and>
   \<not> isMeetingStarted (handleShowEndDialog (Some [1]) (Some [2])
      (consultant_in_meeting\<lparr>localStorage := Map.empty\<rparr>)) \<and>
   filter is_error_alert (trace (handleShowEndDialog (Some [1]) (Some [2])
      (consultant_in_meeting\<lparr>localStorage := Map.empty\<rparr>))) = []"
  by (simp add: vm_states read_unfold end_unfold onClickStartMeeting_def
      start_status_failed_def ascii_trim_def is_space_def ascii_toUpperCase_def upper_char_def)

text \<open>
  Claim C8 does not hold of the code. Confirming the end of an \<open>ON_GOING\<close> consultation
  calls \<^verbatim>\<open>meetingRef.current.leave()\<close> and then \<^verbatim>\<open>handleOnMeetingLeave\<close>, which calls it
  again before clearing the ref: the session is told to leave twice. A plain
  \<^verbatim>\<open>handleOnMeetingLeave\<close> tells it once. The unmount cleanup does not clear the ref,
  so running it twice also tells the session to leave twice.
\<close>

theorem confirm_end_leaves_twice:
  "filter (\<lambda>e. e = MeetingLeave) (trace (handleConfirmEndMeeting
      (consultant_in_meeting
         \<lparr>openEndDialog := True, appointment_responses := [appointment_reply (JStr ''ON_GOING'')],
          put_responses := [None]\<rparr>))) = [MeetingLeave, MeetingLeave] \<and>
   filter (\<lambda>e. e = MeetingLeave) (trace (handleOnMeetingLeave (Some [1]) (Some [2])
      consultant_in_meeting)) = [MeetingLeave] \<and>
   filter (\<lambda>e. e = MeetingLeave) (trace (unmount_cleanup (unmount_cleanup
      consultant_in_meeting))) = [MeetingLeave, MeetingLeave]"
  by (simp add: vm_states read_unfold end_unfold)

section \<open>The participant id\<close>

lemma participant_signed_in:
  assumes p: "localStorage st ''userProfile'' = Some stored" "stored \<noteq> []"
    "JSON_parse st stored = Some profile"
    and i: "js_get profile ''id'' = Some v" "truthy v" "js_String v = Some u"
  shows "getParticipantId st = (Inr (Some (''user-'' @ u @ ''-meeting-'' @ meetingId st)), st)"
proof -
  have "profile \<noteq> JNull" using i(1) by auto
  with assms show ?thesis
    by (simp add: getParticipantId_def profile_userId_def js_prop_def js_or_def
        js_String_opt_def)
qed

lemma participant_anonymous_new:
  assumes p: "localStorage st ''userProfile'' = None"
    and t: "no_text (sessionStorage st ''tempParticipantId'')"
  shows "fst (getParticipantId st) = Inr (Some (uuid_source st (uuid_count st))) \<and>
         sessionStorage (snd (getParticipantId st)) ''tempParticipantId'' =
           Some (uuid_source st (uuid_count st)) \<and>
         localStorage (snd (getParticipantId st)) = localStorage st \<and>
         uuid_source (snd (getParticipantId st)) = uuid_source st \<and>
         uuid_count (snd (getParticipantId st)) = Suc (uuid_count st)"
  using assms
  by (simp add: getParticipantId_def profile_userId_def randomUUID_def session_setItem_def
      emit_def)

lemma participant_anonymous_cached:
  assumes p: "localStorage st ''userProfile'' = None"
    and t: "sessionStorage st ''tempParticipantId'' = Some tmp" "tmp \<noteq> []"
  shows "getParticipantId st = (Inr (Some tmp), st)"
  using assms
  by (simp add: getParticipantId_def profile_userId_def no_text_def)

text \<open>
  Claim C5. With a stored profile whose id is truthy, \<^verbatim>\<open>getParticipantId\<close> returns
  \<open>user-<id>-meeting-<meeting id>\<close>; a second invocation returns the same id, and so does
  an invocation in any other state (another tab, a reload) that holds the same stored
  profile and meeting id. With no stored profile, two invocations in one tab return the
  same temporary id (the cached one, or the UUID the first invocation drew and cached). In
  a fresh tab session, whose tab-scoped storage is empty, the id is the next UUID drawn, so
  it differs from the first tab's id whenever \<^verbatim>\<open>crypto.randomUUID()\<close> does not repeat
  itself.
\<close>

theorem participant_id_stable:
  "(\<forall>stored profile v u.
      localStorage st ''userProfile'' = Some stored \<and> stored \<noteq> [] \<and>
      JSON_parse st stored = Some profile \<and>
      js_get profile ''id'' = Some v \<and> truthy v \<and> js_String v = Some u \<longrightarrow>
      fst (getParticipantId st) = Inr (Some (''user-'' @ u @ ''-meeting-'' @ meetingId st)) \<and>
      fst (getParticipantId (snd (getParticipantId st))) = fst (getParticipantId st) \<and>
      (\<forall>st2. localStorage st2 ''userProfile'' = Some stored \<and>
             JSON_parse st2 = JSON_parse st \<and> meetingId st2 = meetingId st \<longrightarrow>
             fst (getParticipantId st2) = fst (getParticipantId st))) \<and>
   (localStorage st ''userProfile'' = None \<and> uuid_source st (uuid_count st) \<noteq> [] \<longrightarrow>
      (\<exists>tmp. fst (getParticipantId st) = Inr (Some tmp) \<and>
             fst (getParticipantId (snd (getParticipantId st))) = Inr (Some tmp))) \<and>
   (localStorage st ''userProfile'' = None \<and>
    no_text (sessionStorage st ''tempParticipantId'') \<and>
    uuid_source st (Suc (uuid_count st)) \<noteq> uuid_source st (uuid_count st) \<longrightarrow>
      fst (getParticipantId st) = Inr (Some (uuid_source st (uuid_count st))) \<and>
      fst (getParticipantId ((snd (getParticipantId st))\<lparr>sessionStorage := Map.empty\<rparr>)) =
        Inr (Some (uuid_source st (Suc (uuid_count st)))) \<and>
      fst (getParticipantId ((snd (getParticipantId st))\<lparr>sessionStorage := Map.empty\<rparr>)) \<noteq>
        fst (getParticipantId st))"
proof -
  have a: "(\<forall>stored profile v u.
      localStorage st ''userProfile'' = Some stored \<and> stored \<noteq> [] \<and>
      JSON_parse st stored = Some profile \<and>
      js_get profile ''id'' = Some v \<and> truthy v \<and> js_String v = Some u \<longrightarrow>
      fst (getParticipantId st) = Inr (Some (''user-'' @ u @ ''-meeting-'' @ meetingId st)) \<and>
      fst (getParticipantId (snd (getParticipantId st))) = fst (getParticipantId st) \<and>
      (\<forall>st2. localStorage st2 ''userProfile'' = Some stored \<and>
             JSON_parse st2 = JSON_parse st \<and> meetingId st2 = meetingId st \<longrightarrow>
             fst (getParticipantId st2) = fst (getParticipantId st)))"
  proof (intro allI impI, elim conjE)
    fix stored profile v u
    assume h: "localStorage st ''userProfile'' = Some stored" "stored \<noteq> []"
      "JSON_parse st stored = Some profile" "js_get profile ''id'' = Some v" "truthy v"
      "js_String v = Some u"
    note e = participant_signed_in[OF h]
    have "\<forall>st2. localStorage st2 ''userProfile'' = Some stored \<and>
             JSON_parse st2 = JSON_parse st \<and> meetingId st2 = meetingId st \<longrightarrow>
             fst (getParticipantId st2) = fst (getParticipantId st)"
    proof (intro allI impI, elim conjE)
      fix st2 :: video_meeting
      assume g: "localStorage st2 ''userProfile'' = Some stored" "JSON_parse st2 = JSON_parse st"
        "meetingId st2 = meetingId st"
      from g(2) h(3) have "JSON_parse st2 stored = Some profile" by simp
      from participant_signed_in[OF g(1) h(2) this h(4,5,6)] e g(3)
      show "fst (getParticipantId st2) = fst (getParticipantId st)" by simp
    qed
    with e show "fst (getParticipantId st) =
        Inr (Some (''user-'' @ u @ ''-meeting-'' @ meetingId st)) \<and>
      fst (getParticipantId (snd (getParticipantId st))) = fst (getParticipantId st) \<and>
      (\<forall>st2. localStorage st2 ''userProfile'' = Some stored \<and>
             JSON_parse st2 = JSON_parse st \<and> meetingId st2 = meetingId st \<longrightarrow>
             fst (getParticipantId st2) = fst (getParticipantId st))"
      by simp
  qed
  have b: "(localStorage st ''userProfile'' = None \<and> uuid_source st (uuid_count st) \<noteq> [] \<longrightarrow>
      (\<exists>tmp. fst (getParticipantId st) = Inr (Some tmp) \<and>
             fst (getParticipantId (snd (getParticipantId st))) = Inr (Some tmp)))"
  proof (intro impI, elim conjE)
    assume h: "localStorage st ''userProfile'' = None" "uuid_source st (uuid_count st) \<noteq> []"
    show "\<exists>tmp. fst (getParticipantId st) = Inr (Some tmp) \<and>
             fst (getParticipantId (snd (getParticipantId st))) = Inr (Some tmp)"
    proof (cases "no_text (sessionStorage st ''tempParticipantId'')")
      case True
      note n = participant_anonymous_new[OF h(1) True]
      from n have l: "localStorage (snd (getParticipantId st)) ''userProfile'' = None"
        using h(1) by simp
      from participant_anonymous_cached[OF l] n h(2) show ?thesis by simp
    next
      case False
      then obtain tmp where t: "sessionStorage st ''tempParticipantId'' = Some tmp" "tmp \<noteq> []"
        by (auto simp: no_text_def split: option.splits)
      from participant_anonymous_cached[OF h(1) t] show ?thesis by simp
    qed
  qed
  have c: "(localStorage st ''userProfile'' = None \<and>
    no_text (sessionStorage st ''tempParticipantId'') \<and>
    uuid_source st (Suc (uuid_count st)) \<noteq> uuid_source st (uuid_count st) \<longrightarrow>
      fst (getParticipantId st) = Inr (Some (uuid_source st (uuid_count st))) \<and>
      fst (getParticipantId ((snd (getParticipantId st))\<lparr>sessionStorage := Map.empty\<rparr>)) =
        Inr (Some (uuid_source st (Suc (uuid_count st)))) \<and>
      fst (getParticipantId ((snd (getParticipantId st))\<lparr>sessionStorage := Map.empty\<rparr>)) \<noteq>
        fst (getParticipantId st))"
  proof (intro impI, elim conjE)
    assume h: "localStorage st ''userProfile'' = None"
      "no_text (sessionStorage st ''tempParticipantId'')"
      "uuid_source st (Suc (uuid_count st)) \<noteq> uuid_source st (uuid_count st)"
    note n = participant_anonymous_new[OF h(1,2)]
    let ?tab = "(snd (getParticipantId st))\<lparr>sessionStorage := Map.empty\<rparr>"
    have l: "localStorage ?tab ''userProfile'' = None"
      "no_text (sessionStorage ?tab ''tempParticipantId'')"
      using n h(1) by (simp_all add: no_text_def)
    from participant_anonymous_new[OF l] n h(3)
    show "fst (getParticipantId st) = Inr (Some (uuid_source st (uuid_count st))) \<and>
      fst (getParticipantId ?tab) = Inr (Some (uuid_source st (Suc (uuid_count st)))) \<and>
      fst (getParticipantId ?tab) \<noteq> fst (getParticipantId st)"
      by simp
  qed
  show ?thesis
    by (rule conjI[OF a conjI[OF b c]])
qed

text \<open>
  Claim C5 at concrete tabs: the signed-in user \<open>U1\<close> on meeting \<open>M1\<close> gets
  \<open>user-U1-meeting-M1\<close> twice; an anonymous tab gets the same drawn id twice, and a fresh
  tab session gets the next one.
\<close>

theorem participant_id_stable_witness:
  "fst (getParticipantId signed_in_tab) = Inr (Some ''user-U1-meeting-M1'') \<and>
   fst (getParticipantId (snd (getParticipantId signed_in_tab))) =
     Inr (Some ''user-U1-meeting-M1'') \<and>
   fst (getParticipantId mounted) = Inr (Some ''u'') \<and>
   fst (getParticipantId (snd (getParticipantId mounted))) = Inr (Some ''u'') \<and>
   fst (getParticipantId ((snd (getParticipantId mounted))\<lparr>sessionStorage := Map.empty\<rparr>)) =
     Inr (Some ''uu'')"
proof -
  have s: "localStorage signed_in_tab ''userProfile'' = Some profile_text"
    "profile_text \<noteq> []"
    "JSON_parse signed_in_tab profile_text = Some (JObj [(''id'', JStr ''U1'')])"
    "js_get (JObj [(''id'', JStr ''U1'')]) ''id'' = Some (JStr ''U1'')"
    "truthy (JStr ''U1'')" "js_String (JStr ''U1'') = Some ''U1''"
    "meetingId signed_in_tab = ''M1''"
    by (simp_all add: signed_in_tab_def mounted_def parse_profile_def profile_text_def)
  have m: "localStorage mounted ''userProfile'' = None"
    "no_text (sessionStorage mounted ''tempParticipantId'')"
    "uuid_source mounted (uuid_count mounted) = ''u''"
    "uuid_source mounted (Suc (uuid_count mounted)) = ''uu''"
    by (simp_all add: mounted_def no_text_def)
  have a: "fst (getParticipantId signed_in_tab) =
      Inr (Some (''user-'' @ ''U1'' @ ''-meeting-'' @ meetingId signed_in_tab)) \<and>
      fst (getParticipantId (snd (getParticipantId signed_in_tab))) =
        fst (getParticipantId signed_in_tab)"
    using participant_id_stable[of signed_in_tab, THEN conjunct1, rule_format,
        of profile_text "JObj [(''id'', JStr ''U1'')]" "JStr ''U1''" "''U1''"] s
    by blast
  have b: "\<exists>tmp. fst (getParticipantId mounted) = Inr (Some tmp) \<and>
      fst (getParticipantId (snd (getParticipantId mounted))) = Inr (Some tmp)"
    using participant_id_stable[of mounted, THEN conjunct2, THEN conjunct1] m
    by simp
  have c: "fst (getParticipantId mounted) = Inr (Some ''u'') \<and>
      fst (getParticipantId ((snd (getParticipantId mounted))\<lparr>sessionStorage := Map.empty\<rparr>)) =
        Inr (Some ''uu'')"
    using participant_id_stable[of mounted, THEN conjunct2, THEN conjunct2] m
    by simp
  from a b c s(7) show ?thesis
    by auto
qed

section \<open>The login form: flush, failure and success\<close>

lemma flush_absent:
  "no_text (localStorage st ''pendingSurveySubmission'') \<Longrightarrow>
   handlePendingSurveySubmission st = (False, st)"
  by (auto simp: handlePendingSurveySubmission_def handlePendingSurveySubmission_try_def
      no_text_def split: option.splits)

lemma submit_effect:
  "submitSurveyResult i os st = (r, st') \<Longrightarrow>
   trace st' = trace st @ [SubmitSurvey i os] \<and> localStorage st' = localStorage st \<and>
   sessionStorage st' = sessionStorage st \<and> returnUrl st' = returnUrl st \<and>
   JSON_stringify st' = JSON_stringify st \<and>
   (r = Inr () \<longleftrightarrow> (\<exists>rest. submit_responses st = None # rest))"
  by (auto simp: submitSurveyResult_def emit_def Let_def split: list.splits option.splits)

lemma flush_effect:
  "handlePendingSurveySubmission st = (b, st') \<Longrightarrow>
   (\<exists>es. trace st' = trace st @ es \<and> list_all flush_event es \<and>
      length (filter is_submit es) \<le> 1) \<and>
   sessionStorage st' = sessionStorage st \<and> returnUrl st' = returnUrl st \<and>
   JSON_stringify st' = JSON_stringify st \<and>
   (\<forall>k. k \<noteq> ''pendingSurveySubmission'' \<and> k \<noteq> ''surveySubmissionResult'' \<longrightarrow>
      localStorage st' k = localStorage st k)"
  unfolding handlePendingSurveySubmission_def handlePendingSurveySubmission_try_def
  by (auto simp: local_setItem_def local_removeItem_def console_error_def emit_def js_prop_def
      dest!: submit_effect split: option.splits prod.splits sum.splits if_splits)

lemma flush_present:
  assumes "localStorage st ''pendingSurveySubmission'' = Some payload" "payload \<noteq> []"
  shows "localStorage (snd (handlePendingSurveySubmission st)) ''pendingSurveySubmission'' = None \<and>
    localStorage (snd (handlePendingSurveySubmission st)) ''surveySubmissionResult'' =
      Some (JSON_stringify st
        (if fst (handlePendingSurveySubmission st)
         then survey_result True ''Luu khao sat thanh cong''
         else survey_result False ''Co loi xay ra khi luu khao sat'')) \<and>
    fst (handlePendingSurveySubmission st) =
      (\<exists>data sid opts rest. JSON_parse st payload = Some data \<and>
         js_get data ''surveyId'' = Some sid \<and> truthy sid \<and>
         js_get data ''selectedOptionIds'' = Some opts \<and> truthy opts \<and>
         submit_responses st = None # rest)"
  using assms
  unfolding handlePendingSurveySubmission_def handlePendingSurveySubmission_try_def
  by (auto simp: local_setItem_def local_removeItem_def console_error_def emit_def js_prop_def
      falsy_def submitSurveyResult_def Let_def
      split: option.splits prod.splits sum.splits if_splits list.splits)

text \<open>
  Claim C10. When a non-empty queued survey submission is in durable storage, the flush
  removes it and writes a result record, whatever happens: the record says success exactly
  when the payload parses to a value with truthy \<open>surveyId\<close> and \<open>selectedOptionIds\<close> and
  the submission resolves, and failure in every other case (a payload that is not JSON or
  lacks a field, a rejected submission). At most one submission is sent. A flush that finds
  no queued payload sends nothing and changes nothing, so a second flush, at a later
  login, does not send the failed submission again.
\<close>

theorem pending_survey_flushed_once:
  assumes "localStorage st ''pendingSurveySubmission'' = Some payload" and "payload \<noteq> []"
  shows
  "localStorage (snd (handlePendingSurveySubmission st)) ''pendingSurveySubmission'' = None \<and>
   localStorage (snd (handlePendingSurveySubmission st)) ''surveySubmissionResult'' =
     Some (JSON_stringify st
       (if fst (handlePendingSurveySubmission st)
        then survey_result True ''Luu khao sat thanh cong''
        else survey_result False ''Co loi xay ra khi luu khao sat'')) \<and>
   fst (handlePendingSurveySubmission st) =
     (\<exists>data sid opts rest. JSON_parse st payload = Some data \<and>
        js_get data ''surveyId'' = Some sid \<and> truthy sid \<and>
        js_get data ''selectedOptionIds'' = Some opts \<and> truthy opts \<and>
        submit_responses st = None # rest) \<and>
   length (filter is_submit (events_since st (snd (handlePendingSurveySubmission st)))) \<le> 1 \<and>
   handlePendingSurveySubmission (snd (handlePendingSurveySubmission st)) =
     (False, snd (handlePendingSurveySubmission st)) \<and>
   (\<forall>st2 :: login_page. no_text (localStorage st2 ''pendingSurveySubmission'') \<longrightarrow>
      handlePendingSurveySubmission st2 = (False, st2))"
proof -
  note p = flush_present[OF assms]
  obtain b st' where r: "handlePendingSurveySubmission st = (b, st')"
    by (cases "handlePendingSurveySubmission st") auto
  from flush_effect[OF r] obtain es where
    es: "trace st' = trace st @ es" "length (filter is_submit es) \<le> 1"
    by blast
  then have n: "length (filter is_submit
      (events_since st (snd (handlePendingSurveySubmission st)))) \<le> 1"
    by (simp add: r events_since_def)
  from p have "no_text (localStorage (snd (handlePendingSurveySubmission st))
      ''pendingSurveySubmission'')"
    by (simp add: no_text_def)
  then have again: "handlePendingSurveySubmission (snd (handlePendingSurveySubmission st)) =
     (False, snd (handlePendingSurveySubmission st))"
    by (rule flush_absent)
  have later: "\<forall>st2 :: login_page. no_text (localStorage st2 ''pendingSurveySubmission'') \<longrightarrow>
      handlePendingSurveySubmission st2 = (False, st2)"
    using flush_absent by blast
  from p n again later show ?thesis
    by blast
qed

text \<open>
  Claim C10 at concrete states of the filled form with a queued submission: the server
  accepts it; the server rejects it; and the queued text is not JSON. Each time the
  payload is gone and a result record is written.
\<close>

theorem pending_survey_flushed_once_witness:
  "localStorage (snd (handlePendingSurveySubmission (filled_form\<lparr>submit_responses := [None]\<rparr>)))
     ''pendingSurveySubmission'' = None \<and>
   localStorage (snd (handlePendingSurveySubmission (filled_form\<lparr>submit_responses := [None]\<rparr>)))
     ''surveySubmissionResult'' =
     Some (stringify_result (survey_result True ''Luu khao sat thanh cong'')) \<and>
   localStorage (snd (handlePendingSurveySubmission
       (filled_form\<lparr>submit_responses := [Some (mk_Error ''500'')]\<rparr>)))
     ''pendingSurveySubmission'' = None \<and>
   localStorage (snd (handlePendingSurveySubmission
       (filled_form\<lparr>submit_responses := [Some (mk_Error ''500'')]\<rparr>)))
     ''surveySubmissionResult'' =
     Some (stringify_result (survey_result False ''Co loi xay ra khi luu khao sat'')) \<and>
   localStorage (snd (handlePendingSurveySubmission
       (filled_form\<lparr>localStorage := [''pendingSurveySubmission'' \<mapsto> ''{oops'']\<rparr>)))
     ''pendingSurveySubmission'' = None \<and>
   localStorage (snd (handlePendingSurveySubmission
       (filled_form\<lparr>localStorage := [''pendingSurveySubmission'' \<mapsto> ''{oops'']\<rparr>)))
     ''surveySubmissionResult'' =
     Some (stringify_result (survey_result False ''Co loi xay ra khi luu khao sat''))"
proof -
  let ?a = "filled_form\<lparr>submit_responses := [None]\<rparr>"
  let ?b = "filled_form\<lparr>submit_responses := [Some (mk_Error ''500'')]\<rparr>"
  let ?c = "filled_form\<lparr>localStorage := [''pendingSurveySubmission'' \<mapsto> ''{oops'']\<rparr>"
  have ha: "localStorage ?a ''pendingSurveySubmission'' = Some survey_text"
    "survey_text \<noteq> []" "JSON_stringify ?a = stringify_result"
    "JSON_parse ?a survey_text = Some (JObj [(''surveyId'', JNum ''5''),
       (''selectedOptionIds'', JArr [JNum ''1'', JNum ''2''])])"
    "submit_responses ?a = None # []"
    by (simp_all add: filled_form_def login_form_def survey_text_def parse_survey_def)
  have hb: "localStorage ?b ''pendingSurveySubmission'' = Some survey_text"
    "JSON_stringify ?b = stringify_result"
    "submit_responses ?b = [Some (mk_Error ''500'')]"
    by (simp_all add: filled_form_def login_form_def)
  have hc: "localStorage ?c ''pendingSurveySubmission'' = Some ''{oops''" "''{oops'' \<noteq> []"
    "JSON_stringify ?c = stringify_result" "JSON_parse ?c ''{oops'' = None"
    by (simp_all add: filled_form_def login_form_def parse_survey_def survey_text_def)
  note a = pending_survey_flushed_once[OF ha(1,2)]
  note b = pending_survey_flushed_once[OF hb(1) ha(2)]
  note c = pending_survey_flushed_once[OF hc(1,2)]
  have fa: "fst (handlePendingSurveySubmission ?a)"
    using a ha(4,5) by simp
  have fb: "\<not> fst (handlePendingSurveySubmission ?b)"
    using b hb(3) by simp
  have fc: "\<not> fst (handlePendingSurveySubmission ?c)"
    using c hc(4) by simp
  from a b c fa fb fc ha(3) hb(2) hc(3) show ?thesis
    by simp
qed

lemma flush_success:
  assumes "localStorage st ''pendingSurveySubmission'' = Some payload" "payload \<noteq> []"
    "JSON_parse st payload = Some data"
    "js_get data ''surveyId'' = Some sid" "truthy sid"
    "js_get data ''selectedOptionIds'' = Some opts" "truthy opts"
    "submit_responses st = None # rest"
  shows "trace (snd (handlePendingSurveySubmission st)) =
           trace st @ [SubmitSurvey sid opts, LocalRemove ''pendingSurveySubmission'',
             LocalSet ''surveySubmissionResult''
               (JSON_stringify st (survey_result True ''Luu khao sat thanh cong''))]"
proof -
  have "data \<noteq> JNull" using assms(4) by auto
  with assms show ?thesis
    unfolding handlePendingSurveySubmission_def handlePendingSurveySubmission_try_def
    by (simp add: local_setItem_def local_removeItem_def emit_def js_prop_def
        falsy_def submitSurveyResult_def Let_def)
qed

lemma flush_always:
  assumes "localStorage st ''pendingSurveySubmission'' = Some payload" "payload \<noteq> []"
  shows "\<exists>es. trace (snd (handlePendingSurveySubmission st)) = trace st @ es \<and>
           LocalRemove ''pendingSurveySubmission'' \<in> set es \<and>
           (\<exists>v. LocalSet ''surveySubmissionResult'' v \<in> set es)"
  using assms
  unfolding handlePendingSurveySubmission_def handlePendingSurveySubmission_try_def
  by (auto simp: local_setItem_def local_removeItem_def console_error_def emit_def js_prop_def
      falsy_def submitSurveyResult_def Let_def
      split: option.splits prod.splits sum.splits if_splits list.splits)

lemma validateForm_eq:
  "validateForm st =
     (String_trim st (username st) \<noteq> [] \<and> password st \<noteq> [],
      st\<lparr>errors := (if String_trim st (username st) = []
                     then [(''username'', ''Username la bat buoc'')]
                     else []) @
                    (if password st = [] then [(''password'', ''Mat khau la bat buoc'')]
                     else [])\<rparr>)"
  by (auto simp: validateForm_def Let_def)

lemma login_failed:
  assumes v: "String_trim st (username st) \<noteq> []" "password st \<noteq> []"
    and f: "login_response st = Inl e"
  shows "events_since st (handleSubmit st) =
           [LoginCall (username st) (password st), ConsoleError ''Login error'',
            (case login_failure_notice e of
               None \<Rightarrow> UnhandledRejection
             | Some notice \<Rightarrow> ErrorAlert notice)] \<and>
         \<not> isLoading (handleSubmit st) \<and>
         localStorage (handleSubmit st) = localStorage st"
  using assms
  by (simp add: handleSubmit_def validateForm_eq handleSubmit_try_def login_def emit_def
      console_error_def showErrorAlert_def events_since_def Let_def split: option.splits)

text \<open>
  Claim C6 does not hold of the code. The \<open>catch\<close> block of \<^verbatim>\<open>handleSubmit\<close> chooses
  the notice by \<^verbatim>\<open>error.name\<close>: for the filled form, a login call that fails with a
  \<open>TypeError\<close> (a failed fetch) shows the connectivity message, and one that fails with
  the HTTP client's error for a 401 shows the invalid-credentials message. But when the
  login call is rejected with \<open>null\<close>, reading \<^verbatim>\<open>error.name\<close> throws inside the
  \<open>catch\<close> block: the login call was made and failed, the error is logged, and no notice
  is shown at all.
\<close>

theorem login_rejected_with_null:
  "trace (handleSubmit (filled_form\<lparr>login_response := Inl Nullish\<rparr>)) =
     [LoginCall ''an'' ''secret'', ConsoleError ''Login error'', UnhandledRejection] \<and>
   filter is_error_alert (trace (handleSubmit (filled_form\<lparr>login_response := Inl Nullish\<rparr>))) =
     [] \<and>
   filter is_error_alert (trace (handleSubmit
      (filled_form\<lparr>login_response := Inl (mk_TypeError ''Failed to fetch'')\<rparr>))) =
     [ErrorAlert ''Da xay ra loi khi dang nhap. Vui long thu lai sau.''] \<and>
   filter is_error_alert (trace (handleSubmit filled_form)) =
     [ErrorAlert ''Username hoac Mat khau sai!'']"
  by (simp add: filled_form_def login_form_def handleSubmit_def validateForm_def
      handleSubmit_try_def login_def emit_def console_error_def showErrorAlert_def
      login_failure_notice_def mk_TypeError_def ascii_trim_def is_space_def Let_def)

lemma redirect_trace:
  "trace (redirect_after_login st) = trace st @
     (if \<not> no_text (sessionStorage st ''redirectAfterLogin'') then
            [SessionRemove ''redirectAfterLogin'',
             Redirect (case sessionStorage st ''redirectAfterLogin'' of
                         Some target \<Rightarrow> target | None \<Rightarrow> [])]
          else if \<not> no_text (returnUrl st) then
            [Redirect (case returnUrl st of Some target \<Rightarrow> target | None \<Rightarrow> [])]
          else [Redirect ''/'']) \<and>
   localStorage (redirect_after_login st) = localStorage st"
  by (auto simp: redirect_after_login_def session_removeItem_def emit_def no_text_def
      split: option.splits)

lemma login_tail:
  assumes r: "handlePendingSurveySubmission s2 = (b, s3)"
    and pre: "trace s2 = trace st @ pre"
    and same: "sessionStorage s2 = sessionStorage st" "returnUrl s2 = returnUrl st"
      "localStorage s2 ''pendingSurveySubmission'' = localStorage st ''pendingSurveySubmission''"
      "JSON_parse s2 = JSON_parse st" "JSON_stringify s2 = JSON_stringify st"
      "submit_responses s2 = submit_responses st"
  shows "\<exists>flush.
           list_all flush_event flush \<and>
           drop (length (trace st)) (trace (redirect_after_login s3)) = pre @ flush @
             (if \<not> no_text (sessionStorage st ''redirectAfterLogin'') then
            [SessionRemove ''redirectAfterLogin'',
             Redirect (case sessionStorage st ''redirectAfterLogin'' of
                         Some target \<Rightarrow> target | None \<Rightarrow> [])]
          else if \<not> no_text (returnUrl st) then
            [Redirect (case returnUrl st of Some target \<Rightarrow> target | None \<Rightarrow> [])]
          else [Redirect ''/'']) \<and>
           (no_text (localStorage st ''pendingSurveySubmission'') \<longrightarrow> flush = []) \<and>
           (\<forall>payload. localStorage st ''pendingSurveySubmission'' = Some payload \<and>
              payload \<noteq> [] \<longrightarrow>
              LocalRemove ''pendingSurveySubmission'' \<in> set flush \<and>
              (\<exists>v. LocalSet ''surveySubmissionResult'' v \<in> set flush)) \<and>
           (\<forall>payload data sid opts rest.
              localStorage st ''pendingSurveySubmission'' = Some payload \<and> payload \<noteq> [] \<and>
              JSON_parse st payload = Some data \<and>
              js_get data ''surveyId'' = Some sid \<and> truthy sid \<and>
              js_get data ''selectedOptionIds'' = Some opts \<and> truthy opts \<and>
              submit_responses st = None # rest \<longrightarrow>
              flush = [SubmitSurvey sid opts, LocalRemove ''pendingSurveySubmission'',
                       LocalSet ''surveySubmissionResult''
                         (JSON_stringify st
                            (survey_result True ''Luu khao sat thanh cong''))])"
proof -
  from flush_effect[OF r] obtain es where
    es: "trace s3 = trace s2 @ es" "list_all flush_event es"
    and f: "sessionStorage s3 = sessionStorage s2" "returnUrl s3 = returnUrl s2"
    by blast
  have s3: "snd (handlePendingSurveySubmission s2) = s3" using r by simp
  have none: "no_text (localStorage st ''pendingSurveySubmission'') \<longrightarrow> es = []"
    using flush_absent[of s2] r es(1) same(3) by auto
  have always: "\<forall>payload. localStorage st ''pendingSurveySubmission'' = Some payload \<and>
              payload \<noteq> [] \<longrightarrow>
              LocalRemove ''pendingSurveySubmission'' \<in> set es \<and>
              (\<exists>v. LocalSet ''surveySubmissionResult'' v \<in> set es)"
    using flush_always[of s2] es(1) same(3) unfolding s3 by auto
  have good: "\<forall>payload data sid opts rest.
              localStorage st ''pendingSurveySubmission'' = Some payload \<and> payload \<noteq> [] \<and>
              JSON_parse st payload = Some data \<and>
              js_get data ''surveyId'' = Some sid \<and> truthy sid \<and>
              js_get data ''selectedOptionIds'' = Some opts \<and> truthy opts \<and>
              submit_responses st = None # rest \<longrightarrow>
              es = [SubmitSurvey sid opts, LocalRemove ''pendingSurveySubmission'',
                       LocalSet ''surveySubmissionResult''
                         (JSON_stringify st
                            (survey_result True ''Luu khao sat thanh cong''))]"
    using flush_success[of s2] es(1) same(3,4,5,6) unfolding s3 by auto
  have t: "drop (length (trace st)) (trace (redirect_after_login s3)) = pre @ es @
             (if \<not> no_text (sessionStorage st ''redirectAfterLogin'') then
            [SessionRemove ''redirectAfterLogin'',
             Redirect (case sessionStorage st ''redirectAfterLogin'' of
                         Some target \<Rightarrow> target | None \<Rightarrow> [])]
          else if \<not> no_text (returnUrl st) then
            [Redirect (case returnUrl st of Some target \<Rightarrow> target | None \<Rightarrow> [])]
          else [Redirect ''/''])"
    using es(1) f(1,2) same(1,2) pre redirect_trace[of s3] by simp
  from es(2) t none always good show ?thesis
    by blast
qed

lemma login_tail_storage:
  assumes r: "handlePendingSurveySubmission s2 = (b, s3)"
    and k: "k1 \<noteq> ''pendingSurveySubmission''" "k1 \<noteq> ''surveySubmissionResult''"
  shows "localStorage (redirect_after_login s3) k1 = localStorage s2 k1"
  using flush_effect[OF r] k redirect_trace[of s3] by auto

lemma login_succeeded:
  assumes v: "String_trim st (username st) \<noteq> []" "password st \<noteq> []"
    and ok: "login_response st = Inr t"
  shows "(\<exists>flush.
         list_all flush_event flush \<and>
         events_since st (handleSubmit st) =
           [LoginCall (username st) (password st),
            LocalSet ''accessToken'' (accessToken t),
            LocalSet ''refreshToken'' (refreshToken t),
            LocalSet ''loginSuccess'' ''true''] @ flush @
           (if \<not> no_text (sessionStorage st ''redirectAfterLogin'') then
            [SessionRemove ''redirectAfterLogin'',
             Redirect (case sessionStorage st ''redirectAfterLogin'' of
                         Some target \<Rightarrow> target | None \<Rightarrow> [])]
          else if \<not> no_text (returnUrl st) then
            [Redirect (case returnUrl st of Some target \<Rightarrow> target | None \<Rightarrow> [])]
          else [Redirect ''/'']) \<and>
         (no_text (localStorage st ''pendingSurveySubmission'') \<longrightarrow> flush = []) \<and>
         (\<forall>payload. localStorage st ''pendingSurveySubmission'' = Some payload \<and>
            payload \<noteq> [] \<longrightarrow>
            LocalRemove ''pendingSurveySubmission'' \<in> set flush \<and>
            (\<exists>v. LocalSet ''surveySubmissionResult'' v \<in> set flush)) \<and>
         (\<forall>payload data sid opts rest.
            localStorage st ''pendingSurveySubmission'' = Some payload \<and> payload \<noteq> [] \<and>
            JSON_parse st payload = Some data \<and>
            js_get data ''surveyId'' = Some sid \<and> truthy sid \<and>
            js_get data ''selectedOptionIds'' = Some opts \<and> truthy opts \<and>
            submit_responses st = None # rest \<longrightarrow>
            flush = [SubmitSurvey sid opts, LocalRemove ''pendingSurveySubmission'',
                     LocalSet ''surveySubmissionResult''
                       (JSON_stringify st
                          (survey_result True ''Luu khao sat thanh cong''))])) \<and>
      localStorage (handleSubmit st) ''accessToken'' = Some (accessToken t) \<and>
      localStorage (handleSubmit st) ''refreshToken'' = Some (refreshToken t) \<and>
      localStorage (handleSubmit st) ''loginSuccess'' = Some ''true''"
proof -
  let ?s1 = "st\<lparr>errors := [], isLoading := True\<rparr>"
  let ?s2 = "local_setItem ''loginSuccess'' ''true''
      (local_setItem ''refreshToken'' (refreshToken t)
        (local_setItem ''accessToken'' (accessToken t)
          (emit (LoginCall (username st) (password st)) ?s1)))"
  obtain b s3 where r: "handlePendingSurveySubmission ?s2 = (b, s3)"
    by (cases "handlePendingSurveySubmission ?s2") auto
  have h: "handleSubmit st = (redirect_after_login s3)\<lparr>isLoading := False\<rparr>"
    using v ok r
    by (simp add: handleSubmit_def validateForm_eq handleSubmit_try_def login_def Let_def)
  have t2: "trace ?s2 = trace st @ [LoginCall (username st) (password st),
            LocalSet ''accessToken'' (accessToken t),
            LocalSet ''refreshToken'' (refreshToken t),
            LocalSet ''loginSuccess'' ''true'']"
    "sessionStorage ?s2 = sessionStorage st" "returnUrl ?s2 = returnUrl st"
    "localStorage ?s2 ''pendingSurveySubmission'' = localStorage st ''pendingSurveySubmission''"
    "JSON_parse ?s2 = JSON_parse st" "JSON_stringify ?s2 = JSON_stringify st"
    "submit_responses ?s2 = submit_responses st"
    by (simp_all add: local_setItem_def emit_def)
  have l2: "localStorage ?s2 ''accessToken'' = Some (accessToken t)"
    "localStorage ?s2 ''refreshToken'' = Some (refreshToken t)"
    "localStorage ?s2 ''loginSuccess'' = Some ''true''"
    by (simp_all add: local_setItem_def emit_def)
  have e: "events_since st (handleSubmit st) =
      drop (length (trace st)) (trace (redirect_after_login s3))"
    unfolding h by (simp add: events_since_def)
  have l: "\<And>k. localStorage (handleSubmit st) k = localStorage (redirect_after_login s3) k"
    unfolding h by simp
  have s: "localStorage (handleSubmit st) ''accessToken'' = Some (accessToken t)"
    "localStorage (handleSubmit st) ''refreshToken'' = Some (refreshToken t)"
    "localStorage (handleSubmit st) ''loginSuccess'' = Some ''true''"
    unfolding l using login_tail_storage[OF r] l2 by simp_all
  from login_tail[OF r t2] s show ?thesis
    unfolding e by blast
qed

lemma google_succeeded:
  assumes ok: "google_response st = Inr data" "data \<noteq> JNull"
    "js_String_opt (js_get data ''accessToken'') = Some a"
    "js_String_opt (js_get data ''refreshToken'') = Some r"
  shows "(\<exists>flush.
         list_all flush_event flush \<and>
         events_since st (handleGoogleLoginResponse credential st) =
           [GoogleLoginCall credential,
            LocalSet ''accessToken'' a,
            LocalSet ''refreshToken'' r,
            LocalSet ''loginSuccess'' ''true''] @ flush @
           (if \<not> no_text (sessionStorage st ''redirectAfterLogin'') then
            [SessionRemove ''redirectAfterLogin'',
             Redirect (case sessionStorage st ''redirectAfterLogin'' of
                         Some target \<Rightarrow> target | None \<Rightarrow> [])]
          else if \<not> no_text (returnUrl st) then
            [Redirect (case returnUrl st of Some target \<Rightarrow> target | None \<Rightarrow> [])]
          else [Redirect ''/'']) \<and>
         (no_text (localStorage st ''pendingSurveySubmission'') \<longrightarrow> flush = []) \<and>
         (\<forall>payload. localStorage st ''pendingSurveySubmission'' = Some payload \<and>
            payload \<noteq> [] \<longrightarrow>
            LocalRemove ''pendingSurveySubmission'' \<in> set flush \<and>
            (\<exists>v. LocalSet ''surveySubmissionResult'' v \<in> set flush)) \<and>
         (\<forall>payload data sid opts rest.
            localStorage st ''pendingSurveySubmission'' = Some payload \<and> payload \<noteq> [] \<and>
            JSON_parse st payload = Some data \<and>
            js_get data ''surveyId'' = Some sid \<and> truthy sid \<and>
            js_get data ''selectedOptionIds'' = Some opts \<and> truthy opts \<and>
            submit_responses st = None # rest \<longrightarrow>
            flush = [SubmitSurvey sid opts, LocalRemove ''pendingSurveySubmission'',
                     LocalSet ''surveySubmissionResult''
                       (JSON_stringify st
                          (survey_result True ''Luu khao sat thanh cong''))])) \<and>
      localStorage (handleGoogleLoginResponse credential st) ''accessToken'' = Some a \<and>
      localStorage (handleGoogleLoginResponse credential st) ''refreshToken'' = Some r \<and>
      localStorage (handleGoogleLoginResponse credential st) ''loginSuccess'' = Some ''true''"
proof -
  let ?s1 = "st\<lparr>isLoading := True\<rparr>"
  let ?s2 = "local_setItem ''loginSuccess'' ''true''
      (local_setItem ''refreshToken'' r
        (local_setItem ''accessToken'' a
          (emit (GoogleLoginCall credential) ?s1)))"
  obtain b s3 where f: "handlePendingSurveySubmission ?s2 = (b, s3)"
    by (cases "handlePendingSurveySubmission ?s2") auto
  have h: "handleGoogleLoginResponse credential st =
      (redirect_after_login s3)\<lparr>isLoading := False\<rparr>"
    using ok f
    by (simp add: handleGoogleLoginResponse_def handleGoogleLoginResponse_try_def
        google_login_def js_prop_def Let_def)
  have t2: "trace ?s2 = trace st @ [GoogleLoginCall credential,
            LocalSet ''accessToken'' a, LocalSet ''refreshToken'' r,
            LocalSet ''loginSuccess'' ''true'']"
    "sessionStorage ?s2 = sessionStorage st" "returnUrl ?s2 = returnUrl st"
    "localStorage ?s2 ''pendingSurveySubmission'' = localStorage st ''pendingSurveySubmission''"
    "JSON_parse ?s2 = JSON_parse st" "JSON_stringify ?s2 = JSON_stringify st"
    "submit_responses ?s2 = submit_responses st"
    by (simp_all add: local_setItem_def emit_def)
  have l2: "localStorage ?s2 ''accessToken'' = Some a"
    "localStorage ?s2 ''refreshToken'' = Some r"
    "localStorage ?s2 ''loginSuccess'' = Some ''true''"
    by (simp_all add: local_setItem_def emit_def)
  have e: "events_since st (handleGoogleLoginResponse credential st) =
      drop (length (trace st)) (trace (redirect_after_login s3))"
    unfolding h by (simp add: events_since_def)
  have l: "\<And>k. localStorage (handleGoogleLoginResponse credential st) k =
      localStorage (redirect_after_login s3) k"
    unfolding h by simp
  have s: "localStorage (handleGoogleLoginResponse credential st) ''accessToken'' = Some a"
    "localStorage (handleGoogleLoginResponse credential st) ''refreshToken'' = Some r"
    "localStorage (handleGoogleLoginResponse credential st) ''loginSuccess'' = Some ''true''"
    unfolding l using login_tail_storage[OF f] l2 by simp_all
  from login_tail[OF f t2] s show ?thesis
    unfolding e by blast
qed

lemma invalid_form_silent:
  "String_trim st (username st) = [] \<or> password st = [] \<Longrightarrow>
   events_since st (handleSubmit st) = []"
  by (auto simp: handleSubmit_def validateForm_eq events_since_def)

text \<open>
  Claim C7. A submission that passes validation and whose login call succeeds adds these
  events, in this order: the login call (which persists the access and the refresh
  token), the login-success flag, the events of the flush of a queued survey submission,
  and the redirect: to the URL saved in tab storage (which is removed first) when there
  is one, else to the route's \<^verbatim>\<open>returnUrl\<close> when there is one, else to \<open>/\<close>. The flush
  adds nothing when no submission is queued; when one is queued it removes it from durable
  storage and writes a result record, and when the queued payload is well formed and the
  submission resolves, the flush is exactly the submission, the removal and the success
  record. The identity-provider path does the same, storing itself the two tokens it reads
  from the answer. A form with a blank username or an empty password does nothing external
  at all, so the login call is only made after validation found both fields filled in.
\<close>

theorem login_success_sequence:
  "(\<forall>t. String_trim st (username st) \<noteq> [] \<and> password st \<noteq> [] \<and>
        login_response st = Inr t \<longrightarrow>
      (\<exists>flush.
         list_all flush_event flush \<and>
         events_since st (handleSubmit st) =
           [LoginCall (username st) (password st),
            LocalSet ''accessToken'' (accessToken t),
            LocalSet ''refreshToken'' (refreshToken t),
            LocalSet ''loginSuccess'' ''true''] @ flush @
           (if \<not> no_text (sessionStorage st ''redirectAfterLogin'') then
            [SessionRemove ''redirectAfterLogin'',
             Redirect (case sessionStorage st ''redirectAfterLogin'' of
                         Some target \<Rightarrow> target | None \<Rightarrow> [])]
          else if \<not> no_text (returnUrl st) then
            [Redirect (case returnUrl st of Some target \<Rightarrow> target | None \<Rightarrow> [])]
          else [Redirect ''/'']) \<and>
         (no_text (localStorage st ''pendingSurveySubmission'') \<longrightarrow> flush = []) \<and>
         (\<forall>payload. localStorage st ''pendingSurveySubmission'' = Some payload \<and>
            payload \<noteq> [] \<longrightarrow>
            LocalRemove ''pendingSurveySubmission'' \<in> set flush \<and>
            (\<exists>v. LocalSet ''surveySubmissionResult'' v \<in> set flush)) \<and>
         (\<forall>payload data sid opts rest.
            localStorage st ''pendingSurveySubmission'' = Some payload \<and> payload \<noteq> [] \<and>
            JSON_parse st payload = Some data \<and>
            js_get data ''surveyId'' = Some sid \<and> truthy sid \<and>
            js_get data ''selectedOptionIds'' = Some opts \<and> truthy opts \<and>
            submit_responses st = None # rest \<longrightarrow>
            flush = [SubmitSurvey sid opts, LocalRemove ''pendingSurveySubmission'',
                     LocalSet ''surveySubmissionResult''
                       (JSON_stringify st
                          (survey_result True ''Luu khao sat thanh cong''))])) \<and>
      localStorage (handleSubmit st) ''accessToken'' = Some (accessToken t) \<and>
      localStorage (handleSubmit st) ''refreshToken'' = Some (refreshToken t) \<and>
      localStorage (handleSubmit st) ''loginSuccess'' = Some ''true'') \<and>
   (\<forall>data a r.
      google_response st = Inr data \<and> data \<noteq> JNull \<and>
      js_String_opt (js_get data ''accessToken'') = Some a \<and>
      js_String_opt (js_get data ''refreshToken'') = Some r \<longrightarrow>
      (\<exists>flush.
         list_all flush_event flush \<and>
         events_since st (handleGoogleLoginResponse credential st) =
           [GoogleLoginCall credential,
            LocalSet ''accessToken'' a,
            LocalSet ''refreshToken'' r,
            LocalSet ''loginSuccess'' ''true''] @ flush @
           (if \<not> no_text (sessionStorage st ''redirectAfterLogin'') then
            [SessionRemove ''redirectAfterLogin'',
             Redirect (case sessionStorage st ''redirectAfterLogin'' of
                         Some target \<Rightarrow> target | None \<Rightarrow> [])]
          else if \<not> no_text (returnUrl st) then
            [Redirect (case returnUrl st of Some target \<Rightarrow> target | None \<Rightarrow> [])]
          else [Redirect ''/'']) \<and>
         (no_text (localStorage st ''pendingSurveySubmission'') \<longrightarrow> flush = []) \<and>
         (\<forall>payload. localStorage st ''pendingSurveySubmission'' = Some payload \<and>
            payload \<noteq> [] \<longrightarrow>
            LocalRemove ''pendingSurveySubmission'' \<in> set flush \<and>
            (\<exists>v. LocalSet ''surveySubmissionResult'' v \<in> set flush)) \<and>
         (\<forall>payload data sid opts rest.
            localStorage st ''pendingSurveySubmission'' = Some payload \<and> payload \<noteq> [] \<and>
            JSON_parse st payload = Some data \<and>
            js_get data ''surveyId'' = Some sid \<and> truthy sid \<and>
            js_get data ''selectedOptionIds'' = Some opts \<and> truthy opts \<and>
            submit_responses st = None # rest \<longrightarrow>
            flush = [SubmitSurvey sid opts, LocalRemove ''pendingSurveySubmission'',
                     LocalSet ''surveySubmissionResult''
                       (JSON_stringify st
                          (survey_result True ''Luu khao sat thanh cong''))])) \<and>
      localStorage (handleGoogleLoginResponse credential st) ''accessToken'' = Some a \<and>
      localStorage (handleGoogleLoginResponse credential st) ''refreshToken'' = Some r \<and>
      localStorage (handleGoogleLoginResponse credential st) ''loginSuccess'' = Some ''true'') \<and>
   (String_trim st (username st) = [] \<or> password st = [] \<longrightarrow>
      events_since st (handleSubmit st) = []) \<and>
   (filter is_login_call (events_since st (handleSubmit st)) \<noteq> [] \<longrightarrow>
      String_trim st (username st) \<noteq> [] \<and> password st \<noteq> [])"
proof (intro conjI allI impI)
  fix t
  assume "String_trim st (username st) \<noteq> [] \<and> password st \<noteq> [] \<and> login_response st = Inr t"
  then have h: "String_trim st (username st) \<noteq> []" "password st \<noteq> []"
    "login_response st = Inr t"
    by simp_all
  note s = login_succeeded[OF h]
  from s show "\<exists>flush.
         list_all flush_event flush \<and>
         events_since st (handleSubmit st) =
           [LoginCall (username st) (password st),
            LocalSet ''accessToken'' (accessToken t),
            LocalSet ''refreshToken'' (refreshToken t),
            LocalSet ''loginSuccess'' ''true''] @ flush @
           (if \<not> no_text (sessionStorage st ''redirectAfterLogin'') then
            [SessionRemove ''redirectAfterLogin'',
             Redirect (case sessionStorage st ''redirectAfterLogin'' of
                         Some target \<Rightarrow> target | None \<Rightarrow> [])]
          else if \<not> no_text (returnUrl st) then
            [Redirect (case returnUrl st of Some target \<Rightarrow> target | None \<Rightarrow> [])]
          else [Redirect ''/'']) \<and>
         (no_text (localStorage st ''pendingSurveySubmission'') \<longrightarrow> flush = []) \<and>
         (\<forall>payload. localStorage st ''pendingSurveySubmission'' = Some payload \<and>
            payload \<noteq> [] \<longrightarrow>
            LocalRemove ''pendingSurveySubmission'' \<in> set flush \<and>
            (\<exists>v. LocalSet ''surveySubmissionResult'' v \<in> set flush)) \<and>
         (\<forall>payload data sid opts rest.
            localStorage st ''pendingSurveySubmission'' = Some payload \<and> payload \<noteq> [] \<and>
            JSON_parse st payload = Some data \<and>
            js_get data ''surveyId'' = Some sid \<and> truthy sid \<and>
            js_get data ''selectedOptionIds'' = Some opts \<and> truthy opts \<and>
            submit_responses st = None # rest \<longrightarrow>
            flush = [SubmitSurvey sid opts, LocalRemove ''pendingSurveySubmission'',
                     LocalSet ''surveySubmissionResult''
                       (JSON_stringify st
                          (survey_result True ''Luu khao sat thanh cong''))])"
    by (rule conjunct1)
  from s show "localStorage (handleSubmit st) ''accessToken'' = Some (accessToken t)"
    by (rule conjunct2[THEN conjunct1])
  from s show "localStorage (handleSubmit st) ''refreshToken'' = Some (refreshToken t)"
    by (rule conjunct2[THEN conjunct2, THEN conjunct1])
  from s show "localStorage (handleSubmit st) ''loginSuccess'' = Some ''true''"
    by (rule conjunct2[THEN conjunct2, THEN conjunct2])
next
  fix data a r
  assume "google_response st = Inr data \<and> data \<noteq> JNull \<and>
      js_String_opt (js_get data ''accessToken'') = Some a \<and>
      js_String_opt (js_get data ''refreshToken'') = Some r"
  then have h: "google_response st = Inr data" "data \<noteq> JNull"
    "js_String_opt (js_get data ''accessToken'') = Some a"
    "js_String_opt (js_get data ''refreshToken'') = Some r"
    by simp_all
  note s = google_succeeded[OF h, of credential]
  from s show "\<exists>flush.
         list_all flush_event flush \<and>
         events_since st (handleGoogleLoginResponse credential st) =
           [GoogleLoginCall credential,
            LocalSet ''accessToken'' a,
            LocalSet ''refreshToken'' r,
            LocalSet ''loginSuccess'' ''true''] @ flush @
           (if \<not> no_text (sessionStorage st ''redirectAfterLogin'') then
            [SessionRemove ''redirectAfterLogin'',
             Redirect (case sessionStorage st ''redirectAfterLogin'' of
                         Some target \<Rightarrow> target | None \<Rightarrow> [])]
          else if \<not> no_text (returnUrl st) then
            [Redirect (case returnUrl st of Some target \<Rightarrow> target | None \<Rightarrow> [])]
          else [Redirect ''/'']) \<and>
         (no_text (localStorage st ''pendingSurveySubmission'') \<longrightarrow> flush = []) \<and>
         (\<forall>payload. localStorage st ''pendingSurveySubmission'' = Some payload \<and>
            payload \<noteq> [] \<longrightarrow>
            LocalRemove ''pendingSurveySubmission'' \<in> set flush \<and>
            (\<exists>v. LocalSet ''surveySubmissionResult'' v \<in> set flush)) \<and>
         (\<forall>payload data sid opts rest.
            localStorage st ''pendingSurveySubmission'' = Some payload \<and> payload \<noteq> [] \<and>
            JSON_parse st payload = Some data \<and>
            js_get data ''surveyId'' = Some sid \<and> truthy sid \<and>
            js_get data ''selectedOptionIds'' = Some opts \<and> truthy opts \<and>
            submit_responses st = None # rest \<longrightarrow>
            flush = [SubmitSurvey sid opts, LocalRemove ''pendingSurveySubmission'',
                     LocalSet ''surveySubmissionResult''
                       (JSON_stringify st
                          (survey_result True ''Luu khao sat thanh cong''))])"
    by (rule conjunct1)
  from s show "localStorage (handleGoogleLoginResponse credential st) ''accessToken'' = Some a"
    by (rule conjunct2[THEN conjunct1])
  from s show "localStorage (handleGoogleLoginResponse credential st) ''refreshToken'' = Some r"
    by (rule conjunct2[THEN conjunct2, THEN conjunct1])
  from s show "localStorage (handleGoogleLoginResponse credential st) ''loginSuccess'' =
      Some ''true''"
    by (rule conjunct2[THEN conjunct2, THEN conjunct2])
next
  assume "String_trim st (username st) = [] \<or> password st = []"
  then show "events_since st (handleSubmit st) = []"
    by (rule invalid_form_silent)
next
  assume e: "filter is_login_call (events_since st (handleSubmit st)) \<noteq> []"
  have n: "\<not> (String_trim st (username st) = [] \<or> password st = [])"
  proof
    assume "String_trim st (username st) = [] \<or> password st = []"
    from invalid_form_silent[OF this] e show False by simp
  qed
  from n show "String_trim st (username st) \<noteq> []" by simp
  from n show "password st \<noteq> []" by simp
qed

text \<open>
  Claim C7 at concrete states. The filled form, with a queued survey submission that the
  server accepts, a saved redirect to \<open>/courses\<close> and a login that returns the tokens
  \<open>a1\<close> and \<open>r1\<close>: the whole trace, in order. The same form when the server rejects the
  queued submission: it is removed all the same. The identity-provider path with tokens
  \<open>a2\<close> and \<open>r2\<close>, nothing queued and nowhere to return to. And a form whose
  username is two spaces, and the empty form: no login call is made.
\<close>

theorem login_success_sequence_witness:
  "trace (handleSubmit
      (filled_form\<lparr>login_response := Inr \<lparr>accessToken = ''a1'', refreshToken = ''r1''\<rparr>,
                   sessionStorage := [''redirectAfterLogin'' \<mapsto> ''/courses''],
                   submit_responses := [None]\<rparr>)) =
     [LoginCall ''an'' ''secret'', LocalSet ''accessToken'' ''a1'',
      LocalSet ''refreshToken'' ''r1'', LocalSet ''loginSuccess'' ''true'',
      SubmitSurvey (JNum ''5'') (JArr [JNum ''1'', JNum ''2'']),
      LocalRemove ''pendingSurveySubmission'',
      LocalSet ''surveySubmissionResult''
        (stringify_result (survey_result True ''Luu khao sat thanh cong'')),
      SessionRemove ''redirectAfterLogin'', Redirect ''/courses''] \<and>
   LocalRemove ''pendingSurveySubmission'' \<in> set (trace (handleSubmit
      (filled_form\<lparr>login_response := Inr \<lparr>accessToken = ''a1'', refreshToken = ''r1''\<rparr>\<rparr>))) \<and>
   trace (handleGoogleLoginResponse ''credential''
      (login_form\<lparr>google_response :=
         Inr (JObj [(''accessToken'', JStr ''a2''), (''refreshToken'', JStr ''r2'')])\<rparr>)) =
     [GoogleLoginCall ''credential'', LocalSet ''accessToken'' ''a2'',
      LocalSet ''refreshToken'' ''r2'', LocalSet ''loginSuccess'' ''true'', Redirect ''/''] \<and>
   trace (handleSubmit (filled_form\<lparr>username := ''  ''\<rparr>)) = [] \<and>
   trace (handleSubmit login_form) = []"
proof -
  let ?w = "filled_form\<lparr>username := ''  ''\<rparr>"
  let ?t = "\<lparr>accessToken = ''a1'', refreshToken = ''r1''\<rparr>"
  let ?a = "filled_form\<lparr>login_response := Inr ?t,
                   sessionStorage := [''redirectAfterLogin'' \<mapsto> ''/courses''],
                   submit_responses := [None]\<rparr>"
  let ?b = "filled_form\<lparr>login_response := Inr ?t\<rparr>"
  let ?d = "JObj [(''accessToken'', JStr ''a2''), (''refreshToken'', JStr ''r2'')]"
  let ?g = "login_form\<lparr>google_response := Inr ?d\<rparr>"
  let ?survey = "JObj [(''surveyId'', JNum ''5''),
       (''selectedOptionIds'', JArr [JNum ''1'', JNum ''2''])]"
  have ha: "String_trim ?a (username ?a) \<noteq> [] \<and> password ?a \<noteq> [] \<and>
      login_response ?a = Inr ?t"
    "trace ?a = []" "username ?a = ''an''" "password ?a = ''secret''"
    "sessionStorage ?a ''redirectAfterLogin'' = Some ''/courses''"
    "JSON_stringify ?a = stringify_result"
    by (simp_all add: filled_form_def login_form_def ascii_trim_def is_space_def)
  have pa: "localStorage ?a ''pendingSurveySubmission'' = Some survey_text \<and>
      survey_text \<noteq> [] \<and> JSON_parse ?a survey_text = Some ?survey \<and>
      js_get ?survey ''surveyId'' = Some (JNum ''5'') \<and> truthy (JNum ''5'') \<and>
      js_get ?survey ''selectedOptionIds'' = Some (JArr [JNum ''1'', JNum ''2'']) \<and>
      truthy (JArr [JNum ''1'', JNum ''2'']) \<and> submit_responses ?a = None # []"
    by (simp add: filled_form_def login_form_def survey_text_def parse_survey_def)
  have hb: "String_trim ?b (username ?b) \<noteq> [] \<and> password ?b \<noteq> [] \<and>
      login_response ?b = Inr ?t"
    "trace ?b = []"
    "localStorage ?b ''pendingSurveySubmission'' = Some survey_text \<and> survey_text \<noteq> []"
    by (simp_all add: filled_form_def login_form_def ascii_trim_def is_space_def
        survey_text_def)
  have hg: "google_response ?g = Inr ?d \<and> ?d \<noteq> JNull \<and>
      js_String_opt (js_get ?d ''accessToken'') = Some ''a2'' \<and>
      js_String_opt (js_get ?d ''refreshToken'') = Some ''r2''"
    "trace ?g = []" "sessionStorage ?g ''redirectAfterLogin'' = None" "returnUrl ?g = None"
    "no_text (localStorage ?g ''pendingSurveySubmission'')"
    by (simp_all add: login_form_def no_text_def js_String_opt_def)
  have hl: "String_trim login_form (username login_form) = []" "trace login_form = []"
    by (simp_all add: login_form_def ascii_trim_def)
  from login_success_sequence[of ?a "''credential''", THEN conjunct1, rule_format, OF ha(1)]
  obtain f1 where f1: "events_since ?a (handleSubmit ?a) =
      [LoginCall (username ?a) (password ?a), LocalSet ''accessToken'' (accessToken ?t),
       LocalSet ''refreshToken'' (refreshToken ?t), LocalSet ''loginSuccess'' ''true''] @ f1 @
      (if \<not> no_text (sessionStorage ?a ''redirectAfterLogin'') then
            [SessionRemove ''redirectAfterLogin'',
             Redirect (case sessionStorage ?a ''redirectAfterLogin'' of
                         Some target \<Rightarrow> target | None \<Rightarrow> [])]
          else if \<not> no_text (returnUrl ?a) then
            [Redirect (case returnUrl ?a of Some target \<Rightarrow> target | None \<Rightarrow> [])]
          else [Redirect ''/''])"
    and g1: "\<forall>payload data sid opts rest.
            localStorage ?a ''pendingSurveySubmission'' = Some payload \<and> payload \<noteq> [] \<and>
            JSON_parse ?a payload = Some data \<and>
            js_get data ''surveyId'' = Some sid \<and> truthy sid \<and>
            js_get data ''selectedOptionIds'' = Some opts \<and> truthy opts \<and>
            submit_responses ?a = None # rest \<longrightarrow>
            f1 = [SubmitSurvey sid opts, LocalRemove ''pendingSurveySubmission'',
                     LocalSet ''surveySubmissionResult''
                       (JSON_stringify ?a
                          (survey_result True ''Luu khao sat thanh cong''))]"
    by blast
  from g1[rule_format, OF pa] have f1v: "f1 =
      [SubmitSurvey (JNum ''5'') (JArr [JNum ''1'', JNum ''2'']),
       LocalRemove ''pendingSurveySubmission'',
       LocalSet ''surveySubmissionResult''
         (JSON_stringify ?a (survey_result True ''Luu khao sat thanh cong''))]" .
  have a: "trace (handleSubmit ?a) =
     [LoginCall ''an'' ''secret'', LocalSet ''accessToken'' ''a1'',
      LocalSet ''refreshToken'' ''r1'', LocalSet ''loginSuccess'' ''true'',
      SubmitSurvey (JNum ''5'') (JArr [JNum ''1'', JNum ''2'']),
      LocalRemove ''pendingSurveySubmission'',
      LocalSet ''surveySubmissionResult''
        (stringify_result (survey_result True ''Luu khao sat thanh cong'')),
      SessionRemove ''redirectAfterLogin'', Redirect ''/courses'']"
    using f1 ha(2-6) unfolding f1v by (simp add: events_since_def no_text_def)
  from login_success_sequence[of ?b "''credential''", THEN conjunct1, rule_format, OF hb(1)]
  obtain f2 where f2: "events_since ?b (handleSubmit ?b) =
      [LoginCall (username ?b) (password ?b), LocalSet ''accessToken'' (accessToken ?t),
       LocalSet ''refreshToken'' (refreshToken ?t), LocalSet ''loginSuccess'' ''true''] @ f2 @
      (if \<not> no_text (sessionStorage ?b ''redirectAfterLogin'') then
            [SessionRemove ''redirectAfterLogin'',
             Redirect (case sessionStorage ?b ''redirectAfterLogin'' of
                         Some target \<Rightarrow> target | None \<Rightarrow> [])]
          else if \<not> no_text (returnUrl ?b) then
            [Redirect (case returnUrl ?b of Some target \<Rightarrow> target | None \<Rightarrow> [])]
          else [Redirect ''/''])"
    and g2: "\<forall>payload. localStorage ?b ''pendingSurveySubmission'' = Some payload \<and>
            payload \<noteq> [] \<longrightarrow>
            LocalRemove ''pendingSurveySubmission'' \<in> set f2 \<and>
            (\<exists>v. LocalSet ''surveySubmissionResult'' v \<in> set f2)"
    by blast
  from g2[rule_format, OF hb(3)] have "LocalRemove ''pendingSurveySubmission'' \<in> set f2"
    by simp
  then have b: "LocalRemove ''pendingSurveySubmission'' \<in> set (trace (handleSubmit ?b))"
    using f2 hb(2) by (simp add: events_since_def)
  from login_success_sequence[of ?g "''credential''", THEN conjunct2, THEN conjunct1,
      rule_format, OF hg(1)]
  obtain f3 where f3: "events_since ?g (handleGoogleLoginResponse ''credential'' ?g) =
      [GoogleLoginCall ''credential'', LocalSet ''accessToken'' ''a2'',
       LocalSet ''refreshToken'' ''r2'', LocalSet ''loginSuccess'' ''true''] @ f3 @
      (if \<not> no_text (sessionStorage ?g ''redirectAfterLogin'') then
            [SessionRemove ''redirectAfterLogin'',
             Redirect (case sessionStorage ?g ''redirectAfterLogin'' of
                         Some target \<Rightarrow> target | None \<Rightarrow> [])]
          else if \<not> no_text (returnUrl ?g) then
            [Redirect (case returnUrl ?g of Some target \<Rightarrow> target | None \<Rightarrow> [])]
          else [Redirect ''/''])"
    and g3: "no_text (localStorage ?g ''pendingSurveySubmission'') \<longrightarrow> f3 = []"
    by blast
  from g3 hg(5) have f3v: "f3 = []" by simp
  have g: "trace (handleGoogleLoginResponse ''credential'' ?g) =
     [GoogleLoginCall ''credential'', LocalSet ''accessToken'' ''a2'',
      LocalSet ''refreshToken'' ''r2'', LocalSet ''loginSuccess'' ''true'', Redirect ''/'']"
    using f3 hg(2-4) unfolding f3v by (simp add: events_since_def no_text_def)
  from login_success_sequence[of login_form "''credential''", THEN conjunct2, THEN conjunct2,
      THEN conjunct1] hl
  have e: "trace (handleSubmit login_form) = []"
    by (simp add: events_since_def)
  have hw: "String_trim ?w (username ?w) = []" "trace ?w = []"
    by (simp_all add: filled_form_def login_form_def ascii_trim_def is_space_def)
  from login_success_sequence[of ?w "''credential''", THEN conjunct2, THEN conjunct2,
      THEN conjunct1] hw
  have w: "trace (handleSubmit ?w) = []"
    by (simp add: events_since_def)
  from a b g w e show ?thesis
    by (intro conjI)
qed

end
